theory Spec2Isabelle
  imports Main "HOL-Library.Word"
begin

unbundle bit_operations_syntax

section \<open>Bytes, errors and results\<close>

type_synonym byte = "8 word"
type_synonym bytes = "byte list"

text \<open>
  The errors the modelled functions of \<^verbatim>\<open>p2p/rlpx.go\<close> return, one constructor per
  \<^verbatim>\<open>errors.New\<close> / \<^verbatim>\<open>fmt.Errorf\<close> site or per failing collaborator.
\<close>

datatype error =
    ErrEOF                          \<comment> \<open>io.ReadFull: nothing could be read\<close>
  | ErrUnexpectedEOF                \<comment> \<open>io.ReadFull: fewer bytes than asked for\<close>
  | ErrDecrypt                      \<comment> \<open>"Decrypt error"\<close>
  | ErrAuthRespVersion "64 word"    \<comment> \<open>"enc AuthResp %d version error"\<close>
  | ErrHandshakeVersion "64 word"   \<comment> \<open>"enc handshake %d version error"\<close>
  | ErrInitiatorCertSizeZero        \<comment> \<open>"initiator remote cert size  equal 0"\<close>
  | ErrReceiverCertSizeZero         \<comment> \<open>"receiver remote cert size  equal 0"\<close>
  | ErrRemoteCertSize               \<comment> \<open>"remote cert size error"\<close>
  | ErrCertNotMatch                 \<comment> \<open>"cert not match private key"\<close>
  | ErrVerifyCert                   \<comment> \<open>the error of cm.list.VerifyCert\<close>
  | ErrFromCertBytes                \<comment> \<open>the error of crypto.FromCertBytesToPubKey\<close>
  | ErrGenerateShared               \<comment> \<open>the error of crypto.GenerateShared\<close>
  | ErrSign                         \<comment> \<open>the error of crypto.Sign\<close>
  | ErrSigToPub                     \<comment> \<open>the error of crypto.SigToPub\<close>
  | ErrEncrypt                      \<comment> \<open>the error of crypto.Encrypt\<close>
  | ErrRlpEncode                    \<comment> \<open>the error of rlp.EncodeToBytes\<close>
  | ErrRlpDecode                    \<comment> \<open>the error of rlp.Decode\<close>
  | ErrInvalidPubkeyLength nat      \<comment> \<open>"invalid public key length %v (expect 64/65)"\<close>
  | ErrInvalidPubkey                \<comment> \<open>crypto.errInvalidPubkey\<close>
  | ErrPlainMessageTooLarge         \<comment> \<open>errPlainMessageTooLarge, "message length >= 16MB"\<close>
  | ErrMessageSizeOverflowsUint24   \<comment> \<open>"message size overflows uint24"\<close>
  | ErrBadHeaderMAC                 \<comment> \<open>"bad header MAC"\<close>
  | ErrBadFrameMAC                  \<comment> \<open>"bad frame MAC"\<close>
  | ErrSnappy                       \<comment> \<open>the error of snappy.DecodedLen / snappy.Decode\<close>

text \<open>
  A Go call either returns a value, returns an error, or panics (the goroutine
  crashes); the three are kept apart.
\<close>

datatype 'a result = OK 'a | Error error | Panic string

definition andThen :: "'a result \<Rightarrow> ('a \<Rightarrow> 'b result) \<Rightarrow> 'b result" where
  "andThen r f = (case r of OK x \<Rightarrow> f x | Error e \<Rightarrow> Error e | Panic s \<Rightarrow> Panic s)"

definition isOK :: "'a result \<Rightarrow> bool" where
  "isOK r = (case r of OK x \<Rightarrow> True | Error e \<Rightarrow> False | Panic s \<Rightarrow> False)"

text \<open>The spec's error classes, as sets of the code's errors.\<close>

definition isFrameTooLarge :: "error \<Rightarrow> bool" where
  "isFrameTooLarge e = (e = ErrPlainMessageTooLarge \<or> e = ErrMessageSizeOverflowsUint24)"

definition isMacMismatch :: "error \<Rightarrow> bool" where
  "isMacMismatch e = (e = ErrBadHeaderMAC \<or> e = ErrBadFrameMAC)"

definition isVersionMismatch :: "error \<Rightarrow> bool" where
  "isVersionMismatch e = (case e of ErrAuthRespVersion v \<Rightarrow> True | ErrHandshakeVersion v \<Rightarrow> True | _ \<Rightarrow> False)"

section \<open>Constants of rlpx.go\<close>

definition maxUint24 :: "32 word" where
  "maxUint24 = drop_bit 8 (NOT 0)"

definition sskLen :: nat where "sskLen = 16"
definition sigLen :: nat where "sigLen = 98"
definition pubLen :: nat where "pubLen = 64"
definition shaLen :: nat where "shaLen = 32"
definition certSize :: nat where "certSize = 2"

text \<open>\<^verbatim>\<open>authRLPDecLen = -25\<close> and \<^verbatim>\<open>authRespRLPIncLen = 5\<close> enter only these two sums.\<close>

definition authMsgLen :: nat where
  "authMsgLen = nat (int sigLen + int shaLen + int pubLen + int shaLen + 1 + (- 25) + int certSize)"

definition authRespLen :: nat where
  "authRespLen = pubLen + shaLen + 1 + 5 + certSize"

definition eciesOverhead :: nat where
  "eciesOverhead = 65 + 16 + 32"

definition encAuthMsgLen :: nat where
  "encAuthMsgLen = authMsgLen + eciesOverhead"

definition encAuthRespLen :: nat where
  "encAuthRespLen = authRespLen + eciesOverhead"

definition TaiRLPXVersion :: "64 word" where
  "TaiRLPXVersion = 15"

definition zeroHeader :: bytes where
  "zeroHeader = [0xC2, 0x80, 0x80]"

definition zero16 :: bytes where
  "zero16 = replicate 16 0"

section \<open>Small helpers of rlpx.go\<close>

text \<open>
  \<^verbatim>\<open>xor(one, other)\<close>: a fresh slice as long as \<open>one\<close>; the loop indexes \<open>other\<close> with the
  indices of \<open>one\<close>, so a shorter \<open>other\<close> is an index-out-of-range panic.
\<close>

definition xor :: "bytes \<Rightarrow> bytes \<Rightarrow> bytes result" where
  "xor one other =
     (if length other < length one then Panic ''index out of range''
      else OK (map (\<lambda>i. (one ! i) XOR (other ! i)) [0 ..< length one]))"

definition readInt24 :: "bytes \<Rightarrow> 32 word" where
  "readInt24 b = (ucast (b ! 2)) OR push_bit 8 (ucast (b ! 1)) OR push_bit 16 (ucast (b ! 0))"

definition putInt24 :: "32 word \<Rightarrow> bytes" where
  "putInt24 v = [ucast (drop_bit 16 v), ucast (drop_bit 8 v), ucast v]"

text \<open>Go's \<^verbatim>\<open>copy(dst[:], src)\<close> into a zeroed array of \<open>n\<close> bytes.\<close>

definition copyInto :: "nat \<Rightarrow> bytes \<Rightarrow> bytes" where
  "copyInto n src = take n src @ replicate (n - length src) 0"

section \<open>The symmetric primitives the frame codec is built on\<close>

text \<open>
  The hash, the block cipher, the counter-mode stream, the compressor and the
  tag-length-value coder are libraries outside the repository's files (Go's
  \<^verbatim>\<open>crypto/aes\<close>, \<^verbatim>\<open>crypto/cipher\<close>, \<^verbatim>\<open>x/crypto/sha3\<close>, \<^verbatim>\<open>snappy\<close>, package \<^verbatim>\<open>rlp\<close>). The codec is
  modelled over any such family of functions:
  \<^item> \<open>legacyKeccak256 bs\<close>: \<^verbatim>\<open>Sum(nil)\<close> of a \<^verbatim>\<open>sha3.NewLegacyKeccak256()\<close> that absorbed \<open>bs\<close>
    (32 bytes); a running \<^verbatim>\<open>hash.Hash\<close> is modelled by the bytes written to it so far;
  \<^item> \<open>aesEncrypt key block\<close>: \<^verbatim>\<open>cipher.Block.Encrypt\<close> of one 16-byte block;
  \<^item> \<open>ctrKeystream key n\<close>: byte \<open>n\<close> of the key stream of \<^verbatim>\<open>cipher.NewCTR\<close> over
    \<^verbatim>\<open>aes.NewCipher(key)\<close> with the all-zero IV;
  \<^item> \<open>rlpEncodeUint\<close>, \<open>rlpDecodeUint\<close>: \<^verbatim>\<open>rlp.EncodeToBytes(msg.Code)\<close> and
    \<^verbatim>\<open>rlp.Decode(content, &msg.Code)\<close>; decoding returns the value and the unread rest;
  \<^item> \<open>snappyEncode\<close>, \<open>snappyDecodedLen\<close>, \<open>snappyDecode\<close>: the three snappy calls.
\<close>

record cipherSuite =
  legacyKeccak256 :: "bytes \<Rightarrow> bytes"
  aesEncrypt :: "bytes \<Rightarrow> bytes \<Rightarrow> bytes"
  ctrKeystream :: "bytes \<Rightarrow> nat \<Rightarrow> byte"
  rlpEncodeUint :: "64 word \<Rightarrow> bytes"
  rlpDecodeUint :: "bytes \<Rightarrow> (64 word \<times> bytes) option"
  snappyEncode :: "bytes \<Rightarrow> bytes"
  snappyDecodedLen :: "bytes \<Rightarrow> nat option"
  snappyDecode :: "bytes \<Rightarrow> bytes option"

section \<open>The frame codec: rlpxFrameRW\<close>

text \<open>\<^verbatim>\<open>Msg\<close>: the code, the declared size and the payload reader's content.\<close>

record Msg =
  Code :: "64 word"
  Size :: "32 word"
  Payload :: bytes

text \<open>A \<^verbatim>\<open>cipher.Stream\<close> in counter mode: its key and how many key-stream bytes it has used.\<close>

record ctrStream =
  ctrKey :: bytes
  ctrPos :: nat

text \<open>
  \<^verbatim>\<open>rlpxFrameRW\<close>. The connection is the bytes still to be read (\<open>connIn\<close>) and the bytes
  written so far (\<open>connOut\<close>); the two MAC hashes are the bytes each has absorbed.
\<close>

record rlpxFrameRW =
  connIn :: bytes
  connOut :: bytes
  enc :: ctrStream
  dec :: ctrStream
  macCipher :: bytes
  egressMAC :: bytes
  ingressMAC :: bytes
  snappy :: bool

definition XORKeyStream :: "cipherSuite \<Rightarrow> ctrStream \<Rightarrow> bytes \<Rightarrow> bytes \<times> ctrStream" where
  "XORKeyStream cs s src =
     (map2 (XOR) src (map (ctrKeystream cs (ctrKey s)) [ctrPos s ..< ctrPos s + length src]),
      s\<lparr>ctrPos := ctrPos s + length src\<rparr>)"

text \<open>
  \<^verbatim>\<open>updateMAC(mac, block, seed)\<close>: encrypt the first block of the current digest, XOR the
  16 bytes of \<open>aesbuf\<close> with the seed's first bytes, write them to the hash, return the
  first 16 bytes of the new digest. The result is the tag and the hash's new content.
\<close>

definition updateMAC :: "cipherSuite \<Rightarrow> bytes \<Rightarrow> bytes \<Rightarrow> bytes \<Rightarrow> bytes \<times> bytes" where
  "updateMAC cs mac block seed =
     (let aesbuf = aesEncrypt cs block (take 16 (legacyKeccak256 cs mac));
          aesbuf' = map2 (XOR) aesbuf seed;
          mac' = mac @ aesbuf'
      in (take 16 (legacyKeccak256 cs mac'), mac'))"

text \<open>
  \<^verbatim>\<open>io.ReadFull(conn, buf)\<close> with \<open>len(buf) = n\<close>: the bytes and the rest of the input, or
  EOF / unexpected EOF when the input ends first.
\<close>

definition ReadFull :: "nat \<Rightarrow> bytes \<Rightarrow> (bytes \<times> bytes) result" where
  "ReadFull n inp =
     (if n \<le> length inp then OK (take n inp, drop n inp)
      else if inp = [] then Error ErrEOF else Error ErrUnexpectedEOF)"

text \<open>
  The \<^verbatim>\<open>cipher.StreamWriter\<close> over \<^verbatim>\<open>io.MultiWriter(rw.conn, rw.egressMAC)\<close>: what is written is
  encrypted with \<open>enc\<close> and the ciphertext goes to the connection and into the egress MAC.
\<close>

definition teeWrite :: "cipherSuite \<Rightarrow> rlpxFrameRW \<Rightarrow> bytes \<Rightarrow> rlpxFrameRW" where
  "teeWrite cs rw p =
     (let (c, e) = XORKeyStream cs (enc rw) p
      in rw\<lparr>enc := e, connOut := connOut rw @ c, egressMAC := egressMAC rw @ c\<rparr>)"

text \<open>
  \<^verbatim>\<open>WriteMsg\<close>. The result is the returned error (\<open>None\<close> for \<^verbatim>\<open>nil\<close>) and the codec after the
  call. Writes to the connection do not fail in this model.
\<close>

definition WriteMsg :: "cipherSuite \<Rightarrow> rlpxFrameRW \<Rightarrow> Msg \<Rightarrow> error option \<times> rlpxFrameRW" where
  "WriteMsg cs rw msg0 =
     (let ptype = rlpEncodeUint cs (Code msg0) in
      if snappy rw \<and> Size msg0 > maxUint24 then (Some ErrPlainMessageTooLarge, rw)
      else
        let msg = (if snappy rw
                   then (let payload = snappyEncode cs (Payload msg0)
                         in msg0\<lparr>Payload := payload, Size := of_nat (length payload)\<rparr>)
                   else msg0);
            fsize = (of_nat (length ptype) :: 32 word) + Size msg
        in
        if fsize > maxUint24 then (Some ErrMessageSizeOverflowsUint24, rw)
        else
          let headbuf = putInt24 fsize @ zeroHeader @ replicate 10 0;
              (hdr, e1) = XORKeyStream cs (enc rw) headbuf;
              (hmac, m1) = updateMAC cs (egressMAC rw) (macCipher rw) hdr;
              rw1 = rw\<lparr>enc := e1, egressMAC := m1, connOut := connOut rw @ hdr @ hmac\<rparr>;
              rw2 = teeWrite cs rw1 ptype;
              rw3 = teeWrite cs rw2 (Payload msg);
              padding = fsize mod 16;
              rw4 = (if padding > 0 then teeWrite cs rw3 (take (16 - unat padding) zero16) else rw3);
              fmacseed = legacyKeccak256 cs (egressMAC rw4);
              (mac, m5) = updateMAC cs (egressMAC rw4) (macCipher rw4) fmacseed
          in (None, rw4\<lparr>egressMAC := m5, connOut := connOut rw4 @ mac\<rparr>))"

text \<open>
  \<^verbatim>\<open>ReadMsg\<close>. The result is the message or the error, and the codec after the call
  (the ingress MAC and the input are consumed also on the failing paths, as in the code).
\<close>

definition ReadMsg :: "cipherSuite \<Rightarrow> rlpxFrameRW \<Rightarrow> Msg result \<times> rlpxFrameRW" where
  "ReadMsg cs rw =
     (case ReadFull 32 (connIn rw) of
        Error e \<Rightarrow> (Error e, rw)
      | Panic s \<Rightarrow> (Panic s, rw)
      | OK (headbuf, in1) \<Rightarrow>
          let (shouldMAC, m1) = updateMAC cs (ingressMAC rw) (macCipher rw) (take 16 headbuf);
              rw1 = rw\<lparr>connIn := in1, ingressMAC := m1\<rparr>
          in
          if shouldMAC \<noteq> drop 16 headbuf then (Error ErrBadHeaderMAC, rw1)
          else
            let (hdr, d1) = XORKeyStream cs (dec rw1) (take 16 headbuf);
                rw2 = rw1\<lparr>dec := d1\<rparr>;
                fsize = readInt24 hdr;
                padding = fsize mod 16;
                rsize = (if padding > 0 then fsize + (16 - padding) else fsize)
            in
            (case ReadFull (unat rsize) (connIn rw2) of
               Error e \<Rightarrow> (Error e, rw2)
             | Panic s \<Rightarrow> (Panic s, rw2)
             | OK (framebuf, in2) \<Rightarrow>
                 let rw3 = rw2\<lparr>connIn := in2, ingressMAC := ingressMAC rw2 @ framebuf\<rparr>;
                     fmacseed = legacyKeccak256 cs (ingressMAC rw3)
                 in
                 (case ReadFull 16 (connIn rw3) of
                    Error e \<Rightarrow> (Error e, rw3)
                  | Panic s \<Rightarrow> (Panic s, rw3)
                  | OK (trailer, in3) \<Rightarrow>
                      let (shouldMAC2, m4) = updateMAC cs (ingressMAC rw3) (macCipher rw3) fmacseed;
                          rw4 = rw3\<lparr>connIn := in3, ingressMAC := m4\<rparr>
                      in
                      if shouldMAC2 \<noteq> trailer then (Error ErrBadFrameMAC, rw4)
                      else
                        let (plain, d5) = XORKeyStream cs (dec rw4) framebuf;
                            rw5 = rw4\<lparr>dec := d5\<rparr>;
                            content = take (unat fsize) plain
                        in
                        (case rlpDecodeUint cs content of
                           None \<Rightarrow> (Error ErrRlpDecode, rw5)
                         | Some (c, rest) \<Rightarrow>
                             if snappy rw5 then
                               (case snappyDecodedLen cs rest of
                                  None \<Rightarrow> (Error ErrSnappy, rw5)
                                | Some n \<Rightarrow>
                                    if n > unat maxUint24 then (Error ErrPlainMessageTooLarge, rw5)
                                    else
                                      (case snappyDecode cs rest of
                                         None \<Rightarrow> (Error ErrSnappy, rw5)
                                       | Some payload \<Rightarrow>
                                           (OK \<lparr>Code = c, Size = of_nat n, Payload = payload\<rparr>, rw5)))
                             else (OK \<lparr>Code = c, Size = of_nat (length rest), Payload = rest\<rparr>, rw5)))))"


text \<open>
  \<^verbatim>\<open>newRLPXFrameRW\<close> is defined after the handshake's \<open>secrets\<close>, below.
\<close>

section \<open>The handshake's data\<close>

text \<open>
  \<^verbatim>\<open>authMsgV4\<close> and \<^verbatim>\<open>authRespV4\<close>. The arrays are byte lists (of \<open>sigLen\<close>, \<open>pubLen\<close> and
  \<open>shaLen\<close> bytes once filled with \<open>copyInto\<close>); Go's \<^verbatim>\<open>uint\<close> is 64 bits wide. The
  response's fields carry the prefix \<open>Resp\<close> where the name is taken.
\<close>

record authMsgV4 =
  Signature :: bytes
  InitiatorPubkey :: bytes
  Nonce :: bytes
  Version :: "64 word"
  CertSize :: "16 word"

record authRespV4 =
  RandomPubkey :: bytes
  RespNonce :: bytes
  RespVersion :: "64 word"
  RespCertSize :: "16 word"

text \<open>
  The asymmetric primitives: package \<^verbatim>\<open>crypto\<close>'s entry points the handshake calls (each
  dispatches on the build's \<^verbatim>\<open>CryptoType\<close> to a curve and hash backend outside the
  repository's files), Go's \<^verbatim>\<open>elliptic.Marshal\<close>, and package \<^verbatim>\<open>rlp\<close> on the two messages.
  Keys are opaque: \<open>'sk\<close> a private key, \<open>'pk\<close> a public key.
  \<^item> \<open>Keccak256 bs\<close>: \<^verbatim>\<open>crypto.Keccak256(a, b, ...)\<close> with \<open>bs\<close> the concatenation of its
    arguments (the function writes them to one hash in turn);
  \<^item> \<open>GenerateShared prv pub skLen macLen\<close>, \<open>Sign digest prv\<close>, \<open>SigToPub digest sig\<close>,
    \<open>Decrypt prv ct\<close>, \<open>UnmarshalPubkey\<close>, \<open>FromCertBytesToPubKey\<close>: \<open>None\<close> is the error
    return;
  \<open>Encrypt rnd pub m\<close> takes the bytes it draws from \<^verbatim>\<open>rand.Reader\<close> as \<open>rnd\<close>.
\<close>

record ('sk, 'pk) cryptoSuite =
  PublicKey :: "'sk \<Rightarrow> 'pk"
  Keccak256 :: "bytes \<Rightarrow> bytes"
  GenerateShared :: "'sk \<Rightarrow> 'pk \<Rightarrow> nat \<Rightarrow> nat \<Rightarrow> bytes option"
  Sign :: "bytes \<Rightarrow> 'sk \<Rightarrow> bytes option"
  SigToPub :: "bytes \<Rightarrow> bytes \<Rightarrow> 'pk option"
  Encrypt :: "bytes \<Rightarrow> 'pk \<Rightarrow> bytes \<Rightarrow> bytes option"
  Decrypt :: "'sk \<Rightarrow> bytes \<Rightarrow> bytes option"
  FromECDSAPub :: "'pk \<Rightarrow> bytes"
  UnmarshalPubkey :: "bytes \<Rightarrow> 'pk option"
  ellipticMarshal :: "'pk \<Rightarrow> bytes"
  FromCertBytesToPubKey :: "bytes \<Rightarrow> 'pk option"
  rlpEncodeAuthMsg :: "authMsgV4 \<Rightarrow> bytes option"
  rlpDecodeAuthMsg :: "bytes \<Rightarrow> authMsgV4 option"
  rlpEncodeAuthResp :: "authRespV4 \<Rightarrow> bytes option"
  rlpDecodeAuthResp :: "bytes \<Rightarrow> authRespV4 option"

text \<open>
  \<^verbatim>\<open>certManager\<close>: the local certificate and the trusted list's \<^verbatim>\<open>VerifyCert\<close>
  (\<open>True\<close> when it returns \<^verbatim>\<open>nil\<close>).
\<close>

record certManager =
  cert :: bytes
  VerifyCert :: "bytes \<Rightarrow> bool"

text \<open>
  What one side draws from its random source during a handshake: the bytes \<^verbatim>\<open>rand.Read\<close>
  puts into the nonce, the key \<^verbatim>\<open>crypto.GenerateKey()\<close> returns, and the bytes
  \<^verbatim>\<open>crypto.Encrypt\<close> consumes. The random source itself does not fail in this model.
\<close>

record 'sk entropy =
  randNonce :: bytes
  randKey :: 'sk
  randSeal :: bytes

text \<open>\<^verbatim>\<open>encHandshake\<close>; its field \<^verbatim>\<open>CertSize\<close> is \<open>hsCertSize\<close>. A nil pointer is \<open>None\<close>.\<close>

record ('sk, 'pk) encHandshake =
  hsCertSize :: "16 word"
  initiator :: bool
  remote :: "'pk option"
  initNonce :: bytes
  respNonce :: bytes
  randomPrivKey :: "'sk option"
  remoteRandomPub :: "'pk option"

text \<open>\<^verbatim>\<open>secrets\<close>; the two MAC hashes are the bytes written to them.\<close>

record 'pk secrets =
  Remote :: "'pk option"
  AES :: bytes
  MAC :: bytes
  EgressMAC :: bytes
  IngressMAC :: bytes
  Token :: bytes

section \<open>The connection during the handshake\<close>

text \<open>
  \<open>rd\<close>: the bytes the peer has sent and this side has not read yet; \<open>wr\<close>: the bytes
  this side has written. A step of the handshake takes the connection and returns its
  outcome and the connection after it; \<open>seqIO\<close> runs the next step unless the first
  returned an error or panicked.
\<close>

record conn =
  rd :: bytes
  wr :: bytes

type_synonym 'a io = "conn \<Rightarrow> 'a result \<times> conn"

definition seqIO :: "'a io \<Rightarrow> ('a \<Rightarrow> 'b io) \<Rightarrow> 'b io" where
  "seqIO m f c =
     (case m c of
        (OK x, c') \<Rightarrow> f x c'
      | (Error e, c') \<Rightarrow> (Error e, c')
      | (Panic s, c') \<Rightarrow> (Panic s, c'))"

definition liftIO :: "'a result \<Rightarrow> 'a io" where
  "liftIO r c = (r, c)"

definition connWrite :: "bytes \<Rightarrow> unit io" where
  "connWrite p c = (OK (), c\<lparr>wr := wr c @ p\<rparr>)"

definition connReadFull :: "nat \<Rightarrow> bytes io" where
  "connReadFull n c =
     (case ReadFull n (rd c) of
        OK (buf, rest) \<Rightarrow> (OK buf, c\<lparr>rd := rest\<rparr>)
      | Error e \<Rightarrow> (Error e, c)
      | Panic s \<Rightarrow> (Panic s, c))"

definition fromOption :: "error \<Rightarrow> 'a option \<Rightarrow> 'a result" where
  "fromOption e x = (case x of None \<Rightarrow> Error e | Some y \<Rightarrow> OK y)"

text \<open>\<^verbatim>\<open>binary.BigEndian.PutUint16\<close> and \<^verbatim>\<open>binary.BigEndian.Uint16\<close>.\<close>

definition putUint16 :: "16 word \<Rightarrow> bytes" where
  "putUint16 v = [ucast (drop_bit 8 v), ucast v]"

definition getUint16 :: "bytes \<Rightarrow> 16 word" where
  "getUint16 b = ucast (b ! 1) OR push_bit 8 (ucast (b ! 0))"


section \<open>The encryption handshake\<close>

text \<open>\<^verbatim>\<open>importPublicKey\<close>: 64 bytes get the uncompressed-key flag, 65 are passed on.\<close>

definition importPublicKey :: "('sk, 'pk) cryptoSuite \<Rightarrow> bytes \<Rightarrow> 'pk result" where
  "importPublicKey cs pubKey =
     (if length pubKey = 64 then fromOption ErrInvalidPubkey (UnmarshalPubkey cs (0x04 # pubKey))
      else if length pubKey = 65 then fromOption ErrInvalidPubkey (UnmarshalPubkey cs pubKey)
      else Error (ErrInvalidPubkeyLength (length pubKey)))"

text \<open>\<^verbatim>\<open>exportPubkey\<close>: the marshalled point without its format byte.\<close>

definition exportPubkey :: "('sk, 'pk) cryptoSuite \<Rightarrow> 'pk \<Rightarrow> bytes" where
  "exportPubkey cs pub = drop 1 (ellipticMarshal cs pub)"

text \<open>
  \<^verbatim>\<open>staticSharedSecret\<close>: key agreement between the local static key and \<^verbatim>\<open>h.remote\<close>, with
  \<open>sskLen\<close> passed for both lengths.
\<close>

definition staticSharedSecret ::
  "('sk, 'pk) cryptoSuite \<Rightarrow> ('sk, 'pk) encHandshake \<Rightarrow> 'sk \<Rightarrow> bytes result" where
  "staticSharedSecret cs h prv =
     (case remote h of
        None \<Rightarrow> Panic ''nil pointer dereference''
      | Some r \<Rightarrow> fromOption ErrGenerateShared (GenerateShared cs prv r sskLen sskLen))"

text \<open>
  The message both sides sign or recover from, \<^verbatim>\<open>xor(token, h.initNonce)\<close> with
  \<^verbatim>\<open>token\<close> the static shared secret (the two lines shared by \<^verbatim>\<open>makeAuthMsg\<close> and
  \<^verbatim>\<open>handleAuthMsg\<close>).
\<close>

definition signedDigest ::
  "('sk, 'pk) cryptoSuite \<Rightarrow> ('sk, 'pk) encHandshake \<Rightarrow> 'sk \<Rightarrow> bytes result" where
  "signedDigest cs h prv =
     andThen (staticSharedSecret cs h prv) (\<lambda>token. xor token (initNonce h))"

text \<open>
  \<^verbatim>\<open>secrets\<close>: the session keys and the two seeded MAC hashes, after the handshake values
  are complete.
\<close>

definition secrets ::
  "('sk, 'pk) cryptoSuite \<Rightarrow> ('sk, 'pk) encHandshake \<Rightarrow> bytes \<Rightarrow> bytes \<Rightarrow> 'pk secrets result" where
  "secrets cs h auth authResp =
     (case (randomPrivKey h, remoteRandomPub h) of
        (Some k, Some p) \<Rightarrow>
          andThen (fromOption ErrGenerateShared (GenerateShared cs k p sskLen sskLen))
            (\<lambda>ecdheSecret.
               let sharedSecret = Keccak256 cs (ecdheSecret @ Keccak256 cs (respNonce h @ initNonce h));
                   aesSecret = Keccak256 cs (ecdheSecret @ sharedSecret);
                   macSecret = Keccak256 cs (ecdheSecret @ aesSecret)
               in andThen (xor macSecret (respNonce h)) (\<lambda>seed1.
                  andThen (xor macSecret (initNonce h)) (\<lambda>seed2.
                    let mac1 = seed1 @ auth;
                        mac2 = seed2 @ authResp
                    in OK \<lparr>Remote = remote h, AES = aesSecret, MAC = macSecret,
                           EgressMAC = (if initiator h then mac1 else mac2),
                           IngressMAC = (if initiator h then mac2 else mac1),
                           Token = []\<rparr>)))
      | _ \<Rightarrow> Panic ''nil pointer dereference'')"

text \<open>\<^verbatim>\<open>makeAuthMsg\<close>: the initiator's message and the handshake state with its nonce and key.\<close>

definition makeAuthMsg ::
  "('sk, 'pk) cryptoSuite \<Rightarrow> ('sk, 'pk) encHandshake \<Rightarrow> 'sk \<Rightarrow> 'sk entropy \<Rightarrow>
   (authMsgV4 \<times> ('sk, 'pk) encHandshake) result" where
  "makeAuthMsg cs h prv ent =
     (let h1 = h\<lparr>initNonce := copyInto shaLen (randNonce ent), randomPrivKey := Some (randKey ent)\<rparr>
      in andThen (signedDigest cs h1 prv) (\<lambda>signed.
         andThen (fromOption ErrSign (Sign cs signed (randKey ent))) (\<lambda>signature.
           let pubBytes = FromECDSAPub cs (PublicKey cs prv)
           in if pubBytes = [] then Panic ''slice bounds out of range''
              else OK (\<lparr>Signature = copyInto sigLen signature,
                         InitiatorPubkey = copyInto pubLen (drop 1 pubBytes),
                         Nonce = copyInto shaLen (initNonce h1),
                         Version = TaiRLPXVersion,
                         CertSize = hsCertSize h1\<rparr>, h1))))"

text \<open>
  \<^verbatim>\<open>handleAuthResp\<close>: the nonce and the ephemeral key of the response are stored, the
  version is compared with \<open>TaiRLPXVersion\<close>, and only then the import's error returned.
\<close>

definition handleAuthResp ::
  "('sk, 'pk) cryptoSuite \<Rightarrow> ('sk, 'pk) encHandshake \<Rightarrow> authRespV4 \<Rightarrow>
   ('sk, 'pk) encHandshake result" where
  "handleAuthResp cs h msg =
     (let imported = importPublicKey cs (RandomPubkey msg) in
      if RespVersion msg \<noteq> TaiRLPXVersion then Error (ErrAuthRespVersion (RespVersion msg))
      else andThen imported (\<lambda>p. OK (h\<lparr>respNonce := RespNonce msg, remoteRandomPub := Some p\<rparr>)))"

text \<open>
  \<^verbatim>\<open>handleAuthMsg\<close>: the remote identity is imported from the message, and the remote
  ephemeral key is what \<^verbatim>\<open>crypto.SigToPub\<close> returns for the signed digest.
\<close>

definition handleAuthMsg ::
  "('sk, 'pk) cryptoSuite \<Rightarrow> ('sk, 'pk) encHandshake \<Rightarrow> authMsgV4 \<Rightarrow> 'sk \<Rightarrow> 'sk entropy \<Rightarrow>
   ('sk, 'pk) encHandshake result" where
  "handleAuthMsg cs h msg prv ent =
     andThen (importPublicKey cs (InitiatorPubkey msg)) (\<lambda>rpub.
       let h1 = h\<lparr>initNonce := Nonce msg, remote := Some rpub\<rparr>;
           h2 = (case randomPrivKey h1 of
                   None \<Rightarrow> h1\<lparr>randomPrivKey := Some (randKey ent)\<rparr>
                 | Some k \<Rightarrow> h1)
       in andThen (signedDigest cs h2 prv) (\<lambda>signedMsg.
          andThen (fromOption ErrSigToPub (SigToPub cs signedMsg (Signature msg))) (\<lambda>rrp.
            OK (h2\<lparr>remoteRandomPub := Some rrp\<rparr>))))"

text \<open>\<^verbatim>\<open>makeAuthResp\<close>: the receiver's message and the state with its nonce.\<close>

definition makeAuthResp ::
  "('sk, 'pk) cryptoSuite \<Rightarrow> ('sk, 'pk) encHandshake \<Rightarrow> 'sk entropy \<Rightarrow>
   (authRespV4 \<times> ('sk, 'pk) encHandshake) result" where
  "makeAuthResp cs h ent =
     (let h1 = h\<lparr>respNonce := copyInto shaLen (randNonce ent)\<rparr> in
      case randomPrivKey h1 of
        None \<Rightarrow> Panic ''nil pointer dereference''
      | Some k \<Rightarrow>
          OK (\<lparr>RandomPubkey = copyInto pubLen (exportPubkey cs (PublicKey cs k)),
                RespNonce = copyInto shaLen (respNonce h1),
                RespVersion = TaiRLPXVersion,
                RespCertSize = hsCertSize h1\<rparr>, h1))"

text \<open>
  \<^verbatim>\<open>sealPlain\<close> of either message: the tag-length-value encoding behind the two bytes of
  the certificate size, encrypted to \<^verbatim>\<open>h.remote\<close>.
\<close>

definition sealPlain ::
  "('sk, 'pk) cryptoSuite \<Rightarrow> bytes option \<Rightarrow> 16 word \<Rightarrow> ('sk, 'pk) encHandshake \<Rightarrow> 'sk entropy \<Rightarrow>
   bytes result" where
  "sealPlain cs encoded csize h ent =
     andThen (fromOption ErrRlpEncode encoded) (\<lambda>data.
       case remote h of
         None \<Rightarrow> Panic ''nil pointer dereference''
       | Some r \<Rightarrow> fromOption ErrEncrypt (Encrypt cs (randSeal ent) r (putUint16 csize @ data)))"

definition sealPlainAuthMsg ::
  "('sk, 'pk) cryptoSuite \<Rightarrow> authMsgV4 \<Rightarrow> ('sk, 'pk) encHandshake \<Rightarrow> 'sk entropy \<Rightarrow> bytes result" where
  "sealPlainAuthMsg cs msg h ent = sealPlain cs (rlpEncodeAuthMsg cs msg) (CertSize msg) h ent"

definition sealPlainAuthResp ::
  "('sk, 'pk) cryptoSuite \<Rightarrow> authRespV4 \<Rightarrow> ('sk, 'pk) encHandshake \<Rightarrow> 'sk entropy \<Rightarrow> bytes result" where
  "sealPlainAuthResp cs msg h ent = sealPlain cs (rlpEncodeAuthResp cs msg) (RespCertSize msg) h ent"

text \<open>
  \<^verbatim>\<open>readHandshakeMsg\<close>, over the message's \<^verbatim>\<open>decodePlain\<close> (\<open>None\<close> when \<^verbatim>\<open>rlp.Decode\<close> returns an
  error, on which both implementations call \<^verbatim>\<open>panic("authRespV4 decode error")\<close>) and its
  \<^verbatim>\<open>setCertSize\<close>. It returns the message and the packet read. Slicing a plaintext
  of fewer than two bytes with \<^verbatim>\<open>dec[:2]\<close> is a run-time panic (\<open>plain\<close> is the code's \<^verbatim>\<open>dec\<close>).
\<close>

definition readHandshakeMsg ::
  "('sk, 'pk) cryptoSuite \<Rightarrow> (bytes \<Rightarrow> 'm option) \<Rightarrow> ('m \<Rightarrow> 16 word \<Rightarrow> 'm) \<Rightarrow> nat \<Rightarrow> 'sk \<Rightarrow>
   ('m \<times> bytes) io" where
  "readHandshakeMsg cs decodePlain setCertSize plainSize prv =
     seqIO (connReadFull plainSize) (\<lambda>buf.
       liftIO
         (case Decrypt cs prv buf of
            None \<Rightarrow> Error ErrDecrypt
          | Some plain \<Rightarrow>
              if length plain < 2 then Panic ''slice bounds out of range''
              else
                (let csize = getUint16 (take 2 plain) in
                 case decodePlain (drop 2 plain) of
                   None \<Rightarrow> Panic ''authRespV4 decode error''
                 | Some msg \<Rightarrow> OK (setCertSize msg csize, buf))))"

definition setCertSizeAuthMsg :: "authMsgV4 \<Rightarrow> 16 word \<Rightarrow> authMsgV4" where
  "setCertSizeAuthMsg msg csize = msg\<lparr>CertSize := csize\<rparr>"

definition setCertSizeAuthResp :: "authRespV4 \<Rightarrow> 16 word \<Rightarrow> authRespV4" where
  "setCertSizeAuthResp msg csize = msg\<lparr>RespCertSize := csize\<rparr>"

text \<open>
  The certificate check both sides run on the bytes they read: authority
  verification, key extraction, and equality with \<^verbatim>\<open>h.remote\<close> (\<^verbatim>\<open>reflect.DeepEqual\<close>).
\<close>

definition checkCert ::
  "('sk, 'pk) cryptoSuite \<Rightarrow> certManager \<Rightarrow> ('sk, 'pk) encHandshake \<Rightarrow> bytes \<Rightarrow> unit result" where
  "checkCert cs cm h buf =
     (if \<not> VerifyCert cm buf then Error ErrVerifyCert
      else case FromCertBytesToPubKey cs buf of
             None \<Rightarrow> Error ErrFromCertBytes
           | Some pub \<Rightarrow> if Some pub \<noteq> remote h then Error ErrCertNotMatch else OK ())"

text \<open>
  The handshake state each side starts from: the initiator's
  \<^verbatim>\<open>&encHandshake{initiator: true, remote: remote, CertSize: uint16(size)}\<close> and the
  receiver's \<^verbatim>\<open>new(encHandshake)\<close> with \<^verbatim>\<open>CertSize\<close> set when a certificate manager exists.
\<close>

definition initiatorState :: "certManager option \<Rightarrow> 'pk \<Rightarrow> ('sk, 'pk) encHandshake" where
  "initiatorState cm remotePub =
     \<lparr>hsCertSize = of_nat (case cm of None \<Rightarrow> 0 | Some m \<Rightarrow> length (cert m)),
      initiator = True, remote = Some remotePub,
      initNonce = [], respNonce = [], randomPrivKey = None, remoteRandomPub = None\<rparr>"

definition receiverState :: "certManager option \<Rightarrow> ('sk, 'pk) encHandshake" where
  "receiverState cm =
     \<lparr>hsCertSize = (case cm of None \<Rightarrow> 0 | Some m \<Rightarrow> of_nat (length (cert m))),
      initiator = False, remote = None,
      initNonce = [], respNonce = [], randomPrivKey = None, remoteRandomPub = None\<rparr>"

text \<open>
  The receiver's comparison of the advertised certificate size with its own
  certificate; the result is the code's \<^verbatim>\<open>find\<close>.
\<close>

definition receiverCertSizes :: "certManager option \<Rightarrow> authMsgV4 \<Rightarrow> bool result" where
  "receiverCertSizes cm authMsg =
     (case cm of
        None \<Rightarrow> OK False
      | Some m \<Rightarrow>
          if length (cert m) = 0 then OK False
          else if CertSize authMsg = 0 then Error ErrReceiverCertSizeZero
          else if (of_nat (length (cert m)) :: 16 word) \<noteq> CertSize authMsg
            then Error ErrRemoteCertSize
          else OK True)"

text \<open>
  The certificate exchange inside \<^verbatim>\<open>initiatorEncHandshake\<close> (the block under
  \<^verbatim>\<open>if t.cm != nil && len(t.cm.cert) != 0\<close>): the two size checks, the local certificate
  written, the peer's read and checked.
\<close>

definition initiatorCertExchange ::
  "('sk, 'pk) cryptoSuite \<Rightarrow> certManager option \<Rightarrow> authRespV4 \<Rightarrow> ('sk, 'pk) encHandshake \<Rightarrow>
   unit io" where
  "initiatorCertExchange cs cm authRespMsg h =
     (case cm of
        None \<Rightarrow> liftIO (OK ())
      | Some m \<Rightarrow>
          if length (cert m) = 0 then liftIO (OK ())
          else if RespCertSize authRespMsg = 0 then liftIO (Error ErrInitiatorCertSizeZero)
          else if (of_nat (length (cert m)) :: 16 word) \<noteq> RespCertSize authRespMsg
            then liftIO (Error ErrRemoteCertSize)
          else
            seqIO (connWrite (cert m)) (\<lambda>_.
            seqIO (connReadFull (unat (RespCertSize authRespMsg))) (\<lambda>buf.
            liftIO (checkCert cs m h buf))))"

text \<open>
  The certificate exchange inside \<^verbatim>\<open>receiverEncHandshake\<close> (the block under \<^verbatim>\<open>if find\<close>,
  \<open>found\<close> here): the peer's certificate read and checked, then the local one written.
\<close>

definition receiverCertExchange ::
  "('sk, 'pk) cryptoSuite \<Rightarrow> certManager option \<Rightarrow> bool \<Rightarrow> authMsgV4 \<Rightarrow>
   ('sk, 'pk) encHandshake \<Rightarrow> unit io" where
  "receiverCertExchange cs cm found authMsg h =
     (case cm of
        Some m \<Rightarrow>
          if found then
            seqIO (connReadFull (unat (CertSize authMsg))) (\<lambda>buf.
            seqIO (liftIO (checkCert cs m h buf)) (\<lambda>_.
            connWrite (cert m)))
          else liftIO (OK ())
      | None \<Rightarrow> liftIO (OK ()))"

text \<open>\<^verbatim>\<open>initiatorEncHandshake\<close>, on the dialing side.\<close>

definition initiatorEncHandshake ::
  "('sk, 'pk) cryptoSuite \<Rightarrow> certManager option \<Rightarrow> 'sk \<Rightarrow> 'pk \<Rightarrow> 'sk entropy \<Rightarrow> 'pk secrets io" where
  "initiatorEncHandshake cs cm prv remotePub ent =
     (let h = initiatorState cm remotePub
      in
      seqIO (liftIO (makeAuthMsg cs h prv ent)) (\<lambda>(authMsg, h1).
      seqIO (liftIO (sealPlainAuthMsg cs authMsg h1 ent)) (\<lambda>authPacket.
      seqIO (connWrite authPacket) (\<lambda>_.
      seqIO (readHandshakeMsg cs (rlpDecodeAuthResp cs) setCertSizeAuthResp encAuthRespLen prv)
        (\<lambda>(authRespMsg, authRespPacket).
      seqIO (liftIO (handleAuthResp cs h1 authRespMsg)) (\<lambda>h2.
      seqIO (initiatorCertExchange cs cm authRespMsg h2) (\<lambda>_.
      liftIO (secrets cs h2 authPacket authRespPacket))))))))"

text \<open>
  \<^verbatim>\<open>receiverEncHandshake\<close>, on the listening side. The version of the received message
  is compared after the response has been written.
\<close>

definition receiverEncHandshake ::
  "('sk, 'pk) cryptoSuite \<Rightarrow> certManager option \<Rightarrow> 'sk \<Rightarrow> 'sk entropy \<Rightarrow> 'pk secrets io" where
  "receiverEncHandshake cs cm prv ent =
     seqIO (readHandshakeMsg cs (rlpDecodeAuthMsg cs) setCertSizeAuthMsg encAuthMsgLen prv)
       (\<lambda>(authMsg, authPacket).
     let h = receiverState cm
     in
     seqIO (liftIO (handleAuthMsg cs h authMsg prv ent)) (\<lambda>h1.
     seqIO (liftIO (receiverCertSizes cm authMsg)) (\<lambda>found.
     seqIO (liftIO (makeAuthResp cs h1 ent)) (\<lambda>(authRespMsg, h2).
     seqIO (liftIO (sealPlainAuthResp cs authRespMsg h2 ent)) (\<lambda>authRespPacket.
     seqIO (connWrite authRespPacket) (\<lambda>_.
     if Version authMsg \<noteq> TaiRLPXVersion
       then liftIO (Error (ErrHandshakeVersion (Version authMsg)))
     else
       seqIO (receiverCertExchange cs cm found authMsg h2) (\<lambda>_.
       liftIO (secrets cs h2 authPacket authRespPacket))))))))"

text \<open>
  \<^verbatim>\<open>newRLPXFrameRW\<close>: \<^verbatim>\<open>aes.NewCipher\<close> accepts keys of 16, 24 or 32 bytes and the function
  panics on any other; both streams start at the beginning of the same key stream.
\<close>

definition newRLPXFrameRW :: "conn \<Rightarrow> 'pk secrets \<Rightarrow> rlpxFrameRW result" where
  "newRLPXFrameRW c s =
     (if length (MAC s) \<notin> {16, 24, 32} then Panic ''invalid MAC secret''
      else if length (AES s) \<notin> {16, 24, 32} then Panic ''invalid AES secret''
      else OK \<lparr>connIn = rd c, connOut = wr c,
               enc = \<lparr>ctrKey = AES s, ctrPos = 0\<rparr>, dec = \<lparr>ctrKey = AES s, ctrPos = 0\<rparr>,
               macCipher = MAC s, egressMAC = EgressMAC s, ingressMAC = IngressMAC s,
               snappy = False\<rparr>)"


section \<open>Notions the theorems are stated with\<close>

text \<open>The zero bytes \<^verbatim>\<open>WriteMsg\<close> appends so that the frame body ends on a 16-byte boundary.\<close>

definition framePadding :: "32 word \<Rightarrow> bytes" where
  "framePadding fsize = (if fsize mod 16 > 0 then take (16 - unat (fsize mod 16)) zero16 else [])"

text \<open>
  The frame size \<^verbatim>\<open>WriteMsg\<close> computes (\<^verbatim>\<open>fsize\<close>, in 32-bit arithmetic) and the 16 header
  bytes it builds from it before \<^verbatim>\<open>rw.enc.XORKeyStream\<close> runs over them.
\<close>

definition frameSize :: "cipherSuite \<Rightarrow> rlpxFrameRW \<Rightarrow> Msg \<Rightarrow> 32 word" where
  "frameSize cs rw m =
     of_nat (length (rlpEncodeUint cs (Code m))) +
     (if snappy rw then of_nat (length (snappyEncode cs (Payload m))) else Size m)"

text \<open>The payload as \<^verbatim>\<open>WriteMsg\<close> sends it: compressed when \<^verbatim>\<open>rw.snappy\<close> is set.\<close>

definition wirePayload :: "cipherSuite \<Rightarrow> rlpxFrameRW \<Rightarrow> Msg \<Rightarrow> bytes" where
  "wirePayload cs rw m = (if snappy rw then snappyEncode cs (Payload m) else Payload m)"

definition plainHeader :: "32 word \<Rightarrow> bytes" where
  "plainHeader fsize = putInt24 fsize @ zeroHeader @ replicate 10 0"

text \<open>
  The header MAC as the specification words it: the whitened digest XORed with the
  header bytes as they are before encryption.
\<close>

definition specHeaderMAC :: "cipherSuite \<Rightarrow> rlpxFrameRW \<Rightarrow> Msg \<Rightarrow> bytes" where
  "specHeaderMAC cs rw m =
     take 16 (legacyKeccak256 cs
       (egressMAC rw @
        map2 (XOR) (aesEncrypt cs (macCipher rw) (take 16 (legacyKeccak256 cs (egressMAC rw))))
          (plainHeader (frameSize cs rw m))))"

text \<open>
  A writer \<open>rA\<close> and a reader \<open>rB\<close> are matched when the reader's decrypting stream is
  the writer's encrypting stream, both whiten with the same key, the reader's ingress
  MAC has absorbed what the writer's egress MAC has, and both agree on compression.
\<close>

definition matched :: "rlpxFrameRW \<Rightarrow> rlpxFrameRW \<Rightarrow> bool" where
  "matched rA rB =
     (dec rB = enc rA \<and> macCipher rB = macCipher rA \<and> ingressMAC rB = egressMAC rA \<and>
      snappy rB = snappy rA)"

text \<open>
  What a family of asymmetric primitives owes the handshake: decryption undoes
  encryption; a message of this protocol version, with fields of the sizes of the Go
  arrays (\<^verbatim>\<open>[sigLen]byte\<close>, \<^verbatim>\<open>[pubLen]byte\<close>, \<^verbatim>\<open>[shaLen]byte\<close>), is encoded in the number of bytes
  \<^verbatim>\<open>readHandshakeMsg\<close> reads and decoded back to itself (nothing is asked of the coder on
  other versions, which package rlp encodes in as many bytes as the number takes); a
  public key survives export and import; \<^verbatim>\<open>SigToPub\<close> on a signature (as stored in the
  message's \<open>sigLen\<close> bytes) returns the signer's public key; key agreement is symmetric.
\<close>

definition suiteCorrect :: "('sk, 'pk) cryptoSuite \<Rightarrow> bool" where
  "suiteCorrect cs =
     ((\<forall>rnd k m c. Encrypt cs rnd (PublicKey cs k) m = Some c \<longrightarrow>
          Decrypt cs k c = Some m \<and> length c = length m + eciesOverhead) \<and>
      (\<forall>m d. rlpEncodeAuthMsg cs m = Some d \<and> Version m = TaiRLPXVersion \<and>
             length (Signature m) = sigLen \<and> length (InitiatorPubkey m) = pubLen \<and>
             length (Nonce m) = shaLen \<longrightarrow>
          length d + certSize = authMsgLen \<and>
          (\<exists>m'. rlpDecodeAuthMsg cs d = Some m' \<and> m'\<lparr>CertSize := CertSize m\<rparr> = m)) \<and>
      (\<forall>m d. rlpEncodeAuthResp cs m = Some d \<and> RespVersion m = TaiRLPXVersion \<and>
             length (RandomPubkey m) = pubLen \<and> length (RespNonce m) = shaLen \<longrightarrow>
          length d + certSize = authRespLen \<and>
          (\<exists>m'. rlpDecodeAuthResp cs d = Some m' \<and> m'\<lparr>RespCertSize := RespCertSize m\<rparr> = m)) \<and>
      (\<forall>k. FromECDSAPub cs (PublicKey cs k) \<noteq> [] \<longrightarrow>
          importPublicKey cs (copyInto pubLen (drop 1 (FromECDSAPub cs (PublicKey cs k)))) =
            OK (PublicKey cs k)) \<and>
      (\<forall>k. importPublicKey cs (copyInto pubLen (exportPubkey cs (PublicKey cs k))) =
            OK (PublicKey cs k)) \<and>
      (\<forall>d k sg. Sign cs d k = Some sg \<longrightarrow>
          SigToPub cs d (copyInto sigLen sg) = Some (PublicKey cs k)) \<and>
      (\<forall>a b n l. GenerateShared cs a (PublicKey cs b) n l = GenerateShared cs b (PublicKey cs a) n l))"

section \<open>A small instance of the primitives\<close>

text \<open>
  Stand-ins for the external libraries, small enough to compute with: they keep the
  lengths and the algebraic laws of the real primitives (32-byte digests, 16-byte
  blocks, a packet overhead of \<open>eciesOverhead\<close> bytes, signatures of 65 bytes followed
  by the 33 bytes of the signer's key, a shared secret of \<open>skLen + macLen\<close> bytes) and
  none of their strength. They serve to run the model on concrete inputs.
\<close>

definition demoHash :: "bytes \<Rightarrow> bytes" where
  "demoHash bs = take 32 (rev bs @ replicate 32 0)"

definition bigEndian :: "64 word \<Rightarrow> bytes" where
  "bigEndian c = dropWhile (\<lambda>b. b = 0) (map (\<lambda>i. ucast (drop_bit (8 * (7 - i)) c)) [0 ..< 8])"

definition fromBigEndian :: "bytes \<Rightarrow> 64 word" where
  "fromBigEndian bs = fold (\<lambda>b a. push_bit 8 a OR ucast b) bs 0"

definition demoRlpEncodeUint :: "64 word \<Rightarrow> bytes" where
  "demoRlpEncodeUint c =
     (if c = 0 then [0x80] else if c < 128 then [ucast c]
      else (0x80 + of_nat (length (bigEndian c))) # bigEndian c)"

definition demoRlpDecodeUint :: "bytes \<Rightarrow> (64 word \<times> bytes) option" where
  "demoRlpDecodeUint bs =
     (case bs of
        [] \<Rightarrow> None
      | b # rest \<Rightarrow>
          if b < 0x80 then (if b = 0 then None else Some (ucast b, rest))
          else if b \<le> 0x88 then
            (let n = unat b - 128; v = take n rest in
             if length rest < n then None
             else if n > 0 \<and> hd v = 0 then None
             else if n = 1 \<and> hd v < 0x80 then None
             else Some (fromBigEndian v, drop n rest))
          else None)"

definition demoCipher :: cipherSuite where
  "demoCipher =
     \<lparr>legacyKeccak256 = demoHash,
      aesEncrypt = (\<lambda>k b. map (\<lambda>x. x + of_nat (length k) + 1) b),
      ctrKeystream = (\<lambda>k n. of_nat n + 17),
      rlpEncodeUint = demoRlpEncodeUint,
      rlpDecodeUint = demoRlpDecodeUint,
      snappyEncode = (\<lambda>p. of_nat (length p) # p),
      snappyDecodedLen = (\<lambda>p. case p of [] \<Rightarrow> None | b # r \<Rightarrow> Some (unat b)),
      snappyDecode = (\<lambda>p. case p of [] \<Rightarrow> None
                                | b # r \<Rightarrow> if length r = unat b then Some r else None)\<rparr>"

definition demoRW :: rlpxFrameRW where
  "demoRW =
     \<lparr>connIn = [], connOut = [],
      enc = \<lparr>ctrKey = [1, 2, 3], ctrPos = 0\<rparr>, dec = \<lparr>ctrKey = [1, 2, 3], ctrPos = 0\<rparr>,
      macCipher = [9, 9], egressMAC = [5, 6, 7], ingressMAC = [5, 6, 7], snappy = False\<rparr>"

definition demoMsg :: Msg where
  "demoMsg = \<lparr>Code = 16, Size = 3, Payload = [0xAA, 0xBB, 0xCC]\<rparr>"

definition demoRlpEncodeAuthMsg :: "authMsgV4 \<Rightarrow> bytes option" where
  "demoRlpEncodeAuthMsg m =
     (if length (Signature m) = 98 \<and> length (InitiatorPubkey m) = 64 \<and> length (Nonce m) = 32 \<and>
         0 < Version m \<and> Version m < 128
      then Some ([0xF8, 0xC8, 0xB8, 0x62] @ Signature m @ [0xB8, 0x40] @ InitiatorPubkey m @
                 [0xA0] @ Nonce m @ [ucast (Version m)])
      else None)"

definition demoRlpDecodeAuthMsg :: "bytes \<Rightarrow> authMsgV4 option" where
  "demoRlpDecodeAuthMsg bs =
     (if length bs = 202 \<and> take 4 bs = [0xF8, 0xC8, 0xB8, 0x62] \<and>
         take 2 (drop 102 bs) = [0xB8, 0x40] \<and> bs ! 168 = 0xA0 \<and> 0 < bs ! 201 \<and> bs ! 201 < 128
      then Some \<lparr>Signature = take 98 (drop 4 bs), InitiatorPubkey = take 64 (drop 104 bs),
                 Nonce = take 32 (drop 169 bs), Version = ucast (bs ! 201), CertSize = 0\<rparr>
      else None)"

definition demoRlpEncodeAuthResp :: "authRespV4 \<Rightarrow> bytes option" where
  "demoRlpEncodeAuthResp m =
     (if length (RandomPubkey m) = 64 \<and> length (RespNonce m) = 32 \<and>
         0 < RespVersion m \<and> RespVersion m < 128
      then Some ([0xF8, 0x64, 0xB8, 0x40] @ RandomPubkey m @ [0xA0] @ RespNonce m @
                 [ucast (RespVersion m)])
      else None)"

definition demoRlpDecodeAuthResp :: "bytes \<Rightarrow> authRespV4 option" where
  "demoRlpDecodeAuthResp bs =
     (if length bs = 102 \<and> take 4 bs = [0xF8, 0x64, 0xB8, 0x40] \<and>
         bs ! 68 = 0xA0 \<and> 0 < bs ! 101 \<and> bs ! 101 < 128
      then Some \<lparr>RandomPubkey = take 64 (drop 4 bs), RespNonce = take 32 (drop 69 bs),
                 RespVersion = ucast (bs ! 101), RespCertSize = 0\<rparr>
      else None)"

text \<open>Keys are bytes: the public key of \<open>k\<close> is \<open>3 * k\<close>, the shared secret repeats \<open>a * B\<close>.\<close>

definition demoCrypto :: "(byte, byte) cryptoSuite" where
  "demoCrypto =
     \<lparr>PublicKey = (\<lambda>k. 3 * k),
      Keccak256 = demoHash,
      GenerateShared = (\<lambda>a B skLen macLen. Some (replicate (skLen + macLen) (a * B))),
      Sign = (\<lambda>d k. Some (take 65 (d @ replicate 65 0) @ [3 * k] @ replicate 32 0)),
      SigToPub = (\<lambda>d sg. if length sg < 98 then None else Some (sg ! 65)),
      Encrypt = (\<lambda>rnd pk m. Some (replicate 113 pk @ map (\<lambda>b. b XOR pk) m)),
      Decrypt = (\<lambda>k c. if 113 \<le> length c \<and> take 113 c = replicate 113 (3 * k)
                         then Some (map (\<lambda>b. b XOR (3 * k)) (drop 113 c)) else None),
      FromECDSAPub = (\<lambda>pk. 0x04 # pk # replicate 63 0),
      UnmarshalPubkey = (\<lambda>bs. if length bs = 65 \<and> hd bs = 0x04 then Some (bs ! 1) else None),
      ellipticMarshal = (\<lambda>pk. 0x04 # pk # replicate 63 0),
      FromCertBytesToPubKey = (\<lambda>bs. case bs of [] \<Rightarrow> None | b # r \<Rightarrow> Some b),
      rlpEncodeAuthMsg = demoRlpEncodeAuthMsg,
      rlpDecodeAuthMsg = demoRlpDecodeAuthMsg,
      rlpEncodeAuthResp = demoRlpEncodeAuthResp,
      rlpDecodeAuthResp = demoRlpDecodeAuthResp\<rparr>"

text \<open>
  Two nodes: A with the static key 5 dials B, whose static key is 7 (public key 21).
  \<open>demoStateA\<close> is A's handshake state once both nonces and ephemeral keys are known.
\<close>

definition demoStateA :: "(byte, byte) encHandshake" where
  "demoStateA =
     \<lparr>hsCertSize = 0, initiator = True, remote = Some 21,
      initNonce = map of_nat [1 ..< 33], respNonce = map of_nat [101 ..< 133],
      randomPrivKey = Some 11, remoteRandomPub = Some 39\<rparr>"

definition entA :: "byte entropy" where
  "entA = \<lparr>randNonce = map of_nat [1 ..< 33], randKey = 11, randSeal = []\<rparr>"

definition entB :: "byte entropy" where
  "entB = \<lparr>randNonce = map of_nat [101 ..< 133], randKey = 13, randSeal = []\<rparr>"

definition demoAuthPacket :: bytes where
  "demoAuthPacket =
     wr (snd (initiatorEncHandshake demoCrypto None 5 21 entA \<lparr>rd = [], wr = []\<rparr>))"

definition demoRespPacket :: bytes where
  "demoRespPacket =
     wr (snd (receiverEncHandshake demoCrypto None 7 entB \<lparr>rd = demoAuthPacket, wr = []\<rparr>))"

text \<open>
  The same packets with the version byte changed from 15 to 16 (the last byte of the
  plaintext, under the envelope's mask), as a peer of another protocol version would
  send them.
\<close>

definition demoBadVersionAuth :: bytes where
  "demoBadVersionAuth = butlast demoAuthPacket @ [16 XOR 21]"

definition demoBadVersionResp :: bytes where
  "demoBadVersionResp = butlast demoRespPacket @ [16 XOR 15]"

text \<open>
  A packet of the right length that B's key opens to 204 bytes that are no encoding of
  an auth message, and one that A's key opens to 104 bytes that are no response.
\<close>

definition demoGarbledAuth :: bytes where
  "demoGarbledAuth = replicate 113 21 @ replicate 204 0"

definition demoGarbledResp :: bytes where
  "demoGarbledResp = replicate 113 15 @ replicate 104 0"

text \<open>
  Certificates: three bytes, the first of which is the holder's public key; the authority
  accepts every certificate of three bytes. A holds \<open>[15, 1, 2]\<close>, B holds \<open>[21, 3, 4]\<close>, and
  \<open>[99, 8, 9]\<close> is a certificate the authority accepts for a key that is neither's.
\<close>

definition demoCmA :: certManager where
  "demoCmA = \<lparr>cert = [15, 1, 2], VerifyCert = (\<lambda>b. length b = 3)\<rparr>"

definition demoCmB :: certManager where
  "demoCmB = \<lparr>cert = [21, 3, 4], VerifyCert = (\<lambda>b. length b = 3)\<rparr>"

definition demoCertAuthPacket :: bytes where
  "demoCertAuthPacket =
     wr (snd (initiatorEncHandshake demoCrypto (Some demoCmA) 5 21 entA \<lparr>rd = [], wr = []\<rparr>))"

definition demoCertRespPacket :: bytes where
  "demoCertRespPacket =
     wr (snd (receiverEncHandshake demoCrypto (Some demoCmB) 7 entB
                \<lparr>rd = demoCertAuthPacket, wr = []\<rparr>))"

section \<open>The frame codec: facts and claims\<close>

lemma maxUint24_eq: "maxUint24 = 0xFFFFFF"
  by (simp add: maxUint24_def mask_eq_exp_minus_1)

lemma length_XORKeyStream [simp]: "length (fst (XORKeyStream cs s src)) = length src"
  by (simp add: XORKeyStream_def)

lemma snd_XORKeyStream [simp]: "snd (XORKeyStream cs s src) = s\<lparr>ctrPos := ctrPos s + length src\<rparr>"
  by (simp add: XORKeyStream_def)

lemma XORKeyStream_append:
  "fst (XORKeyStream cs s (a @ b)) =
     fst (XORKeyStream cs s a) @ fst (XORKeyStream cs (s\<lparr>ctrPos := ctrPos s + length a\<rparr>) b)"
proof -
  have "[ctrPos s ..< ctrPos s + (length a + length b)] =
        [ctrPos s ..< ctrPos s + length a] @ [ctrPos s + length a ..< ctrPos s + length a + length b]"
    by (metis add.assoc le_add1 upt_add_eq_append)
  then show ?thesis
    by (simp add: XORKeyStream_def)
qed

lemma map2_xor_twice:
  "length ks = length src \<Longrightarrow> map2 (XOR) (map2 (XOR) src ks) ks = (src :: bytes)"
  by (induction src ks rule: list_induct2') (auto simp: xor.assoc)

lemma XORKeyStream_inverse:
  "ctrKey d = ctrKey e \<Longrightarrow> ctrPos d = ctrPos e \<Longrightarrow>
   fst (XORKeyStream cs d (fst (XORKeyStream cs e src))) = src"
  by (simp add: XORKeyStream_def map2_xor_twice)



lemma le_maxUint24_take_bit: "(v :: 32 word) \<le> 0xFFFFFF \<Longrightarrow> take_bit 24 v = v"
  by (simp add: word_unat_eq_iff unsigned_take_bit_eq take_bit_eq_mod word_le_nat_alt unat_word_ariths)

lemma readInt24_putInt24_aux:
  "readInt24 (putInt24 v @ rest) = take_bit 24 v"
  apply (simp add: readInt24_def putInt24_def nth_append)
  apply (rule bit_word_eqI)
  subgoal for n
    by (cases "n < 16") (auto simp add: bit_simps)
  done

lemma readInt24_putInt24: "v \<le> 0xFFFFFF \<Longrightarrow> readInt24 (putInt24 v @ rest) = v"
  by (simp add: readInt24_putInt24_aux le_maxUint24_take_bit)


lemma length_putInt24 [simp]: "length (putInt24 v) = 3"
  by (simp add: putInt24_def)

lemma teeWrite_nil [simp]: "teeWrite cs rw [] = rw"
  by (simp add: teeWrite_def XORKeyStream_def)

lemma teeWrite_fields [simp]:
  "connOut (teeWrite cs rw p) = connOut rw @ fst (XORKeyStream cs (enc rw) p)"
  "egressMAC (teeWrite cs rw p) = egressMAC rw @ fst (XORKeyStream cs (enc rw) p)"
  "enc (teeWrite cs rw p) = (enc rw)\<lparr>ctrPos := ctrPos (enc rw) + length p\<rparr>"
  "macCipher (teeWrite cs rw p) = macCipher rw"
  "connIn (teeWrite cs rw p) = connIn rw"
  "dec (teeWrite cs rw p) = dec rw"
  "ingressMAC (teeWrite cs rw p) = ingressMAC rw"
  "snappy (teeWrite cs rw p) = snappy rw"
  by (simp_all add: teeWrite_def split_def Let_def)

lemma teeWrite_append: "teeWrite cs (teeWrite cs rw a) b = teeWrite cs rw (a @ b)"
  by (simp add: teeWrite_def split_def Let_def XORKeyStream_append add.assoc)

text \<open>The frame WriteMsg emits without compression, in closed form.\<close>

lemma WriteMsg_plain:
  assumes ns: "\<not> snappy rw"
    and le: "(of_nat (length (rlpEncodeUint cs (Code m))) :: 32 word) + Size m \<le> maxUint24"
  shows "WriteMsg cs rw m =
    (let ptype = rlpEncodeUint cs (Code m);
         fsize = (of_nat (length ptype) :: 32 word) + Size m;
         hdr = fst (XORKeyStream cs (enc rw) (putInt24 fsize @ zeroHeader @ replicate 10 0));
         hm = updateMAC cs (egressMAC rw) (macCipher rw) hdr;
         rw1 = rw\<lparr>enc := (enc rw)\<lparr>ctrPos := ctrPos (enc rw) + 16\<rparr>, egressMAC := snd hm,
                  connOut := connOut rw @ hdr @ fst hm\<rparr>;
         rw4 = teeWrite cs rw1 (ptype @ Payload m @ framePadding fsize);
         tm = updateMAC cs (egressMAC rw4) (macCipher rw) (legacyKeccak256 cs (egressMAC rw4))
     in (None, rw4\<lparr>egressMAC := snd tm, connOut := connOut rw4 @ fst tm\<rparr>))"
  using ns le
  by (simp add: WriteMsg_def Let_def split_def framePadding_def teeWrite_append zeroHeader_def
        flip: not_less)


lemma WriteMsg_frame:
  assumes ok: "\<not> (snappy rw \<and> Size m > maxUint24)"
    and le: "frameSize cs rw m \<le> maxUint24"
  shows "WriteMsg cs rw m =
    (let ptype = rlpEncodeUint cs (Code m);
         fsize = frameSize cs rw m;
         hdr = fst (XORKeyStream cs (enc rw) (putInt24 fsize @ zeroHeader @ replicate 10 0));
         hm = updateMAC cs (egressMAC rw) (macCipher rw) hdr;
         rw1 = rw\<lparr>enc := (enc rw)\<lparr>ctrPos := ctrPos (enc rw) + 16\<rparr>, egressMAC := snd hm,
                  connOut := connOut rw @ hdr @ fst hm\<rparr>;
         rw4 = teeWrite cs rw1 (ptype @ wirePayload cs rw m @ framePadding fsize);
         tm = updateMAC cs (egressMAC rw4) (macCipher rw) (legacyKeccak256 cs (egressMAC rw4))
     in (None, rw4\<lparr>egressMAC := snd tm, connOut := connOut rw4 @ fst tm\<rparr>))"
proof (cases "snappy rw")
  case False
  with le show ?thesis
    by (simp add: WriteMsg_def Let_def split_def framePadding_def teeWrite_append zeroHeader_def
          frameSize_def wirePayload_def flip: not_less)
next
  case True
  with ok have sz: "\<not> Size m > maxUint24" by simp
  from True le sz show ?thesis
    by (simp add: WriteMsg_def Let_def split_def framePadding_def teeWrite_append zeroHeader_def
          frameSize_def wirePayload_def flip: not_less)
qed


lemma length_framePadding:
  "length (framePadding fsize) = (if fsize mod 16 > 0 then 16 - unat (fsize mod 16) else 0)"
  by (simp add: framePadding_def zero16_def)

lemma fst_updateMAC_length:
  "\<forall>x. length (legacyKeccak256 cs x) = 32 \<Longrightarrow> length (fst (updateMAC cs mac k seed)) = 16"
  by (simp add: updateMAC_def Let_def)

lemma frame_sizes:
  fixes fsize :: "32 word"
  assumes "unat fsize < 2 ^ 24"
  shows "unat (if fsize mod 16 > 0 then fsize + (16 - fsize mod 16) else fsize) =
         unat fsize + length (framePadding fsize)"
proof (cases "fsize mod 16 > 0")
  case False
  then show ?thesis by (simp add: length_framePadding)
next
  case True
  have m: "unat (fsize mod 16) = unat fsize mod 16"
    by (simp add: unat_word_ariths)
  have lt: "unat fsize mod 16 < 16" by simp
  have "unat (16 - fsize mod 16) = 16 - unat (fsize mod 16)"
    using m lt by (simp add: unat_sub word_le_nat_alt)
  moreover have "unat fsize + (16 - unat (fsize mod 16)) < 2 ^ 32"
    using assms by simp
  ultimately have "unat (fsize + (16 - fsize mod 16)) = unat fsize + (16 - unat (fsize mod 16))"
    by (simp add: unat_word_ariths)
  with True show ?thesis by (simp add: length_framePadding)
qed


lemma ReadMsg_frame:
  assumes inp: "connIn rw = hdr @ hmac @ body @ tmac @ trail"
    and lens: "length hdr = 16" "length hmac = 16" "length tmac = 16"
    and hm: "fst (updateMAC cs (ingressMAC rw) (macCipher rw) hdr) = hmac"
    and fs: "readInt24 (fst (XORKeyStream cs (dec rw) hdr)) = fsize"
    and bl: "length body = unat (if fsize mod 16 > 0 then fsize + (16 - fsize mod 16) else fsize)"
    and tm: "fst (updateMAC cs (snd (updateMAC cs (ingressMAC rw) (macCipher rw) hdr) @ body) (macCipher rw)
                   (legacyKeccak256 cs (snd (updateMAC cs (ingressMAC rw) (macCipher rw) hdr) @ body))) = tmac"
    and dc: "rlpDecodeUint cs (take (unat fsize)
               (fst (XORKeyStream cs ((dec rw)\<lparr>ctrPos := ctrPos (dec rw) + 16\<rparr>) body))) = Some (c, rest)"
    and ns: "\<not> snappy rw"
  shows "fst (ReadMsg cs rw) = OK \<lparr>Code = c, Size = of_nat (length rest), Payload = rest\<rparr>
         \<and> connIn (snd (ReadMsg cs rw)) = trail"
  using assms
  by (simp add: ReadMsg_def ReadFull_def Let_def split_def)


lemma ReadMsg_frame_snappy:
  assumes inp: "connIn rw = hdr @ hmac @ body @ tmac @ trail"
    and lens: "length hdr = 16" "length hmac = 16" "length tmac = 16"
    and hm: "fst (updateMAC cs (ingressMAC rw) (macCipher rw) hdr) = hmac"
    and fs: "readInt24 (fst (XORKeyStream cs (dec rw) hdr)) = fsize"
    and bl: "length body = unat (if fsize mod 16 > 0 then fsize + (16 - fsize mod 16) else fsize)"
    and tm: "fst (updateMAC cs (snd (updateMAC cs (ingressMAC rw) (macCipher rw) hdr) @ body) (macCipher rw)
                   (legacyKeccak256 cs (snd (updateMAC cs (ingressMAC rw) (macCipher rw) hdr) @ body))) = tmac"
    and dc: "rlpDecodeUint cs (take (unat fsize)
               (fst (XORKeyStream cs ((dec rw)\<lparr>ctrPos := ctrPos (dec rw) + 16\<rparr>) body))) = Some (c, rest)"
    and sn: "snappy rw"
    and dl: "snappyDecodedLen cs rest = Some n" "n \<le> unat maxUint24"
    and dd: "snappyDecode cs rest = Some payload"
  shows "fst (ReadMsg cs rw) = OK \<lparr>Code = c, Size = of_nat n, Payload = payload\<rparr>
         \<and> connIn (snd (ReadMsg cs rw)) = trail"
  using assms
  by (simp add: ReadMsg_def ReadFull_def Let_def split_def)


lemma frame_roundtrip:
  assumes dg: "\<forall>x. length (legacyKeccak256 cs x) = 32"
    and mt: "matched rA rB"
    and sz: "unat (Size m) = length (Payload m)"
    and pb: "snappy rA \<longrightarrow> length (Payload m) < 2 ^ 24"
    and bound: "length (rlpEncodeUint cs (Code m)) + length (wirePayload cs rA m) < 2 ^ 24"
    and rlp: "rlpDecodeUint cs (rlpEncodeUint cs (Code m) @ wirePayload cs rA m) =
                Some (Code m, wirePayload cs rA m)"
    and snp: "snappy rA \<longrightarrow>
                snappyDecodedLen cs (snappyEncode cs (Payload m)) = Some (length (Payload m)) \<and>
                snappyDecode cs (snappyEncode cs (Payload m)) = Some (Payload m)"
    and wire: "connIn rB = drop (length (connOut rA)) (connOut (snd (WriteMsg cs rA m))) @ trail"
  shows "fst (WriteMsg cs rA m) = None \<and> fst (ReadMsg cs rB) = OK m \<and>
         connIn (snd (ReadMsg cs rB)) = trail"
proof -
  define ptype where "ptype = rlpEncodeUint cs (Code m)"
  define wp where "wp = wirePayload cs rA m"
  define fsize where "fsize = frameSize cs rA m"
  have b32: "length ptype + length wp < 2 ^ 32"
    using bound by (simp add: ptype_def wp_def)
  have fsz: "unat fsize = length ptype + length wp"
  proof (cases "snappy rA")
    case False
    then show ?thesis
      using sz b32
      by (simp add: fsize_def frameSize_def ptype_def wp_def wirePayload_def unat_word_ariths
            unat_of_nat)
  next
    case True
    then show ?thesis
      using b32
      by (simp add: fsize_def frameSize_def ptype_def wp_def wirePayload_def unat_word_ariths
            unat_of_nat)
  qed
  have lt: "unat fsize < 2 ^ 24" using fsz bound by (simp add: ptype_def wp_def)
  have le: "fsize \<le> maxUint24"
    using lt by (simp add: maxUint24_eq word_le_nat_alt)
  have ok: "\<not> (snappy rA \<and> Size m > maxUint24)"
    using pb sz by (auto simp add: maxUint24_eq word_less_nat_alt)
  define hdr where "hdr = fst (XORKeyStream cs (enc rA) (putInt24 fsize @ zeroHeader @ replicate 10 0))"
  define hm where "hm = updateMAC cs (egressMAC rA) (macCipher rA) hdr"
  define e1 where "e1 = (enc rA)\<lparr>ctrPos := ctrPos (enc rA) + 16\<rparr>"
  define plain where "plain = ptype @ wp @ framePadding fsize"
  define body where "body = fst (XORKeyStream cs e1 plain)"
  define tm where "tm = updateMAC cs (snd hm @ body) (macCipher rA) (legacyKeccak256 cs (snd hm @ body))"
  have W: "WriteMsg cs rA m =
     (None, (teeWrite cs (rA\<lparr>enc := e1, egressMAC := snd hm, connOut := connOut rA @ hdr @ fst hm\<rparr>) plain)
        \<lparr>egressMAC := snd tm, connOut := connOut rA @ hdr @ fst hm @ body @ fst tm\<rparr>)"
    unfolding WriteMsg_frame [OF ok le [unfolded fsize_def]]
    by (simp add: Let_def ptype_def [symmetric] fsize_def [symmetric] hdr_def [symmetric]
          hm_def [symmetric] e1_def [symmetric] plain_def [symmetric] body_def [symmetric]
          tm_def [symmetric] wp_def [symmetric])
  have inp: "connIn rB = hdr @ fst hm @ body @ fst tm @ trail"
    using wire by (simp add: W)
  have l1: "length hdr = 16" by (simp add: hdr_def zeroHeader_def)
  have l2: "length (fst hm) = 16" unfolding hm_def by (rule fst_updateMAC_length [OF dg])
  have l3: "length (fst tm) = 16" unfolding tm_def by (rule fst_updateMAC_length [OF dg])
  have d: "dec rB = enc rA" and k: "macCipher rB = macCipher rA"
    and i: "ingressMAC rB = egressMAC rA" and s: "snappy rB = snappy rA"
    using mt by (simp_all add: matched_def)
  have h1: "fst (updateMAC cs (ingressMAC rB) (macCipher rB) hdr) = fst hm"
    by (simp add: hm_def i k)
  have h2: "readInt24 (fst (XORKeyStream cs (dec rB) hdr)) = fsize"
    using le by (simp add: d hdr_def XORKeyStream_inverse readInt24_putInt24 maxUint24_eq)
  have h3: "length body = unat (if fsize mod 16 > 0 then fsize + (16 - fsize mod 16) else fsize)"
    by (simp add: frame_sizes [OF lt] body_def plain_def fsz)
  have h4: "fst (updateMAC cs (snd (updateMAC cs (ingressMAC rB) (macCipher rB) hdr) @ body) (macCipher rB)
              (legacyKeccak256 cs (snd (updateMAC cs (ingressMAC rB) (macCipher rB) hdr) @ body))) = fst tm"
    by (simp add: tm_def hm_def i k)
  have "fst (XORKeyStream cs ((dec rB)\<lparr>ctrPos := ctrPos (dec rB) + 16\<rparr>) body) = plain"
    by (simp add: body_def d e1_def XORKeyStream_inverse)
  then have h5: "rlpDecodeUint cs (take (unat fsize)
               (fst (XORKeyStream cs ((dec rB)\<lparr>ctrPos := ctrPos (dec rB) + 16\<rparr>) body)))
             = Some (Code m, wp)"
    using rlp by (simp add: plain_def fsz ptype_def wp_def)
  have sm: "(of_nat (length (Payload m)) :: 32 word) = Size m"
    using sz [symmetric] by simp
  show ?thesis
  proof (cases "snappy rA")
    case False
    then have "\<not> snappy rB" "wp = Payload m" by (simp_all add: s wp_def wirePayload_def)
    with ReadMsg_frame [OF inp l1 l2 l3 h1 h2 h3 h4 h5] W sm show ?thesis by simp
  next
    case True
    then have sB: "snappy rB" and w: "wp = snappyEncode cs (Payload m)"
      by (simp_all add: s wp_def wirePayload_def)
    from True snp w have dl: "snappyDecodedLen cs wp = Some (length (Payload m))"
      and dd: "snappyDecode cs wp = Some (Payload m)" by simp_all
    from True pb have nb: "length (Payload m) \<le> unat maxUint24" by (simp add: maxUint24_eq)
    from ReadMsg_frame_snappy [OF inp l1 l2 l3 h1 h2 h3 h4 h5 sB dl nb dd] W sm
    show ?thesis by simp
  qed
qed


lemma WriteMsg_header:
  assumes "fst (WriteMsg cs rw m) = None"
  shows "\<exists>rest. connOut (snd (WriteMsg cs rw m)) =
           connOut rw @ fst (XORKeyStream cs (enc rw) (plainHeader (frameSize cs rw m))) @
           fst (updateMAC cs (egressMAC rw) (macCipher rw)
                  (fst (XORKeyStream cs (enc rw) (plainHeader (frameSize cs rw m))))) @ rest"
  using assms
  by (auto simp add: WriteMsg_def Let_def split_def plainHeader_def frameSize_def
        split: if_splits)

text \<open>
  Claim C2, as the code has it. When \<^verbatim>\<open>WriteMsg\<close> returns \<^verbatim>\<open>nil\<close>, the first 32 bytes it
  wrote are the 16 header bytes after encryption with the egress stream cipher,
  followed by the header MAC: the current egress MAC digest's first block encrypted
  with the whitening cipher, XORed with the \<^emph>\<open>encrypted\<close> header bytes, absorbed into the
  MAC, and the first 16 bytes of the new digest. (The claim names the header bytes before
  encryption; \<^verbatim>\<open>XORKeyStream\<close> runs in place before \<^verbatim>\<open>updateMAC\<close> reads them.)
\<close>

theorem header_mac_over_sealed_header:
  assumes "fst (WriteMsg cs rw m) = None"
  shows "let sealed = fst (XORKeyStream cs (enc rw) (plainHeader (frameSize cs rw m)));
             whitened = aesEncrypt cs (macCipher rw) (take 16 (legacyKeccak256 cs (egressMAC rw)));
             tag = take 16 (legacyKeccak256 cs (egressMAC rw @ map2 (XOR) whitened sealed))
         in length sealed = 16 \<and>
            (\<exists>rest. connOut (snd (WriteMsg cs rw m)) = connOut rw @ sealed @ tag @ rest)"
  using WriteMsg_header [OF assms]
  by (simp add: Let_def updateMAC_def plainHeader_def zeroHeader_def)

lemma demo_write_ok: "fst (WriteMsg demoCipher demoRW demoMsg) = None"
  by (simp add: WriteMsg_def demoCipher_def demoRW_def demoMsg_def demoRlpEncodeUint_def
        maxUint24_eq Let_def split_def)


lemma WriteMsg_error_unchanged:
  "fst (WriteMsg cs rw m) = Some e \<Longrightarrow> snd (WriteMsg cs rw m) = rw \<and> isFrameTooLarge e"
  by (auto simp add: WriteMsg_def Let_def split_def isFrameTooLarge_def split: if_splits)

lemma WriteMsg_plain_too_large:
  assumes ns: "\<not> snappy rw"
    and lo: "2 ^ 24 \<le> length (rlpEncodeUint cs (Code m)) + unat (Size m)"
    and hi: "length (rlpEncodeUint cs (Code m)) + unat (Size m) < 2 ^ 32"
  shows "WriteMsg cs rw m = (Some ErrMessageSizeOverflowsUint24, rw)"
proof -
  have "unat ((of_nat (length (rlpEncodeUint cs (Code m))) :: 32 word) + Size m) =
        length (rlpEncodeUint cs (Code m)) + unat (Size m)"
    using hi by (simp add: unat_word_ariths unat_of_nat)
  then have "(of_nat (length (rlpEncodeUint cs (Code m))) :: 32 word) + Size m > maxUint24"
    using lo by (simp add: maxUint24_eq word_less_nat_alt)
  then show ?thesis using ns by (simp add: WriteMsg_def Let_def)
qed

lemma WriteMsg_too_large:
  assumes lo: "2 ^ 24 \<le> length (rlpEncodeUint cs (Code m)) + length (wirePayload cs rw m)"
    and hi: "length (rlpEncodeUint cs (Code m)) + length (wirePayload cs rw m) < 2 ^ 32"
    and sz: "unat (Size m) = length (Payload m)"
  shows "\<exists>e. WriteMsg cs rw m = (Some e, rw) \<and> isFrameTooLarge e"
proof (cases "snappy rw \<and> Size m > maxUint24")
  case True
  then show ?thesis by (simp add: WriteMsg_def Let_def isFrameTooLarge_def)
next
  case False
  have "unat (frameSize cs rw m) =
        length (rlpEncodeUint cs (Code m)) + length (wirePayload cs rw m)"
    using hi sz
    by (auto simp add: frameSize_def wirePayload_def unat_word_ariths unat_of_nat)
  then have "frameSize cs rw m > maxUint24"
    using lo by (simp add: maxUint24_eq word_less_nat_alt)
  with False have "WriteMsg cs rw m = (Some ErrMessageSizeOverflowsUint24, rw)"
    by (auto simp add: WriteMsg_def Let_def frameSize_def)
  then show ?thesis by (simp add: isFrameTooLarge_def)
qed


lemma WriteMsg_plain_ok:
  assumes ns: "\<not> snappy rw"
    and le: "(of_nat (length (rlpEncodeUint cs (Code m))) :: 32 word) + Size m \<le> maxUint24"
  shows "fst (WriteMsg cs rw m) = None"
  by (simp add: WriteMsg_plain [OF ns le] Let_def)

lemma WriteMsg_ok_writes:
  assumes "fst (WriteMsg cs rw m) = None"
  shows "length (connOut rw) + 16 \<le> length (connOut (snd (WriteMsg cs rw m)))"
proof -
  from WriteMsg_header [OF assms] obtain rest where
    "connOut (snd (WriteMsg cs rw m)) =
       connOut rw @ fst (XORKeyStream cs (enc rw) (plainHeader (frameSize cs rw m))) @
       fst (updateMAC cs (egressMAC rw) (macCipher rw)
              (fst (XORKeyStream cs (enc rw) (plainHeader (frameSize cs rw m))))) @ rest"
    by blast
  then show ?thesis by (simp add: plainHeader_def zeroHeader_def)
qed

text \<open>
  Claim C8, at the failing input. \<^verbatim>\<open>fsize\<close> is computed in 32 bits: a one-byte type tag
  and a declared size of \<open>2^32 - 1\<close> wrap to 0, the check against \<open>maxUint24\<close> passes, and
  \<^verbatim>\<open>WriteMsg\<close> writes to the connection although tag and payload exceed \<open>2^24\<close>.
\<close>

theorem write_wraps_at_uint32:
  "fst (WriteMsg demoCipher demoRW \<lparr>Code = 16, Size = 0xFFFFFFFF, Payload = replicate 4294967295 0xAA\<rparr>) = None \<and>
   connOut (snd (WriteMsg demoCipher demoRW
      \<lparr>Code = 16, Size = 0xFFFFFFFF, Payload = replicate 4294967295 0xAA\<rparr>)) \<noteq> connOut demoRW"
proof -
  let ?m = "\<lparr>Code = 16, Size = 0xFFFFFFFF, Payload = replicate 4294967295 (0xAA :: byte)\<rparr>"
  have ns: "\<not> snappy demoRW" by (simp add: demoRW_def)
  have le: "(of_nat (length (rlpEncodeUint demoCipher (Code ?m))) :: 32 word) + Size ?m \<le> maxUint24"
    by (simp add: demoCipher_def demoRlpEncodeUint_def maxUint24_eq)
  have ok: "fst (WriteMsg demoCipher demoRW ?m) = None"
    by (rule WriteMsg_plain_ok [OF ns le])
  from WriteMsg_ok_writes [OF ok] have "connOut (snd (WriteMsg demoCipher demoRW ?m)) \<noteq> connOut demoRW"
    by auto
  with ok show ?thesis by blast
qed

text \<open>
  Claim C3, counterexample: a payload of \<open>2^24 - 1\<close> bytes is refused, since the type tag
  takes at least one byte of the 24-bit frame size.
\<close>

theorem roundtrip_fails_at_max_payload:
  "WriteMsg demoCipher demoRW \<lparr>Code = 16, Size = 0xFFFFFF, Payload = replicate 16777215 0xAA\<rparr> =
     (Some ErrMessageSizeOverflowsUint24, demoRW)"
proof -
  let ?m = "\<lparr>Code = 16, Size = 0xFFFFFF, Payload = replicate 16777215 (0xAA :: byte)\<rparr>"
  have ns: "\<not> snappy demoRW" by (simp add: demoRW_def)
  have lo: "2 ^ 24 \<le> length (rlpEncodeUint demoCipher (Code ?m)) + unat (Size ?m)"
    by (simp add: demoCipher_def demoRlpEncodeUint_def)
  have hi: "length (rlpEncodeUint demoCipher (Code ?m)) + unat (Size ?m) < 2 ^ 32"
    by (simp add: demoCipher_def demoRlpEncodeUint_def)
  show ?thesis by (rule WriteMsg_plain_too_large [OF ns lo hi])
qed


text \<open>Claim C2, witness: the header and the header MAC of a three-byte message.\<close>

theorem header_mac_over_sealed_header_witness:
  "fst (WriteMsg demoCipher demoRW demoMsg) = None \<and>
   (\<exists>rest. connOut (snd (WriteMsg demoCipher demoRW demoMsg)) =
      [17, 18, 23, 214, 149, 150, 23, 24, 25, 26, 27, 28, 29, 30, 31, 32] @
      [35, 28, 29, 30, 31, 24, 25, 26, 27, 20, 149, 150, 213, 31, 27, 27] @ rest)"
proof -
  have s: "fst (XORKeyStream demoCipher (enc demoRW) (plainHeader (frameSize demoCipher demoRW demoMsg))) =
          [17, 18, 23, 214, 149, 150, 23, 24, 25, 26, 27, 28, 29, 30, 31, 32]"
    by code_simp
  have t: "take 16 (legacyKeccak256 demoCipher (egressMAC demoRW @
             map2 (XOR) (aesEncrypt demoCipher (macCipher demoRW)
                          (take 16 (legacyKeccak256 demoCipher (egressMAC demoRW))))
               [17, 18, 23, 214, 149, 150, 23, 24, 25, 26, 27, 28, 29, 30, 31, 32])) =
          [35, 28, 29, 30, 31, 24, 25, 26, 27, 20, 149, 150, 213, 31, 27, 27]"
    by code_simp
  have c: "connOut demoRW = []" by (simp add: demoRW_def)
  from header_mac_over_sealed_header [OF demo_write_ok] demo_write_ok
  show ?thesis by (simp add: Let_def s t c)
qed

lemma demoHash_length: "length (demoHash x) = 32"
  by (simp add: demoHash_def)

text \<open>
  Claim C3, amended. A message whose type tag and payload as sent (the compressed
  payload when \<^verbatim>\<open>rw.snappy\<close> is set) together stay below \<open>2^24\<close> bytes, and whose payload
  before compression is below \<open>2^24\<close> bytes when \<^verbatim>\<open>rw.snappy\<close> is set, written by one side of a
  matched pair and read by the other, comes back unchanged: with digests of 32 bytes, a
  type tag the decoder reads back, and a compressor its decompressor undoes. A message
  of size exactly \<open>2^24\<close> is refused with a frame-too-large error, the codec and the
  connection left as they were; so is, without compression, one of size \<open>2^24 - 1\<close>, whose
  type tag takes the sum to \<open>2^24\<close>. (The type tag of a 64-bit code has between 1 and 9
  bytes.)
\<close>

theorem frame_roundtrip_and_limit:
  "(((\<forall>x. length (legacyKeccak256 cs x) = 32) \<and> matched rA rB \<and>
     unat (Size m) = length (Payload m) \<and>
     (snappy rA \<longrightarrow> length (Payload m) < 2 ^ 24 \<and>
        snappyDecodedLen cs (snappyEncode cs (Payload m)) = Some (length (Payload m)) \<and>
        snappyDecode cs (snappyEncode cs (Payload m)) = Some (Payload m)) \<and>
     length (rlpEncodeUint cs (Code m)) + length (wirePayload cs rA m) < 2 ^ 24 \<and>
     rlpDecodeUint cs (rlpEncodeUint cs (Code m) @ wirePayload cs rA m) =
       Some (Code m, wirePayload cs rA m) \<and>
     connIn rB = drop (length (connOut rA)) (connOut (snd (WriteMsg cs rA m))))
    \<longrightarrow> fst (WriteMsg cs rA m) = None \<and> fst (ReadMsg cs rB) = OK m \<and>
        connIn (snd (ReadMsg cs rB)) = [])
   \<and>
   ((Size m = 0x1000000 \<and> length (rlpEncodeUint cs (Code m)) \<le> 9)
    \<longrightarrow> (\<exists>e. WriteMsg cs rA m = (Some e, rA) \<and> isFrameTooLarge e))
   \<and>
   ((\<not> snappy rA \<and> Size m = 0xFFFFFF \<and>
     1 \<le> length (rlpEncodeUint cs (Code m)) \<and> length (rlpEncodeUint cs (Code m)) \<le> 9)
    \<longrightarrow> WriteMsg cs rA m = (Some ErrMessageSizeOverflowsUint24, rA))"
proof (intro conjI impI)
  assume a: "(\<forall>x. length (legacyKeccak256 cs x) = 32) \<and> matched rA rB \<and>
     unat (Size m) = length (Payload m) \<and>
     (snappy rA \<longrightarrow> length (Payload m) < 2 ^ 24 \<and>
        snappyDecodedLen cs (snappyEncode cs (Payload m)) = Some (length (Payload m)) \<and>
        snappyDecode cs (snappyEncode cs (Payload m)) = Some (Payload m)) \<and>
     length (rlpEncodeUint cs (Code m)) + length (wirePayload cs rA m) < 2 ^ 24 \<and>
     rlpDecodeUint cs (rlpEncodeUint cs (Code m) @ wirePayload cs rA m) =
       Some (Code m, wirePayload cs rA m) \<and>
     connIn rB = drop (length (connOut rA)) (connOut (snd (WriteMsg cs rA m)))"
  then have w: "connIn rB = drop (length (connOut rA)) (connOut (snd (WriteMsg cs rA m))) @ []"
    by simp
  from a have r: "fst (WriteMsg cs rA m) = None \<and> fst (ReadMsg cs rB) = OK m \<and>
         connIn (snd (ReadMsg cs rB)) = []"
    by (intro frame_roundtrip [OF _ _ _ _ _ _ _ w]) simp_all
  from r show "fst (WriteMsg cs rA m) = None" by simp
  from r show "fst (ReadMsg cs rB) = OK m" by simp
  from r show "connIn (snd (ReadMsg cs rB)) = []" by simp
next
  assume b: "Size m = 0x1000000 \<and> length (rlpEncodeUint cs (Code m)) \<le> 9"
  show "\<exists>e. WriteMsg cs rA m = (Some e, rA) \<and> isFrameTooLarge e"
  proof (cases "snappy rA")
    case True
    with b show ?thesis
      by (simp add: WriteMsg_def Let_def isFrameTooLarge_def maxUint24_eq)
  next
    case False
    from b have "2 ^ 24 \<le> length (rlpEncodeUint cs (Code m)) + unat (Size m)"
      and "length (rlpEncodeUint cs (Code m)) + unat (Size m) < 2 ^ 32"
      by simp_all
    from WriteMsg_plain_too_large [OF False this] show ?thesis
      by (simp add: isFrameTooLarge_def)
  qed
next
  assume c: "\<not> snappy rA \<and> Size m = 0xFFFFFF \<and>
     1 \<le> length (rlpEncodeUint cs (Code m)) \<and> length (rlpEncodeUint cs (Code m)) \<le> 9"
  then have "2 ^ 24 \<le> length (rlpEncodeUint cs (Code m)) + unat (Size m)"
    and "length (rlpEncodeUint cs (Code m)) + unat (Size m) < 2 ^ 32"
    by simp_all
  with c show "WriteMsg cs rA m = (Some ErrMessageSizeOverflowsUint24, rA)"
    by (intro WriteMsg_plain_too_large) simp_all
qed


text \<open>
  Claim C3, witness: a three-byte payload makes the round trip, without and with
  compression; a message of \<open>2^24\<close> bytes is refused without and with compression, and one of
  \<open>2^24 - 1\<close> bytes without.
\<close>

theorem frame_roundtrip_and_limit_witness:
  "fst (WriteMsg demoCipher demoRW demoMsg) = None \<and>
   fst (ReadMsg demoCipher (demoRW\<lparr>connIn := connOut (snd (WriteMsg demoCipher demoRW demoMsg))\<rparr>)) =
     OK demoMsg \<and>
   fst (ReadMsg demoCipher
     (demoRW\<lparr>snappy := True,
             connIn := connOut (snd (WriteMsg demoCipher (demoRW\<lparr>snappy := True\<rparr>) demoMsg))\<rparr>)) =
     OK demoMsg \<and>
   (\<exists>e. WriteMsg demoCipher demoRW \<lparr>Code = 16, Size = 0x1000000, Payload = replicate 16777216 0xAA\<rparr> =
      (Some e, demoRW) \<and> isFrameTooLarge e) \<and>
   (\<exists>e. WriteMsg demoCipher (demoRW\<lparr>snappy := True\<rparr>)
           \<lparr>Code = 16, Size = 0x1000000, Payload = replicate 16777216 0xAA\<rparr> =
      (Some e, demoRW\<lparr>snappy := True\<rparr>) \<and> isFrameTooLarge e) \<and>
   WriteMsg demoCipher demoRW \<lparr>Code = 16, Size = 0xFFFFFF, Payload = replicate 16777215 0x55\<rparr> =
     (Some ErrMessageSizeOverflowsUint24, demoRW)"
proof -
  let ?rB = "demoRW\<lparr>connIn := connOut (snd (WriteMsg demoCipher demoRW demoMsg))\<rparr>"
  let ?sA = "demoRW\<lparr>snappy := True\<rparr>"
  let ?sB = "demoRW\<lparr>snappy := True, connIn := connOut (snd (WriteMsg demoCipher ?sA demoMsg))\<rparr>"
  let ?big = "\<lparr>Code = 16, Size = 0x1000000, Payload = replicate 16777216 (0xAA :: byte)\<rparr>"
  let ?max = "\<lparr>Code = 16, Size = 0xFFFFFF, Payload = replicate 16777215 (0x55 :: byte)\<rparr>"
  have h1: "\<forall>x. length (legacyKeccak256 demoCipher x) = 32"
    by (simp add: demoCipher_def demoHash_length)
  have h2: "matched demoRW ?rB" "matched ?sA ?sB" by (simp_all add: matched_def demoRW_def)
  have h3: "\<not> snappy demoRW" "snappy ?sA" by (simp_all add: demoRW_def)
  have h4: "unat (Size demoMsg) = length (Payload demoMsg)" by (simp add: demoMsg_def)
  have h5: "length (rlpEncodeUint demoCipher (Code demoMsg)) + length (wirePayload demoCipher demoRW demoMsg) < 2 ^ 24"
    "length (rlpEncodeUint demoCipher (Code demoMsg)) + length (wirePayload demoCipher ?sA demoMsg) < 2 ^ 24"
    by (simp_all add: demoCipher_def demoMsg_def demoRlpEncodeUint_def wirePayload_def demoRW_def)
  have h6: "rlpDecodeUint demoCipher (rlpEncodeUint demoCipher (Code demoMsg) @ wirePayload demoCipher demoRW demoMsg) =
            Some (Code demoMsg, wirePayload demoCipher demoRW demoMsg)"
    "rlpDecodeUint demoCipher (rlpEncodeUint demoCipher (Code demoMsg) @ wirePayload demoCipher ?sA demoMsg) =
            Some (Code demoMsg, wirePayload demoCipher ?sA demoMsg)"
    by (simp_all add: demoCipher_def demoMsg_def demoRlpEncodeUint_def demoRlpDecodeUint_def
          wirePayload_def demoRW_def)
  have h7: "connIn ?rB = drop (length (connOut demoRW)) (connOut (snd (WriteMsg demoCipher demoRW demoMsg)))"
    "connIn ?sB = drop (length (connOut ?sA)) (connOut (snd (WriteMsg demoCipher ?sA demoMsg)))"
    by (simp_all add: demoRW_def)
  have h8: "length (Payload demoMsg) < 2 ^ 24 \<and>
        snappyDecodedLen demoCipher (snappyEncode demoCipher (Payload demoMsg)) = Some (length (Payload demoMsg)) \<and>
        snappyDecode demoCipher (snappyEncode demoCipher (Payload demoMsg)) = Some (Payload demoMsg)"
    by (simp add: demoCipher_def demoMsg_def)
  have g1: "Size ?big = 0x1000000" "Size ?max = 0xFFFFFF" by simp_all
  have g2: "1 \<le> length (rlpEncodeUint demoCipher (Code ?big))"
    "length (rlpEncodeUint demoCipher (Code ?big)) \<le> 9"
    "1 \<le> length (rlpEncodeUint demoCipher (Code ?max))"
    "length (rlpEncodeUint demoCipher (Code ?max)) \<le> 9"
    by (simp_all add: demoCipher_def demoRlpEncodeUint_def)
  from frame_roundtrip_and_limit [of demoCipher demoRW ?rB demoMsg] h1 h2(1) h3(1) h4 h5(1) h6(1) h7(1)
  have a: "fst (WriteMsg demoCipher demoRW demoMsg) = None \<and> fst (ReadMsg demoCipher ?rB) = OK demoMsg"
    by blast
  from frame_roundtrip_and_limit [of demoCipher ?sA ?sB demoMsg] h1 h2(2) h4 h5(2) h6(2) h7(2) h8
  have s: "fst (ReadMsg demoCipher ?sB) = OK demoMsg"
    by blast
  from frame_roundtrip_and_limit [of demoCipher demoRW ?rB ?big] g1(1) g2(2)
  have b: "\<exists>e. WriteMsg demoCipher demoRW ?big = (Some e, demoRW) \<and> isFrameTooLarge e"
    by blast
  from frame_roundtrip_and_limit [of demoCipher ?sA ?sB ?big] g1(1) g2(2)
  have b': "\<exists>e. WriteMsg demoCipher ?sA ?big = (Some e, ?sA) \<and> isFrameTooLarge e"
    by blast
  from frame_roundtrip_and_limit [of demoCipher demoRW ?rB ?max] h3(1) g1(2) g2(3,4)
  have c: "WriteMsg demoCipher demoRW ?max = (Some ErrMessageSizeOverflowsUint24, demoRW)"
    by blast
  from a s b b' c show ?thesis by blast
qed


text \<open>
  Claim C2, counterexample to the wording "the pre-encryption plaintext header bytes":
  the tag on the wire differs from the tag computed over the plaintext header.
\<close>

theorem header_mac_not_over_plain_header:
  "take 16 (drop 16 (connOut (snd (WriteMsg demoCipher demoRW demoMsg)))) \<noteq>
   specHeaderMAC demoCipher demoRW demoMsg"
  by code_simp

subsection \<open>The order of the checks on reading\<close>

text \<open>
  The order of the checks in \<^verbatim>\<open>ReadMsg\<close>. A header whose MAC field is not the expected
  tag is refused before the header is decrypted and before any byte of the body is read;
  a frame whose trailer is not the expected tag is refused before the body is decrypted
  (the decrypting stream has advanced by the 16 header bytes only).
\<close>

lemma ReadMsg_bad_header_mac:
  assumes "ReadFull 32 (connIn rw) = OK (headbuf, in1)"
    and "fst (updateMAC cs (ingressMAC rw) (macCipher rw) (take 16 headbuf)) \<noteq> drop 16 headbuf"
  shows "fst (ReadMsg cs rw) = Error ErrBadHeaderMAC \<and> dec (snd (ReadMsg cs rw)) = dec rw \<and>
         connIn (snd (ReadMsg cs rw)) = in1"
  using assms by (simp add: ReadMsg_def Let_def split_def)

lemma ReadMsg_bad_frame_mac:
  assumes inp: "connIn rw = hdr @ hmac @ body @ tmac @ trail"
    and lens: "length hdr = 16" "length hmac = 16" "length tmac = 16"
    and hm: "fst (updateMAC cs (ingressMAC rw) (macCipher rw) hdr) = hmac"
    and fs: "readInt24 (fst (XORKeyStream cs (dec rw) hdr)) = fsize"
    and bl: "length body = unat (if fsize mod 16 > 0 then fsize + (16 - fsize mod 16) else fsize)"
    and tm: "fst (updateMAC cs (snd (updateMAC cs (ingressMAC rw) (macCipher rw) hdr) @ body) (macCipher rw)
                   (legacyKeccak256 cs (snd (updateMAC cs (ingressMAC rw) (macCipher rw) hdr) @ body))) \<noteq> tmac"
  shows "fst (ReadMsg cs rw) = Error ErrBadFrameMAC \<and>
         dec (snd (ReadMsg cs rw)) = (dec rw)\<lparr>ctrPos := ctrPos (dec rw) + 16\<rparr>"
  using assms
  by (simp add: ReadMsg_def ReadFull_def Let_def split_def)

text \<open>
  A frame as a matched writer sent it, with its header MAC replaced by 16 other bytes,
  is refused with the MAC error, whatever the hash. (For a change in the encrypted
  header or body, refusal is the statement that the 16-byte tags of the two inputs
  differ, a property of the hash.)
\<close>

lemma tampered_header_mac_rejected:
  assumes dg: "\<forall>x. length (legacyKeccak256 cs x) = 32"
    and mt: "matched rA rB"
    and ok: "\<not> (snappy rA \<and> Size m > maxUint24)" and le: "frameSize cs rA m \<le> maxUint24"
    and wire: "connOut (snd (WriteMsg cs rA m)) = connOut rA @ hdr @ hmac @ rest"
    and lens: "length hdr = 16" "length hmac = 16"
    and bad: "length hmac' = 16" "hmac' \<noteq> hmac"
    and inp: "connIn rB = hdr @ hmac' @ rest"
  shows "fst (ReadMsg cs rB) = Error ErrBadHeaderMAC"
proof -
  from wire lens have h: "hdr = fst (XORKeyStream cs (enc rA) (putInt24 (frameSize cs rA m) @ zeroHeader @ replicate 10 0))"
    and t: "hmac = fst (updateMAC cs (egressMAC rA) (macCipher rA) hdr)"
    unfolding WriteMsg_frame [OF ok le]
    by (auto simp add: Let_def zeroHeader_def fst_updateMAC_length [OF dg])
  have r: "ReadFull 32 (connIn rB) = OK (hdr @ hmac', rest)"
    using inp lens bad by (simp add: ReadFull_def)
  have "fst (updateMAC cs (ingressMAC rB) (macCipher rB) (take 16 (hdr @ hmac'))) \<noteq> drop 16 (hdr @ hmac')"
    using mt lens bad t by (simp add: matched_def)
  from ReadMsg_bad_header_mac [OF r this] show ?thesis by simp
qed

section \<open>The handshake: facts and claims\<close>

lemma andThen_simps [simp]:
  "andThen (OK x) f = f x"
  "andThen (Error e) f = Error e"
  "andThen (Panic s) f = Panic s"
  by (simp_all add: andThen_def)

lemma andThen_OK_iff: "andThen r f = OK y \<longleftrightarrow> (\<exists>x. r = OK x \<and> f x = OK y)"
  by (cases r) simp_all

lemma andThen_Error_iff:
  "andThen r f = Error e \<longleftrightarrow> r = Error e \<or> (\<exists>x. r = OK x \<and> f x = Error e)"
  by (cases r) auto

lemma andThen_Panic_iff:
  "andThen r f = Panic s \<longleftrightarrow> r = Panic s \<or> (\<exists>x. r = OK x \<and> f x = Panic s)"
  by (cases r) auto

lemma fromOption_simps [simp]:
  "fromOption e None = Error e"
  "fromOption e (Some x) = OK x"
  by (simp_all add: fromOption_def)

lemma fromOption_OK_iff: "fromOption e x = OK y \<longleftrightarrow> x = Some y"
  by (cases x) simp_all

lemma fromOption_Error_iff: "fromOption e x = Error e' \<longleftrightarrow> x = None \<and> e' = e"
  by (cases x) auto

lemma fromOption_not_Panic [simp]: "fromOption e x \<noteq> Panic s"
  by (cases x) simp_all

lemma xor_OK_iff:
  "xor one other = OK r \<longleftrightarrow>
     length one \<le> length other \<and> r = map (\<lambda>i. (one ! i) XOR (other ! i)) [0 ..< length one]"
  by (auto simp add: xor_def)

lemma xor_not_Error [simp]: "xor one other \<noteq> Error e"
  by (simp add: xor_def)

lemma xor_OK_props:
  "xor one other = OK r \<Longrightarrow> length r = length one \<and> (\<forall>i < length one. r ! i = (one ! i) XOR (other ! i))"
  by (auto simp add: xor_OK_iff)

lemma seqIO_liftIO [simp]:
  "seqIO (liftIO (OK x)) f c = f x c"
  "seqIO (liftIO (Error e)) f c = (Error e, c)"
  "seqIO (liftIO (Panic s)) f c = (Panic s, c)"
  by (simp_all add: seqIO_def liftIO_def)

lemma fst_liftIO [simp]: "fst (liftIO r c) = r" "snd (liftIO r c) = c"
  by (simp_all add: liftIO_def)

lemma seqIO_connWrite [simp]: "seqIO (connWrite p) f c = f () (c\<lparr>wr := wr c @ p\<rparr>)"
  by (simp add: seqIO_def connWrite_def)

lemma fst_seqIO_OK:
  "fst (seqIO m f c) = OK y \<longleftrightarrow> (\<exists>x c1. m c = (OK x, c1) \<and> fst (f x c1) = OK y)"
  by (cases "m c"; cases "fst (m c)") (auto simp add: seqIO_def)

lemma fst_seqIO_Error:
  "fst (seqIO m f c) = Error e \<longleftrightarrow>
     fst (m c) = Error e \<or> (\<exists>x c1. m c = (OK x, c1) \<and> fst (f x c1) = Error e)"
  by (cases "m c"; cases "fst (m c)") (auto simp add: seqIO_def)

lemma fst_seqIO_Panic:
  "fst (seqIO m f c) = Panic s \<longleftrightarrow>
     fst (m c) = Panic s \<or> (\<exists>x c1. m c = (OK x, c1) \<and> fst (f x c1) = Panic s)"
  by (cases "m c"; cases "fst (m c)") (auto simp add: seqIO_def)

lemma connReadFull_OK:
  "connReadFull n c = (OK buf, c1) \<longleftrightarrow>
     (\<exists>rest. ReadFull n (rd c) = OK (buf, rest) \<and> c1 = c\<lparr>rd := rest\<rparr>)"
  by (auto simp add: connReadFull_def split: result.splits)

lemma fst_connReadFull_Error:
  "fst (connReadFull n c) = Error e \<longleftrightarrow> ReadFull n (rd c) = Error e"
  by (auto simp add: connReadFull_def split: result.splits)

lemma fst_connReadFull_Panic [simp]: "fst (connReadFull n c) \<noteq> Panic s"
  by (auto simp add: connReadFull_def ReadFull_def split: result.splits)

lemma ReadFull_Error: "ReadFull n inp = Error e \<Longrightarrow> e = ErrEOF \<or> e = ErrUnexpectedEOF"
  by (auto simp add: ReadFull_def split: if_splits)

text \<open>What \<^verbatim>\<open>readHandshakeMsg\<close> returns, case by case.\<close>

lemma readHandshakeMsg_OK:
  "readHandshakeMsg cs decodePlain setCS n prv c = (OK (msg, packet), c1) \<longleftrightarrow>
     (\<exists>rest plain msg0. ReadFull n (rd c) = OK (packet, rest) \<and> c1 = c\<lparr>rd := rest\<rparr> \<and>
        Decrypt cs prv packet = Some plain \<and> 2 \<le> length plain \<and>
        decodePlain (drop 2 plain) = Some msg0 \<and> msg = setCS msg0 (getUint16 (take 2 plain)))"
  by (auto simp add: readHandshakeMsg_def seqIO_def liftIO_def connReadFull_def Let_def
        split: result.splits option.splits prod.splits if_splits)

lemma readHandshakeMsg_Error:
  "fst (readHandshakeMsg cs decodePlain setCS n prv c) = Error e \<longleftrightarrow>
     ReadFull n (rd c) = Error e \<or>
     (e = ErrDecrypt \<and> (\<exists>buf rest. ReadFull n (rd c) = OK (buf, rest) \<and> Decrypt cs prv buf = None))"
  by (auto simp add: readHandshakeMsg_def seqIO_def liftIO_def connReadFull_def Let_def
        split: result.splits option.splits prod.splits if_splits)

lemma readHandshakeMsg_Panic:
  "fst (readHandshakeMsg cs decodePlain setCS n prv c) = Panic s \<longleftrightarrow>
     (\<exists>buf rest plain. ReadFull n (rd c) = OK (buf, rest) \<and> Decrypt cs prv buf = Some plain \<and>
        (if length plain < 2 then s = ''slice bounds out of range''
         else decodePlain (drop 2 plain) = None \<and> s = ''authRespV4 decode error''))"
  by (auto simp add: readHandshakeMsg_def seqIO_def liftIO_def connReadFull_def Let_def ReadFull_def
        split: result.splits option.splits prod.splits if_splits)


text \<open>The errors and panics each step of the handshake can end in.\<close>

lemma importPublicKey_Error:
  "importPublicKey cs b = Error e \<Longrightarrow> e = ErrInvalidPubkey \<or> e = ErrInvalidPubkeyLength (length b)"
  by (auto simp add: importPublicKey_def fromOption_Error_iff split: if_splits)

lemma importPublicKey_not_Panic [simp]: "importPublicKey cs b \<noteq> Panic s"
  by (simp add: importPublicKey_def)

lemma staticSharedSecret_Error:
  "staticSharedSecret cs h prv = Error e \<Longrightarrow> e = ErrGenerateShared"
  by (auto simp add: staticSharedSecret_def fromOption_Error_iff split: option.splits)

lemma staticSharedSecret_Panic:
  "staticSharedSecret cs h prv = Panic s \<Longrightarrow> s = ''nil pointer dereference''"
  by (auto simp add: staticSharedSecret_def split: option.splits)

lemma xor_Panic: "xor a b = Panic s \<Longrightarrow> s = ''index out of range''"
  by (auto simp add: xor_def split: if_splits)

lemma signedDigest_Error: "signedDigest cs h prv = Error e \<Longrightarrow> e = ErrGenerateShared"
  by (auto simp add: signedDigest_def andThen_Error_iff dest: staticSharedSecret_Error)

lemma signedDigest_Panic:
  "signedDigest cs h prv = Panic s \<Longrightarrow> s = ''nil pointer dereference'' \<or> s = ''index out of range''"
  by (auto simp add: signedDigest_def andThen_Panic_iff dest: staticSharedSecret_Panic xor_Panic)

lemma makeAuthMsg_Error:
  "makeAuthMsg cs h prv ent = Error e \<Longrightarrow> e = ErrGenerateShared \<or> e = ErrSign"
  by (auto simp add: makeAuthMsg_def Let_def andThen_Error_iff fromOption_Error_iff
        dest: signedDigest_Error split: if_splits)

lemma makeAuthMsg_Panic:
  "makeAuthMsg cs h prv ent = Panic s \<Longrightarrow>
     s = ''nil pointer dereference'' \<or> s = ''index out of range'' \<or> s = ''slice bounds out of range''"
  by (auto simp add: makeAuthMsg_def Let_def andThen_Panic_iff
        dest: signedDigest_Panic split: if_splits)

lemma sealPlain_Error:
  "sealPlain cs enc0 n h ent = Error e \<Longrightarrow> e = ErrRlpEncode \<or> e = ErrEncrypt"
  by (auto simp add: sealPlain_def andThen_Error_iff fromOption_Error_iff split: option.splits)

lemma sealPlain_Panic:
  "sealPlain cs enc0 n h ent = Panic s \<Longrightarrow> s = ''nil pointer dereference''"
  by (auto simp add: sealPlain_def andThen_Panic_iff split: option.splits)

lemma handleAuthResp_Error:
  "handleAuthResp cs h msg = Error e \<Longrightarrow>
     e = ErrAuthRespVersion (RespVersion msg) \<and> RespVersion msg \<noteq> TaiRLPXVersion \<or>
     RespVersion msg = TaiRLPXVersion \<and>
       (e = ErrInvalidPubkey \<or> e = ErrInvalidPubkeyLength (length (RandomPubkey msg)))"
  by (auto simp add: handleAuthResp_def Let_def andThen_Error_iff
        dest: importPublicKey_Error split: if_splits)

lemma handleAuthResp_not_Panic [simp]: "handleAuthResp cs h msg \<noteq> Panic s"
  by (auto simp add: handleAuthResp_def Let_def andThen_Panic_iff)

lemma handleAuthMsg_Error:
  "handleAuthMsg cs h msg prv ent = Error e \<Longrightarrow>
     e = ErrInvalidPubkey \<or> e = ErrInvalidPubkeyLength (length (InitiatorPubkey msg)) \<or>
     e = ErrGenerateShared \<or> e = ErrSigToPub"
  by (auto simp add: handleAuthMsg_def Let_def andThen_Error_iff fromOption_Error_iff
        dest: importPublicKey_Error signedDigest_Error split: option.splits)

lemma handleAuthMsg_Panic:
  "handleAuthMsg cs h msg prv ent = Panic s \<Longrightarrow>
     s = ''nil pointer dereference'' \<or> s = ''index out of range''"
  by (auto simp add: handleAuthMsg_def Let_def andThen_Panic_iff
        dest: signedDigest_Panic split: option.splits)

lemma makeAuthResp_not_Error [simp]: "makeAuthResp cs h ent \<noteq> Error e"
  by (simp add: makeAuthResp_def Let_def split: option.splits)

lemma makeAuthResp_Panic:
  "makeAuthResp cs h ent = Panic s \<Longrightarrow> s = ''nil pointer dereference''"
  by (auto simp add: makeAuthResp_def Let_def split: option.splits)

lemma secrets_Error: "secrets cs h a b = Error e \<Longrightarrow> e = ErrGenerateShared"
  by (auto simp add: secrets_def Let_def andThen_Error_iff fromOption_Error_iff
        split: option.splits)

lemma secrets_Panic:
  "secrets cs h a b = Panic s \<Longrightarrow> s = ''nil pointer dereference'' \<or> s = ''index out of range''"
  by (auto simp add: secrets_def Let_def andThen_Panic_iff dest: xor_Panic split: option.splits)

lemma checkCert_Error:
  "checkCert cs m h buf = Error e \<longleftrightarrow>
     (\<not> VerifyCert m buf \<and> e = ErrVerifyCert) \<or>
     (VerifyCert m buf \<and> FromCertBytesToPubKey cs buf = None \<and> e = ErrFromCertBytes) \<or>
     (VerifyCert m buf \<and> (\<exists>pub. FromCertBytesToPubKey cs buf = Some pub \<and> Some pub \<noteq> remote h) \<and>
        e = ErrCertNotMatch)"
  by (auto simp add: checkCert_def split: option.splits)

lemma checkCert_not_Panic [simp]: "checkCert cs m h buf \<noteq> Panic s"
  by (simp add: checkCert_def split: option.splits)

lemma receiverCertSizes_Error:
  "receiverCertSizes cm msg = Error e \<Longrightarrow> e = ErrReceiverCertSizeZero \<or> e = ErrRemoteCertSize"
  by (auto simp add: receiverCertSizes_def split: option.splits if_splits)

lemma receiverCertSizes_not_Panic [simp]: "receiverCertSizes cm msg \<noteq> Panic s"
  by (simp add: receiverCertSizes_def split: option.splits)

lemma liftIO_eq_iff [simp]: "liftIO r c = (r', c') \<longleftrightarrow> r = r' \<and> c' = c"
  by (auto simp add: liftIO_def)

lemma connWrite_simps [simp]:
  "fst (connWrite p c) = OK ()"
  "connWrite p c = (r, c') \<longleftrightarrow> r = OK () \<and> c' = c\<lparr>wr := wr c @ p\<rparr>"
  by (auto simp add: connWrite_def)

lemma seqIO_OK:
  "seqIO m f c = (OK y, c2) \<longleftrightarrow> (\<exists>x c1. m c = (OK x, c1) \<and> f x c1 = (OK y, c2))"
  by (cases "m c"; cases "fst (m c)") (auto simp add: seqIO_def)

text \<open>The two certificate exchanges, case by case.\<close>

lemma initiatorCertExchange_OK:
  "initiatorCertExchange cs cm resp h c = (OK u, c2) \<longleftrightarrow>
     ((cm = None \<or> (\<exists>m. cm = Some m \<and> cert m = [])) \<and> c2 = c) \<or>
     (\<exists>m buf rest. cm = Some m \<and> cert m \<noteq> [] \<and> RespCertSize resp \<noteq> 0 \<and>
        of_nat (length (cert m)) = RespCertSize resp \<and>
        ReadFull (unat (RespCertSize resp)) (rd c) = OK (buf, rest) \<and>
        checkCert cs m h buf = OK () \<and> c2 = c\<lparr>wr := wr c @ cert m, rd := rest\<rparr>)"
  by (auto simp add: initiatorCertExchange_def seqIO_OK connReadFull_OK split: option.splits)

lemma initiatorCertExchange_Error:
  "fst (initiatorCertExchange cs cm resp h c) = Error e \<longleftrightarrow>
     (\<exists>m. cm = Some m \<and> cert m \<noteq> [] \<and>
        (if RespCertSize resp = 0 then e = ErrInitiatorCertSizeZero
         else if of_nat (length (cert m)) \<noteq> RespCertSize resp then e = ErrRemoteCertSize
         else ReadFull (unat (RespCertSize resp)) (rd c) = Error e \<or>
              (\<exists>buf rest. ReadFull (unat (RespCertSize resp)) (rd c) = OK (buf, rest) \<and>
                 checkCert cs m h buf = Error e)))"
  by (auto simp add: initiatorCertExchange_def fst_seqIO_Error fst_connReadFull_Error connReadFull_OK
        split: option.splits)

lemma initiatorCertExchange_not_Panic [simp]:
  "fst (initiatorCertExchange cs cm resp h c) \<noteq> Panic s"
  by (auto simp add: initiatorCertExchange_def fst_seqIO_Panic split: option.splits)

lemma receiverCertExchange_OK:
  "receiverCertExchange cs cm found msg h c = (OK u, c2) \<longleftrightarrow>
     ((cm = None \<or> \<not> found) \<and> c2 = c) \<or>
     (\<exists>m buf rest. cm = Some m \<and> found \<and>
        ReadFull (unat (CertSize msg)) (rd c) = OK (buf, rest) \<and>
        checkCert cs m h buf = OK () \<and> c2 = c\<lparr>rd := rest, wr := wr c @ cert m\<rparr>)"
  by (auto simp add: receiverCertExchange_def seqIO_OK connReadFull_OK split: option.splits)

lemma receiverCertExchange_Error:
  "fst (receiverCertExchange cs cm found msg h c) = Error e \<longleftrightarrow>
     (\<exists>m. cm = Some m \<and> found \<and>
        (ReadFull (unat (CertSize msg)) (rd c) = Error e \<or>
         (\<exists>buf rest. ReadFull (unat (CertSize msg)) (rd c) = OK (buf, rest) \<and>
            checkCert cs m h buf = Error e)))"
  by (auto simp add: receiverCertExchange_def fst_seqIO_Error fst_connReadFull_Error connReadFull_OK
        split: option.splits)

lemma receiverCertExchange_not_Panic [simp]:
  "fst (receiverCertExchange cs cm found msg h c) \<noteq> Panic s"
  by (auto simp add: receiverCertExchange_def fst_seqIO_Panic split: option.splits)

lemma certExchange_Error_kinds:
  "fst (initiatorCertExchange cs cm resp h c) = Error e \<Longrightarrow>
     e \<in> {ErrInitiatorCertSizeZero, ErrRemoteCertSize, ErrEOF, ErrUnexpectedEOF, ErrVerifyCert,
          ErrFromCertBytes, ErrCertNotMatch}"
  "fst (receiverCertExchange cs cm found msg h c) = Error e \<Longrightarrow>
     e \<in> {ErrEOF, ErrUnexpectedEOF, ErrVerifyCert, ErrFromCertBytes, ErrCertNotMatch}"
  by (auto simp add: initiatorCertExchange_Error receiverCertExchange_Error checkCert_Error
        dest!: ReadFull_Error split: if_splits)

lemma receiver_Error_ErrDecrypt:
  "fst (receiverEncHandshake cs cm prv ent c) = Error ErrDecrypt \<longleftrightarrow>
     (\<exists>buf rest. ReadFull encAuthMsgLen (rd c) = OK (buf, rest) \<and> Decrypt cs prv buf = None)"
  apply (simp add: receiverEncHandshake_def fst_seqIO_Error readHandshakeMsg_Error Let_def split_def)
  apply (auto simp add: fst_seqIO_Error fst_connReadFull_Error seqIO_OK
        dest!: ReadFull_Error handleAuthMsg_Error receiverCertSizes_Error sealPlain_Error secrets_Error certExchange_Error_kinds
        simp add: sealPlainAuthResp_def split: if_splits)
  done


lemma readHandshakeMsg_Panic_decode:
  "fst (readHandshakeMsg cs decodePlain setCS n prv c) = Panic ''authRespV4 decode error'' \<longleftrightarrow>
     (\<exists>buf rest plain. ReadFull n (rd c) = OK (buf, rest) \<and> Decrypt cs prv buf = Some plain \<and>
        2 \<le> length plain \<and> decodePlain (drop 2 plain) = None)"
  by (auto simp add: readHandshakeMsg_def seqIO_def liftIO_def connReadFull_def Let_def ReadFull_def
        split: result.splits option.splits prod.splits if_splits)

lemma receiver_Panic_decode:
  "fst (receiverEncHandshake cs cm prv ent c) = Panic ''authRespV4 decode error'' \<longleftrightarrow>
     (\<exists>buf rest plain. ReadFull encAuthMsgLen (rd c) = OK (buf, rest) \<and>
        Decrypt cs prv buf = Some plain \<and> 2 \<le> length plain \<and>
        rlpDecodeAuthMsg cs (drop 2 plain) = None)"
  apply (simp add: receiverEncHandshake_def fst_seqIO_Panic readHandshakeMsg_Panic_decode Let_def split_def)
  apply (auto simp add: fst_seqIO_Panic seqIO_OK
        dest!: handleAuthMsg_Panic makeAuthResp_Panic sealPlain_Panic secrets_Panic
        simp add: sealPlainAuthResp_def split: if_splits)
  done

lemma initiator_Error_ErrDecrypt:
  "fst (initiatorEncHandshake cs cm prv remotePub ent c) = Error ErrDecrypt \<longleftrightarrow>
     (\<exists>authMsg h1 authPacket buf rest.
        makeAuthMsg cs (initiatorState cm remotePub) prv ent = OK (authMsg, h1) \<and>
        sealPlainAuthMsg cs authMsg h1 ent = OK authPacket \<and>
        ReadFull encAuthRespLen (rd c) = OK (buf, rest) \<and> Decrypt cs prv buf = None)"
  apply (simp add: initiatorEncHandshake_def fst_seqIO_Error readHandshakeMsg_Error Let_def split_def)
  apply (auto simp add: fst_seqIO_Error fst_connReadFull_Error seqIO_OK readHandshakeMsg_Error
        dest!: ReadFull_Error makeAuthMsg_Error handleAuthResp_Error sealPlain_Error secrets_Error certExchange_Error_kinds
        simp add: sealPlainAuthMsg_def split: if_splits)
  done

lemma initiator_Panic_decode:
  "fst (initiatorEncHandshake cs cm prv remotePub ent c) = Panic ''authRespV4 decode error'' \<longleftrightarrow>
     (\<exists>authMsg h1 authPacket buf rest plain.
        makeAuthMsg cs (initiatorState cm remotePub) prv ent = OK (authMsg, h1) \<and>
        sealPlainAuthMsg cs authMsg h1 ent = OK authPacket \<and>
        ReadFull encAuthRespLen (rd c) = OK (buf, rest) \<and>
        Decrypt cs prv buf = Some plain \<and> 2 \<le> length plain \<and>
        rlpDecodeAuthResp cs (drop 2 plain) = None)"
  apply (simp add: initiatorEncHandshake_def fst_seqIO_Panic readHandshakeMsg_Panic_decode Let_def split_def)
  apply (auto simp add: fst_seqIO_Panic seqIO_OK readHandshakeMsg_Panic_decode
        dest!: makeAuthMsg_Panic sealPlain_Panic secrets_Panic
        simp add: sealPlainAuthMsg_def split: if_splits)
  done


lemma makeAuthMsg_OK:
  "makeAuthMsg cs h prv ent = OK (msg, h1) \<longleftrightarrow>
     (\<exists>signed sg.
        h1 = h\<lparr>initNonce := copyInto shaLen (randNonce ent), randomPrivKey := Some (randKey ent)\<rparr> \<and>
        signedDigest cs h1 prv = OK signed \<and> Sign cs signed (randKey ent) = Some sg \<and>
        FromECDSAPub cs (PublicKey cs prv) \<noteq> [] \<and>
        msg = \<lparr>Signature = copyInto sigLen sg,
               InitiatorPubkey = copyInto pubLen (drop 1 (FromECDSAPub cs (PublicKey cs prv))),
               Nonce = copyInto shaLen (initNonce h1), Version = TaiRLPXVersion,
               CertSize = hsCertSize h1\<rparr>)"
  by (auto simp add: makeAuthMsg_def Let_def andThen_OK_iff fromOption_OK_iff split: if_splits)

lemma makeAuthMsg_Version: "makeAuthMsg cs h prv ent = OK (msg, h1) \<Longrightarrow> Version msg = TaiRLPXVersion"
  by (auto simp add: makeAuthMsg_OK)

lemma makeAuthResp_OK:
  "makeAuthResp cs h ent = OK (msg, h1) \<longleftrightarrow>
     (\<exists>k. randomPrivKey h = Some k \<and> h1 = h\<lparr>respNonce := copyInto shaLen (randNonce ent)\<rparr> \<and>
        msg = \<lparr>RandomPubkey = copyInto pubLen (exportPubkey cs (PublicKey cs k)),
               RespNonce = copyInto shaLen (respNonce h1), RespVersion = TaiRLPXVersion,
               RespCertSize = hsCertSize h1\<rparr>)"
  by (auto simp add: makeAuthResp_def Let_def split: option.splits)

lemma makeAuthResp_Version:
  "makeAuthResp cs h ent = OK (msg, h1) \<Longrightarrow> RespVersion msg = TaiRLPXVersion"
  by (auto simp add: makeAuthResp_OK)

lemma handleAuthResp_version_Error:
  "handleAuthResp cs h msg = Error (ErrAuthRespVersion v) \<longleftrightarrow>
     RespVersion msg = v \<and> v \<noteq> TaiRLPXVersion"
  by (auto simp add: handleAuthResp_def Let_def andThen_Error_iff dest: importPublicKey_Error)

lemma initiator_Error_version:
  "fst (initiatorEncHandshake cs cm prv remotePub ent c) = Error (ErrAuthRespVersion v) \<longleftrightarrow>
     (\<exists>authMsg h1 authPacket resp respPacket c1.
        makeAuthMsg cs (initiatorState cm remotePub) prv ent = OK (authMsg, h1) \<and>
        sealPlainAuthMsg cs authMsg h1 ent = OK authPacket \<and>
        readHandshakeMsg cs (rlpDecodeAuthResp cs) setCertSizeAuthResp encAuthRespLen prv
          (c\<lparr>wr := wr c @ authPacket\<rparr>) = (OK (resp, respPacket), c1) \<and>
        RespVersion resp = v \<and> v \<noteq> Version authMsg)"
  apply (simp add: initiatorEncHandshake_def fst_seqIO_Error Let_def split_def)
  apply (auto simp add: fst_seqIO_Error fst_connReadFull_Error seqIO_OK readHandshakeMsg_Error
        handleAuthResp_version_Error makeAuthMsg_Version
        dest!: ReadFull_Error makeAuthMsg_Error sealPlain_Error secrets_Error certExchange_Error_kinds
        simp add: sealPlainAuthMsg_def split: if_splits)
  done

lemma receiver_Error_version:
  "fst (receiverEncHandshake cs cm prv ent c) = Error (ErrHandshakeVersion v) \<longleftrightarrow>
     (\<exists>authMsg authPacket c1 h1 found resp h2 respPacket.
        readHandshakeMsg cs (rlpDecodeAuthMsg cs) setCertSizeAuthMsg encAuthMsgLen prv c =
          (OK (authMsg, authPacket), c1) \<and>
        handleAuthMsg cs (receiverState cm) authMsg prv ent = OK h1 \<and>
        receiverCertSizes cm authMsg = OK found \<and>
        makeAuthResp cs h1 ent = OK (resp, h2) \<and>
        sealPlainAuthResp cs resp h2 ent = OK respPacket \<and>
        Version authMsg = v \<and> v \<noteq> RespVersion resp)"
  apply (simp add: receiverEncHandshake_def fst_seqIO_Error Let_def split_def)
  apply (auto simp add: fst_seqIO_Error fst_connReadFull_Error seqIO_OK readHandshakeMsg_Error
        makeAuthResp_Version
        dest!: ReadFull_Error handleAuthMsg_Error receiverCertSizes_Error sealPlain_Error secrets_Error certExchange_Error_kinds
        simp add: sealPlainAuthResp_def split: if_splits)
  done


lemma handleAuthResp_OK:
  "handleAuthResp cs h msg = OK h2 \<longleftrightarrow>
     (\<exists>p. RespVersion msg = TaiRLPXVersion \<and> importPublicKey cs (RandomPubkey msg) = OK p \<and>
        h2 = h\<lparr>respNonce := RespNonce msg, remoteRandomPub := Some p\<rparr>)"
  by (auto simp add: handleAuthResp_def Let_def andThen_OK_iff)

lemma handleAuthMsg_OK:
  "handleAuthMsg cs h msg prv ent = OK h3 \<longleftrightarrow>
     (\<exists>rpub h2 signed rrp.
        importPublicKey cs (InitiatorPubkey msg) = OK rpub \<and>
        h2 = (case randomPrivKey h of
                None \<Rightarrow> h\<lparr>initNonce := Nonce msg, remote := Some rpub, randomPrivKey := Some (randKey ent)\<rparr>
              | Some k \<Rightarrow> h\<lparr>initNonce := Nonce msg, remote := Some rpub\<rparr>) \<and>
        signedDigest cs h2 prv = OK signed \<and> SigToPub cs signed (Signature msg) = Some rrp \<and>
        h3 = h2\<lparr>remoteRandomPub := Some rrp\<rparr>)"
  by (auto simp add: handleAuthMsg_def Let_def andThen_OK_iff fromOption_OK_iff split: option.splits)

lemma handleAuthMsg_remote:
  "handleAuthMsg cs h msg prv ent = OK h3 \<Longrightarrow>
     importPublicKey cs (InitiatorPubkey msg) = fromOption ErrInvalidPubkey (remote h3) \<and> remote h3 \<noteq> None"
  by (auto simp add: handleAuthMsg_OK split: option.splits)

lemma initiator_remote:
  "makeAuthMsg cs (initiatorState cm remotePub) prv ent = OK (authMsg, h1) \<Longrightarrow>
   handleAuthResp cs h1 resp = OK h2 \<Longrightarrow> remote h2 = Some remotePub"
  by (auto simp add: makeAuthMsg_OK handleAuthResp_OK initiatorState_def)

lemma receiver_remote:
  "handleAuthMsg cs h authMsg prv ent = OK h1 \<Longrightarrow> makeAuthResp cs h1 ent = OK (resp, h2) \<Longrightarrow>
   \<exists>rpub. importPublicKey cs (InitiatorPubkey authMsg) = OK rpub \<and> remote h2 = Some rpub"
  by (auto simp add: handleAuthMsg_OK makeAuthResp_OK split: option.splits)

lemma checkCert_mismatch:
  "checkCert cs m h buf = Error ErrCertNotMatch \<longleftrightarrow>
     VerifyCert m buf \<and> (\<exists>pub. FromCertBytesToPubKey cs buf = Some pub \<and> Some pub \<noteq> remote h)"
  by (auto simp add: checkCert_Error)

lemma initiator_Error_cert_raw:
  "fst (initiatorEncHandshake cs cm prv remotePub ent c) = Error ErrCertNotMatch \<longleftrightarrow>
     (\<exists>authMsg h1 authPacket resp respPacket c1 h2 m buf rest.
        makeAuthMsg cs (initiatorState cm remotePub) prv ent = OK (authMsg, h1) \<and>
        sealPlainAuthMsg cs authMsg h1 ent = OK authPacket \<and>
        readHandshakeMsg cs (rlpDecodeAuthResp cs) setCertSizeAuthResp encAuthRespLen prv
          (c\<lparr>wr := wr c @ authPacket\<rparr>) = (OK (resp, respPacket), c1) \<and>
        handleAuthResp cs h1 resp = OK h2 \<and>
        cm = Some m \<and> cert m \<noteq> [] \<and> RespCertSize resp \<noteq> 0 \<and>
        of_nat (length (cert m)) = RespCertSize resp \<and>
        ReadFull (unat (RespCertSize resp)) (rd c1) = OK (buf, rest) \<and>
        checkCert cs m h2 buf = Error ErrCertNotMatch)"
  apply (simp add: initiatorEncHandshake_def fst_seqIO_Error Let_def split_def)
  apply (auto simp add: fst_seqIO_Error seqIO_OK readHandshakeMsg_Error initiatorCertExchange_Error
        dest!: ReadFull_Error makeAuthMsg_Error handleAuthResp_Error sealPlain_Error secrets_Error
        simp add: sealPlainAuthMsg_def split: if_splits)
  done

lemma initiator_Error_cert:
  "fst (initiatorEncHandshake cs cm prv remotePub ent c) = Error ErrCertNotMatch \<longleftrightarrow>
     (\<exists>authMsg h1 authPacket resp respPacket c1 h2 m buf rest pub.
        makeAuthMsg cs (initiatorState cm remotePub) prv ent = OK (authMsg, h1) \<and>
        sealPlainAuthMsg cs authMsg h1 ent = OK authPacket \<and>
        readHandshakeMsg cs (rlpDecodeAuthResp cs) setCertSizeAuthResp encAuthRespLen prv
          (c\<lparr>wr := wr c @ authPacket\<rparr>) = (OK (resp, respPacket), c1) \<and>
        handleAuthResp cs h1 resp = OK h2 \<and>
        cm = Some m \<and> cert m \<noteq> [] \<and> RespCertSize resp \<noteq> 0 \<and>
        of_nat (length (cert m)) = RespCertSize resp \<and>
        ReadFull (unat (RespCertSize resp)) (rd c1) = OK (buf, rest) \<and>
        VerifyCert m buf \<and> FromCertBytesToPubKey cs buf = Some pub \<and> pub \<noteq> remotePub)"
  unfolding initiator_Error_cert_raw checkCert_Error
  by (fastforce simp add: initiator_remote)

lemma receiver_Error_cert_raw:
  "fst (receiverEncHandshake cs cm prv ent c) = Error ErrCertNotMatch \<longleftrightarrow>
     (\<exists>authMsg authPacket c1 h1 resp h2 respPacket m buf rest.
        readHandshakeMsg cs (rlpDecodeAuthMsg cs) setCertSizeAuthMsg encAuthMsgLen prv c =
          (OK (authMsg, authPacket), c1) \<and>
        handleAuthMsg cs (receiverState cm) authMsg prv ent = OK h1 \<and>
        receiverCertSizes cm authMsg = OK True \<and>
        makeAuthResp cs h1 ent = OK (resp, h2) \<and>
        sealPlainAuthResp cs resp h2 ent = OK respPacket \<and>
        Version authMsg = TaiRLPXVersion \<and> cm = Some m \<and>
        ReadFull (unat (CertSize authMsg)) (rd (c1\<lparr>wr := wr c1 @ respPacket\<rparr>)) = OK (buf, rest) \<and>
        checkCert cs m h2 buf = Error ErrCertNotMatch)"
  apply (simp add: receiverEncHandshake_def fst_seqIO_Error Let_def split_def)
  apply (auto simp add: fst_seqIO_Error seqIO_OK readHandshakeMsg_Error receiverCertExchange_Error
        dest!: ReadFull_Error handleAuthMsg_Error receiverCertSizes_Error sealPlain_Error secrets_Error
        simp add: sealPlainAuthResp_def split: if_splits)
  done

lemma receiver_Error_cert:
  "fst (receiverEncHandshake cs cm prv ent c) = Error ErrCertNotMatch \<longleftrightarrow>
     (\<exists>authMsg authPacket c1 h1 resp h2 respPacket m buf rest pub rpub.
        readHandshakeMsg cs (rlpDecodeAuthMsg cs) setCertSizeAuthMsg encAuthMsgLen prv c =
          (OK (authMsg, authPacket), c1) \<and>
        handleAuthMsg cs (receiverState cm) authMsg prv ent = OK h1 \<and>
        receiverCertSizes cm authMsg = OK True \<and>
        makeAuthResp cs h1 ent = OK (resp, h2) \<and>
        sealPlainAuthResp cs resp h2 ent = OK respPacket \<and>
        Version authMsg = TaiRLPXVersion \<and> cm = Some m \<and>
        ReadFull (unat (CertSize authMsg)) (rd c1) = OK (buf, rest) \<and>
        VerifyCert m buf \<and> FromCertBytesToPubKey cs buf = Some pub \<and>
        importPublicKey cs (InitiatorPubkey authMsg) = OK rpub \<and> pub \<noteq> rpub)"
proof
  assume "fst (receiverEncHandshake cs cm prv ent c) = Error ErrCertNotMatch"
  then obtain authMsg authPacket c1 h1 resp h2 respPacket m buf rest where
    f: "readHandshakeMsg cs (rlpDecodeAuthMsg cs) setCertSizeAuthMsg encAuthMsgLen prv c =
          (OK (authMsg, authPacket), c1)"
      "handleAuthMsg cs (receiverState cm) authMsg prv ent = OK h1"
      "receiverCertSizes cm authMsg = OK True"
      "makeAuthResp cs h1 ent = OK (resp, h2)"
      "sealPlainAuthResp cs resp h2 ent = OK respPacket"
      "Version authMsg = TaiRLPXVersion" "cm = Some m"
      "ReadFull (unat (CertSize authMsg)) (rd (c1\<lparr>wr := wr c1 @ respPacket\<rparr>)) = OK (buf, rest)"
      "checkCert cs m h2 buf = Error ErrCertNotMatch"
    unfolding receiver_Error_cert_raw by blast
  from f(9) obtain pub where p: "VerifyCert m buf" "FromCertBytesToPubKey cs buf = Some pub"
    "Some pub \<noteq> remote h2"
    by (auto simp add: checkCert_mismatch)
  from receiver_remote [OF f(2) f(4)] obtain rpub where
    r: "importPublicKey cs (InitiatorPubkey authMsg) = OK rpub" "remote h2 = Some rpub"
    by blast
  from p(3) r(2) have ne: "pub \<noteq> rpub" by auto
  from f(8) have rf: "ReadFull (unat (CertSize authMsg)) (rd c1) = OK (buf, rest)" by simp
  from f(1-7) rf p(1,2) r(1) ne
  show "\<exists>authMsg authPacket c1 h1 resp h2 respPacket m buf rest pub rpub.
        readHandshakeMsg cs (rlpDecodeAuthMsg cs) setCertSizeAuthMsg encAuthMsgLen prv c =
          (OK (authMsg, authPacket), c1) \<and>
        handleAuthMsg cs (receiverState cm) authMsg prv ent = OK h1 \<and>
        receiverCertSizes cm authMsg = OK True \<and>
        makeAuthResp cs h1 ent = OK (resp, h2) \<and>
        sealPlainAuthResp cs resp h2 ent = OK respPacket \<and>
        Version authMsg = TaiRLPXVersion \<and> cm = Some m \<and>
        ReadFull (unat (CertSize authMsg)) (rd c1) = OK (buf, rest) \<and>
        VerifyCert m buf \<and> FromCertBytesToPubKey cs buf = Some pub \<and>
        importPublicKey cs (InitiatorPubkey authMsg) = OK rpub \<and> pub \<noteq> rpub"
    by blast
next
  assume "\<exists>authMsg authPacket c1 h1 resp h2 respPacket m buf rest pub rpub.
        readHandshakeMsg cs (rlpDecodeAuthMsg cs) setCertSizeAuthMsg encAuthMsgLen prv c =
          (OK (authMsg, authPacket), c1) \<and>
        handleAuthMsg cs (receiverState cm) authMsg prv ent = OK h1 \<and>
        receiverCertSizes cm authMsg = OK True \<and>
        makeAuthResp cs h1 ent = OK (resp, h2) \<and>
        sealPlainAuthResp cs resp h2 ent = OK respPacket \<and>
        Version authMsg = TaiRLPXVersion \<and> cm = Some m \<and>
        ReadFull (unat (CertSize authMsg)) (rd c1) = OK (buf, rest) \<and>
        VerifyCert m buf \<and> FromCertBytesToPubKey cs buf = Some pub \<and>
        importPublicKey cs (InitiatorPubkey authMsg) = OK rpub \<and> pub \<noteq> rpub"
  then obtain authMsg authPacket c1 h1 resp h2 respPacket m buf rest pub rpub where
    f: "readHandshakeMsg cs (rlpDecodeAuthMsg cs) setCertSizeAuthMsg encAuthMsgLen prv c =
          (OK (authMsg, authPacket), c1)"
      "handleAuthMsg cs (receiverState cm) authMsg prv ent = OK h1"
      "receiverCertSizes cm authMsg = OK True"
      "makeAuthResp cs h1 ent = OK (resp, h2)"
      "sealPlainAuthResp cs resp h2 ent = OK respPacket"
      "Version authMsg = TaiRLPXVersion" "cm = Some m"
      "ReadFull (unat (CertSize authMsg)) (rd c1) = OK (buf, rest)"
      "VerifyCert m buf" "FromCertBytesToPubKey cs buf = Some pub"
      "importPublicKey cs (InitiatorPubkey authMsg) = OK rpub" "pub \<noteq> rpub"
    by blast
  from receiver_remote [OF f(2) f(4)] f(11) have "remote h2 = Some rpub" by auto
  with f(9,10,12) have cc: "checkCert cs m h2 buf = Error ErrCertNotMatch"
    by (auto simp add: checkCert_mismatch)
  from f(8) have rf: "ReadFull (unat (CertSize authMsg)) (rd (c1\<lparr>wr := wr c1 @ respPacket\<rparr>)) = OK (buf, rest)"
    by simp
  from f(1-7) rf cc show "fst (receiverEncHandshake cs cm prv ent c) = Error ErrCertNotMatch"
    unfolding receiver_Error_cert_raw by blast
qed


text \<open>A successful run of either side, step by step.\<close>

lemma initiator_OK:
  "initiatorEncHandshake cs cm prv remotePub ent c = (OK s, c') \<longleftrightarrow>
     (\<exists>authMsg h1 authPacket resp respPacket c1 h2.
        makeAuthMsg cs (initiatorState cm remotePub) prv ent = OK (authMsg, h1) \<and>
        sealPlainAuthMsg cs authMsg h1 ent = OK authPacket \<and>
        readHandshakeMsg cs (rlpDecodeAuthResp cs) setCertSizeAuthResp encAuthRespLen prv
          (c\<lparr>wr := wr c @ authPacket\<rparr>) = (OK (resp, respPacket), c1) \<and>
        handleAuthResp cs h1 resp = OK h2 \<and>
        initiatorCertExchange cs cm resp h2 c1 = (OK (), c') \<and>
        secrets cs h2 authPacket respPacket = OK s)"
  by (auto simp add: initiatorEncHandshake_def seqIO_OK Let_def split_def)

lemma receiver_OK:
  "receiverEncHandshake cs cm prv ent c = (OK s, c') \<longleftrightarrow>
     (\<exists>authMsg authPacket c1 h1 found resp h2 respPacket.
        readHandshakeMsg cs (rlpDecodeAuthMsg cs) setCertSizeAuthMsg encAuthMsgLen prv c =
          (OK (authMsg, authPacket), c1) \<and>
        handleAuthMsg cs (receiverState cm) authMsg prv ent = OK h1 \<and>
        receiverCertSizes cm authMsg = OK found \<and>
        makeAuthResp cs h1 ent = OK (resp, h2) \<and>
        sealPlainAuthResp cs resp h2 ent = OK respPacket \<and>
        Version authMsg = TaiRLPXVersion \<and>
        receiverCertExchange cs cm found authMsg h2 (c1\<lparr>wr := wr c1 @ respPacket\<rparr>) = (OK (), c') \<and>
        secrets cs h2 authPacket respPacket = OK s)"
  by (auto simp add: receiverEncHandshake_def seqIO_OK Let_def split_def split: if_splits)

lemma getUint16_putUint16 [simp]: "getUint16 (take 2 (putUint16 v @ data)) = v"
  apply (simp add: getUint16_def putUint16_def)
  apply (rule bit_word_eqI)
  apply (auto simp add: bit_simps)
  done

lemma getUint16_putUint16' [simp]: "getUint16 (putUint16 v) = v"
  using getUint16_putUint16 [of v "[]"] by (simp add: putUint16_def)

lemma length_putUint16 [simp]: "length (putUint16 v) = 2"
  by (simp add: putUint16_def)

lemma copyInto_length [simp]: "length (copyInto n x) = n"
  by (simp add: copyInto_def)

lemma copyInto_idem [simp]: "length x = n \<Longrightarrow> copyInto n x = x"
  by (simp add: copyInto_def)

text \<open>What a correct suite gives: a sealed packet is read back as the message it carries.\<close>

lemma sealPlain_OK:
  "sealPlain cs enc0 n h ent = OK packet \<longleftrightarrow>
     (\<exists>data r. enc0 = Some data \<and> remote h = Some r \<and>
        Encrypt cs (randSeal ent) r (putUint16 n @ data) = Some packet)"
  by (auto simp add: sealPlain_def andThen_OK_iff fromOption_OK_iff split: option.splits)

lemma read_sealed_auth:
  assumes sc: "suiteCorrect cs"
    and wf: "Version msg = TaiRLPXVersion" "length (Signature msg) = sigLen"
      "length (InitiatorPubkey msg) = pubLen" "length (Nonce msg) = shaLen"
    and seal: "sealPlainAuthMsg cs msg h ent = OK packet"
    and rem: "remote h = Some (PublicKey cs k)"
    and inp: "rd c = packet @ trail"
  shows "readHandshakeMsg cs (rlpDecodeAuthMsg cs) setCertSizeAuthMsg encAuthMsgLen k c =
           (OK (msg, packet), c\<lparr>rd := trail\<rparr>)"
proof -
  from seal rem obtain data where
    e: "rlpEncodeAuthMsg cs msg = Some data"
    and en: "Encrypt cs (randSeal ent) (PublicKey cs k) (putUint16 (CertSize msg) @ data) = Some packet"
    by (auto simp add: sealPlainAuthMsg_def sealPlain_OK)
  from sc en have d: "Decrypt cs k packet = Some (putUint16 (CertSize msg) @ data)"
    and l: "length packet = length (putUint16 (CertSize msg) @ data) + eciesOverhead"
    unfolding suiteCorrect_def by blast+
  from sc e wf have l2: "length data + certSize = authMsgLen"
    and "\<exists>m'. rlpDecodeAuthMsg cs data = Some m' \<and> m'\<lparr>CertSize := CertSize msg\<rparr> = msg"
    unfolding suiteCorrect_def by blast+
  then obtain m' where m': "rlpDecodeAuthMsg cs data = Some m'" "m'\<lparr>CertSize := CertSize msg\<rparr> = msg"
    by blast
  from l l2 have len: "length packet = encAuthMsgLen"
    by (simp add: encAuthMsgLen_def certSize_def)
  have rf: "ReadFull encAuthMsgLen (rd c) = OK (packet, trail)"
    using inp len by (simp add: ReadFull_def)
  show ?thesis
    unfolding readHandshakeMsg_OK
    using rf d m' by (auto simp add: setCertSizeAuthMsg_def)
qed

lemma read_sealed_resp:
  assumes sc: "suiteCorrect cs"
    and wf: "RespVersion msg = TaiRLPXVersion" "length (RandomPubkey msg) = pubLen"
      "length (RespNonce msg) = shaLen"
    and seal: "sealPlainAuthResp cs msg h ent = OK packet"
    and rem: "remote h = Some (PublicKey cs k)"
    and inp: "rd c = packet @ trail"
  shows "readHandshakeMsg cs (rlpDecodeAuthResp cs) setCertSizeAuthResp encAuthRespLen k c =
           (OK (msg, packet), c\<lparr>rd := trail\<rparr>)"
proof -
  from seal rem obtain data where
    e: "rlpEncodeAuthResp cs msg = Some data"
    and en: "Encrypt cs (randSeal ent) (PublicKey cs k) (putUint16 (RespCertSize msg) @ data) = Some packet"
    by (auto simp add: sealPlainAuthResp_def sealPlain_OK)
  from sc en have d: "Decrypt cs k packet = Some (putUint16 (RespCertSize msg) @ data)"
    and l: "length packet = length (putUint16 (RespCertSize msg) @ data) + eciesOverhead"
    unfolding suiteCorrect_def by blast+
  from sc e wf have l2: "length data + certSize = authRespLen"
    and "\<exists>m'. rlpDecodeAuthResp cs data = Some m' \<and> m'\<lparr>RespCertSize := RespCertSize msg\<rparr> = msg"
    unfolding suiteCorrect_def by blast+
  then obtain m' where m': "rlpDecodeAuthResp cs data = Some m'" "m'\<lparr>RespCertSize := RespCertSize msg\<rparr> = msg"
    by blast
  from l l2 have len: "length packet = encAuthRespLen"
    by (simp add: encAuthRespLen_def certSize_def)
  have rf: "ReadFull encAuthRespLen (rd c) = OK (packet, trail)"
    using inp len by (simp add: ReadFull_def)
  show ?thesis
    unfolding readHandshakeMsg_OK
    using rf d m' by (auto simp add: setCertSizeAuthResp_def)
qed


lemma readHandshakeMsg_wr:
  "readHandshakeMsg cs dp sc n prv c = (OK x, c1) \<Longrightarrow> wr c1 = wr c"
  by (cases x) (auto simp add: readHandshakeMsg_OK)

lemma initiatorCertExchange_wr:
  "initiatorCertExchange cs cm resp h c = (OK u, c2) \<Longrightarrow> \<exists>x. wr c2 = wr c @ x"
  by (auto simp add: initiatorCertExchange_OK)

lemma receiverCertExchange_wr:
  "receiverCertExchange cs cm found msg h c = (OK u, c2) \<Longrightarrow> \<exists>x. wr c2 = wr c @ x"
  by (auto simp add: receiverCertExchange_OK)

lemma signedDigest_OK:
  "signedDigest cs h prv = OK d \<longleftrightarrow>
     (\<exists>r token. remote h = Some r \<and> GenerateShared cs prv r sskLen sskLen = Some token \<and>
        xor token (initNonce h) = OK d)"
  by (auto simp add: signedDigest_def staticSharedSecret_def andThen_OK_iff fromOption_OK_iff
        split: option.splits)

lemma secrets_OK:
  "secrets cs h auth authResp = OK s \<longleftrightarrow>
     (\<exists>k p e seed1 seed2.
        randomPrivKey h = Some k \<and> remoteRandomPub h = Some p \<and>
        GenerateShared cs k p sskLen sskLen = Some e \<and>
        xor (Keccak256 cs (e @ Keccak256 cs (e @ Keccak256 cs (e @ Keccak256 cs (respNonce h @ initNonce h)))))
          (respNonce h) = OK seed1 \<and>
        xor (Keccak256 cs (e @ Keccak256 cs (e @ Keccak256 cs (e @ Keccak256 cs (respNonce h @ initNonce h)))))
          (initNonce h) = OK seed2 \<and>
        s = \<lparr>Remote = remote h,
             AES = Keccak256 cs (e @ Keccak256 cs (e @ Keccak256 cs (respNonce h @ initNonce h))),
             MAC = Keccak256 cs (e @ Keccak256 cs (e @ Keccak256 cs (e @ Keccak256 cs (respNonce h @ initNonce h)))),
             EgressMAC = (if initiator h then seed1 @ auth else seed2 @ authResp),
             IngressMAC = (if initiator h then seed2 @ authResp else seed1 @ auth),
             Token = []\<rparr>)"
  by (auto simp add: secrets_def Let_def andThen_OK_iff fromOption_OK_iff split: option.splits)

lemma handshake_agreement_aux:
  assumes sc: "suiteCorrect cs"
    and A: "initiatorEncHandshake cs cmA prvA (PublicKey cs prvB) eA \<lparr>rd = inA, wr = []\<rparr> = (OK sA, cA)"
    and B: "receiverEncHandshake cs cmB prvB eB \<lparr>rd = inB, wr = []\<rparr> = (OK sB, cB)"
    and wAB: "inB = wr cA" and wBA: "inA = wr cB"
  shows "AES sA = AES sB \<and> MAC sA = MAC sB \<and> EgressMAC sA = IngressMAC sB \<and>
         IngressMAC sA = EgressMAC sB \<and>
         Remote sA = Some (PublicKey cs prvB) \<and> Remote sB = Some (PublicKey cs prvA)"
proof -
  from A obtain authMsg h1 authPacket resp respPacket c1 h2 where
    a1: "makeAuthMsg cs (initiatorState cmA (PublicKey cs prvB)) prvA eA = OK (authMsg, h1)"
    and a2: "sealPlainAuthMsg cs authMsg h1 eA = OK authPacket"
    and a3: "readHandshakeMsg cs (rlpDecodeAuthResp cs) setCertSizeAuthResp encAuthRespLen prvA
              \<lparr>rd = inA, wr = authPacket\<rparr> = (OK (resp, respPacket), c1)"
    and a4: "handleAuthResp cs h1 resp = OK h2"
    and a5: "initiatorCertExchange cs cmA resp h2 c1 = (OK (), cA)"
    and a6: "secrets cs h2 authPacket respPacket = OK sA"
    unfolding initiator_OK by auto
  from B obtain authMsg' authPacket' d1 g1 found resp' g2 respPacket' where
    b1: "readHandshakeMsg cs (rlpDecodeAuthMsg cs) setCertSizeAuthMsg encAuthMsgLen prvB
           \<lparr>rd = inB, wr = []\<rparr> = (OK (authMsg', authPacket'), d1)"
    and b2: "handleAuthMsg cs (receiverState cmB) authMsg' prvB eB = OK g1"
    and b4: "makeAuthResp cs g1 eB = OK (resp', g2)"
    and b5: "sealPlainAuthResp cs resp' g2 eB = OK respPacket'"
    and b7: "receiverCertExchange cs cmB found authMsg' g2 (d1\<lparr>wr := wr d1 @ respPacket'\<rparr>) = (OK (), cB)"
    and b8: "secrets cs g2 authPacket' respPacket' = OK sB"
    unfolding receiver_OK by auto
  \<comment> \<open>what A wrote starts with its auth packet, and B read exactly that\<close>
  from readHandshakeMsg_wr [OF a3] have "wr c1 = authPacket" by simp
  with initiatorCertExchange_wr [OF a5] obtain x where wA: "wr cA = authPacket @ x" by auto
  from a1 have remA: "remote h1 = Some (PublicKey cs prvB)"
    by (auto simp add: makeAuthMsg_OK initiatorState_def)
  have "rd \<lparr>rd = inB, wr = []\<rparr> = authPacket @ x" using wAB wA by simp
  moreover from a1 have "Version authMsg = TaiRLPXVersion" "length (Signature authMsg) = sigLen"
    "length (InitiatorPubkey authMsg) = pubLen" "length (Nonce authMsg) = shaLen"
    by (auto simp add: makeAuthMsg_OK)
  ultimately have "readHandshakeMsg cs (rlpDecodeAuthMsg cs) setCertSizeAuthMsg encAuthMsgLen prvB
      \<lparr>rd = inB, wr = []\<rparr> = (OK (authMsg, authPacket), \<lparr>rd = inB, wr = []\<rparr>\<lparr>rd := x\<rparr>)"
    using read_sealed_auth [OF sc _ _ _ _ a2 remA] by blast
  with b1
  have eqA: "authMsg' = authMsg" "authPacket' = authPacket" and d1: "wr d1 = []" by auto
  \<comment> \<open>B's view of A\<close>
  from a1 obtain signedA sg where
    h1: "h1 = (initiatorState cmA (PublicKey cs prvB))
            \<lparr>initNonce := copyInto shaLen (randNonce eA), randomPrivKey := Some (randKey eA)\<rparr>"
    and sdA: "signedDigest cs h1 prvA = OK signedA"
    and sgA: "Sign cs signedA (randKey eA) = Some sg"
    and pubA: "FromECDSAPub cs (PublicKey cs prvA) \<noteq> []"
    and msgA: "authMsg = \<lparr>Signature = copyInto sigLen sg,
               InitiatorPubkey = copyInto pubLen (drop 1 (FromECDSAPub cs (PublicKey cs prvA))),
               Nonce = copyInto shaLen (initNonce h1), Version = TaiRLPXVersion,
               CertSize = hsCertSize h1\<rparr>"
    unfolding makeAuthMsg_OK by blast
  from sc pubA have impA:
    "importPublicKey cs (copyInto pubLen (drop 1 (FromECDSAPub cs (PublicKey cs prvA)))) = OK (PublicKey cs prvA)"
    unfolding suiteCorrect_def by blast
  have nA: "initNonce h1 = copyInto shaLen (randNonce eA)" by (simp add: h1)
  from sdA remA obtain tokenA where
    tA: "GenerateShared cs prvA (PublicKey cs prvB) sskLen sskLen = Some tokenA"
    and xA: "xor tokenA (initNonce h1) = OK signedA"
    by (auto simp add: signedDigest_OK)
  from sc have sym: "\<And>a b n l. GenerateShared cs a (PublicKey cs b) n l = GenerateShared cs b (PublicKey cs a) n l"
    unfolding suiteCorrect_def by blast
  from b2 [unfolded eqA handleAuthMsg_OK] impA msgA obtain hB signedB rrp where
    hB: "hB = (receiverState cmB)\<lparr>initNonce := Nonce authMsg, remote := Some (PublicKey cs prvA),
               randomPrivKey := Some (randKey eB)\<rparr>"
    and sdB: "signedDigest cs hB prvB = OK signedB"
    and rrp: "SigToPub cs signedB (Signature authMsg) = Some rrp"
    and g1: "g1 = hB\<lparr>remoteRandomPub := Some rrp\<rparr>"
    by (auto simp add: receiverState_def)
  have nB: "initNonce hB = initNonce h1" by (simp add: hB msgA nA)
  from sdB have "xor tokenA (initNonce h1) = OK signedB"
    using tA sym [of prvB prvA] by (auto simp add: signedDigest_OK hB nB [unfolded hB])
  with xA have "signedB = signedA" by simp
  with rrp sgA sc msgA have rrpv: "rrp = PublicKey cs (randKey eA)"
    unfolding suiteCorrect_def by (metis authMsgV4.select_convs(1) option.inject)
  \<comment> \<open>A's view of B\<close>
  from b4 have g2: "g2 = g1\<lparr>respNonce := copyInto shaLen (randNonce eB)\<rparr>"
    and msgB: "resp' = \<lparr>RandomPubkey = copyInto pubLen (exportPubkey cs (PublicKey cs (randKey eB))),
               RespNonce = copyInto shaLen (respNonce g2), RespVersion = TaiRLPXVersion,
               RespCertSize = hsCertSize g2\<rparr>"
    by (auto simp add: makeAuthResp_OK g1 hB)
  have remB: "remote g2 = Some (PublicKey cs prvA)" by (simp add: g2 g1 hB)
  from receiverCertExchange_wr [OF b7] d1 obtain y where wB: "wr cB = respPacket' @ y" by auto
  have "rd \<lparr>rd = inA, wr = authPacket\<rparr> = respPacket' @ y" using wBA wB by simp
  moreover from b4 have "RespVersion resp' = TaiRLPXVersion" "length (RandomPubkey resp') = pubLen"
    "length (RespNonce resp') = shaLen"
    by (auto simp add: makeAuthResp_OK)
  ultimately have "readHandshakeMsg cs (rlpDecodeAuthResp cs) setCertSizeAuthResp encAuthRespLen prvA
      \<lparr>rd = inA, wr = authPacket\<rparr> =
      (OK (resp', respPacket'), \<lparr>rd = inA, wr = authPacket\<rparr>\<lparr>rd := y\<rparr>)"
    using read_sealed_resp [OF sc _ _ _ b5 remB] by blast
  with a3
  have eqB: "resp = resp'" "respPacket = respPacket'" by auto
  from sc have "importPublicKey cs (copyInto pubLen (exportPubkey cs (PublicKey cs (randKey eB)))) =
                  OK (PublicKey cs (randKey eB))"
    unfolding suiteCorrect_def by blast
  with a4 [unfolded handleAuthResp_OK eqB] msgB
  have h2: "h2 = h1\<lparr>respNonce := RespNonce resp', remoteRandomPub := Some (PublicKey cs (randKey eB))\<rparr>"
    by auto
  have rn: "respNonce h2 = respNonce g2" by (simp add: h2 msgB g2)
  have inn: "initNonce h2 = initNonce g2" by (simp add: h2 g2 g1 nB)
  have kA: "randomPrivKey h2 = Some (randKey eA)" "remoteRandomPub h2 = Some (PublicKey cs (randKey eB))"
    "initiator h2" "remote h2 = Some (PublicKey cs prvB)"
    by (simp_all add: h2 h1 initiatorState_def)
  have kB: "randomPrivKey g2 = Some (randKey eB)" "remoteRandomPub g2 = Some (PublicKey cs (randKey eA))"
    "\<not> initiator g2" "remote g2 = Some (PublicKey cs prvA)"
    by (simp_all add: g2 g1 hB rrpv receiverState_def)
  from a6 b8 show ?thesis
    unfolding secrets_OK eqA eqB
    using kA kB rn inn sym [of "randKey eA" "randKey eB"]
    by auto
qed

subsection \<open>The small instance meets the laws\<close>

lemma demo_xor_twice: "map ((\<lambda>b. b XOR pk) \<circ> (\<lambda>b. b XOR pk)) m = (m :: bytes)"
  by (induction m) (simp_all add: xor.assoc)

lemma demo_version_unat:
  assumes "v < 128"
  shows "unat (ucast (v :: 64 word) :: byte) = unat v"
proof -
  from assms have "unat v < 128" by (simp add: word_less_nat_alt)
  then have "unat v < 2 ^ 8" by simp
  then have "take_bit 8 (unat v) = unat v" by (simp only: take_bit_nat_eq_self)
  then show "unat (ucast v :: byte) = unat v"
    by (simp add: unsigned_ucast_eq unsigned_take_bit_eq)
qed

lemma demo_version_unat':
  assumes "v < 128"
  shows "take_bit 8 (unat (v :: 64 word)) = unat v"
proof -
  from assms have "unat v < 128" by (simp add: word_less_nat_alt)
  then have "unat v < 2 ^ 8" by simp
  then show ?thesis by (simp only: take_bit_nat_eq_self)
qed

lemma demo_version_byte:
  "v < 128 \<Longrightarrow> (ucast (ucast (v :: 64 word) :: byte) :: 64 word) = v"
  by (simp add: word_unat_eq_iff demo_version_unat' unsigned_ucast_eq unsigned_take_bit_eq)

lemma demo_version_byte_bounds:
  "0 < v \<Longrightarrow> v < 128 \<Longrightarrow> 0 < (ucast (v :: 64 word) :: byte) \<and> (ucast v :: byte) < 128"
  by (simp add: word_less_nat_alt demo_version_unat)

lemma demo_decrypt_encrypt:
  "Encrypt demoCrypto rnd (PublicKey demoCrypto k) m = Some c \<Longrightarrow>
     Decrypt demoCrypto k c = Some m \<and> length c = length m + eciesOverhead"
  by (auto simp add: demoCrypto_def demo_xor_twice eciesOverhead_def)

lemma demo_auth_roundtrip:
  "rlpEncodeAuthMsg demoCrypto m = Some d \<Longrightarrow>
     length d + certSize = authMsgLen \<and>
     (\<exists>m'. rlpDecodeAuthMsg demoCrypto d = Some m' \<and> m'\<lparr>CertSize := CertSize m\<rparr> = m)"
  by (auto simp add: demoCrypto_def demoRlpEncodeAuthMsg_def demoRlpDecodeAuthMsg_def
        certSize_def authMsgLen_def sigLen_def pubLen_def shaLen_def nth_append
        demo_version_byte demo_version_byte_bounds split: if_splits)

lemma demo_resp_roundtrip:
  "rlpEncodeAuthResp demoCrypto m = Some d \<Longrightarrow>
     length d + certSize = authRespLen \<and>
     (\<exists>m'. rlpDecodeAuthResp demoCrypto d = Some m' \<and> m'\<lparr>RespCertSize := RespCertSize m\<rparr> = m)"
  by (auto simp add: demoCrypto_def demoRlpEncodeAuthResp_def demoRlpDecodeAuthResp_def
        certSize_def authRespLen_def pubLen_def shaLen_def nth_append
        demo_version_byte demo_version_byte_bounds split: if_splits)

lemma demo_import_static:
  "importPublicKey demoCrypto (copyInto pubLen (drop 1 (FromECDSAPub demoCrypto (PublicKey demoCrypto k)))) =
     OK (PublicKey demoCrypto k)"
  by (simp add: importPublicKey_def demoCrypto_def copyInto_def pubLen_def)

lemma demo_import_export:
  "importPublicKey demoCrypto (copyInto pubLen (exportPubkey demoCrypto (PublicKey demoCrypto k))) =
     OK (PublicKey demoCrypto k)"
  by (simp add: importPublicKey_def exportPubkey_def demoCrypto_def copyInto_def pubLen_def)

lemma demo_recover:
  "Sign demoCrypto d k = Some sg \<Longrightarrow> SigToPub demoCrypto d (copyInto sigLen sg) = Some (PublicKey demoCrypto k)"
  by (auto simp add: demoCrypto_def copyInto_def sigLen_def nth_append)

lemma demo_shared_sym:
  "GenerateShared demoCrypto a (PublicKey demoCrypto b) n l =
   GenerateShared demoCrypto b (PublicKey demoCrypto a) n l"
  by (simp add: demoCrypto_def mult.left_commute)

lemma suiteCorrect_demoCrypto: "suiteCorrect demoCrypto"
  unfolding suiteCorrect_def
  using demo_decrypt_encrypt demo_auth_roundtrip demo_resp_roundtrip demo_import_static
    demo_import_export demo_recover demo_shared_sym
  by blast

lemma isOK_iff: "isOK r \<longleftrightarrow> (\<exists>x. r = OK x)"
  by (cases r) (simp_all add: isOK_def)

subsection \<open>Key agreement\<close>

text \<open>
  Claim C1. A dials B with B's public key, B answers; each reads exactly what the other
  wrote (\<open>cA\<close> and \<open>cB\<close> are the connections as each side leaves them), the primitives
  satisfy their laws, and both runs return secrets \<open>sA\<close> and \<open>sB\<close>. Then the AES keys
  are equal, the MAC keys are equal, A's egress MAC state is B's ingress MAC state and
  A's ingress MAC state is B's egress MAC state.
\<close>

theorem handshake_agreement:
  assumes "suiteCorrect cs"
    and "initiatorEncHandshake cs cmA prvA (PublicKey cs prvB) eA \<lparr>rd = wr cB, wr = []\<rparr> = (OK sA, cA)"
    and "receiverEncHandshake cs cmB prvB eB \<lparr>rd = wr cA, wr = []\<rparr> = (OK sB, cB)"
  shows "AES sA = AES sB \<and> MAC sA = MAC sB \<and>
         EgressMAC sA = IngressMAC sB \<and> IngressMAC sA = EgressMAC sB"
  using handshake_agreement_aux [OF assms refl refl] by simp

text \<open>Claim C1, witness: the run of A (static key 5) with B (static key 7, public key 21).\<close>

theorem handshake_agreement_witness:
  "\<exists>sA cA sB cB.
     initiatorEncHandshake demoCrypto None 5 21 entA \<lparr>rd = wr cB, wr = []\<rparr> = (OK sA, cA) \<and>
     receiverEncHandshake demoCrypto None 7 entB \<lparr>rd = wr cA, wr = []\<rparr> = (OK sB, cB) \<and>
     AES sA = AES sB \<and> MAC sA = MAC sB \<and>
     EgressMAC sA = IngressMAC sB \<and> IngressMAC sA = EgressMAC sB"
proof -
  let ?A = "initiatorEncHandshake demoCrypto None 5 21 entA \<lparr>rd = demoRespPacket, wr = []\<rparr>"
  let ?B = "receiverEncHandshake demoCrypto None 7 entB \<lparr>rd = demoAuthPacket, wr = []\<rparr>"
  have a: "isOK (fst ?A)" by code_simp
  have b: "isOK (fst ?B)" by code_simp
  have wa: "wr (snd ?A) = demoAuthPacket" by code_simp
  have wb: "wr (snd ?B) = demoRespPacket" by (simp add: demoRespPacket_def)
  have pk: "PublicKey demoCrypto 7 = 21" by (simp add: demoCrypto_def)
  from a obtain sA where "fst ?A = OK sA" unfolding isOK_iff by blast
  then have A: "initiatorEncHandshake demoCrypto None 5 (PublicKey demoCrypto 7) entA
                  \<lparr>rd = wr (snd ?B), wr = []\<rparr> = (OK sA, snd ?A)"
    by (simp add: wb pk prod_eq_iff)
  from b obtain sB where "fst ?B = OK sB" unfolding isOK_iff by blast
  then have B: "receiverEncHandshake demoCrypto None 7 entB \<lparr>rd = wr (snd ?A), wr = []\<rparr> =
                  (OK sB, snd ?B)"
    by (simp add: wa prod_eq_iff)
  from handshake_agreement [OF suiteCorrect_demoCrypto A B] A B pk show ?thesis
    by (metis (no_types))
qed

subsection \<open>The key chain\<close>

text \<open>
  Claim C4. Whenever \<^verbatim>\<open>secrets\<close> returns, both ephemeral keys are in the handshake state,
  \<^verbatim>\<open>crypto.GenerateShared\<close> has returned a secret \<open>ecdheSecret\<close> for them, and in the result
  the AES key is \<open>H(ecdheSecret || H(ecdheSecret || H(respNonce || initNonce)))\<close> and the MAC
  key is \<open>H(ecdheSecret || aesKey)\<close>, with \<open>H\<close> the suite's \<^verbatim>\<open>Keccak256\<close>. And it does return
  when the keys are there, the key agreement succeeds, and digests and nonces have 32
  bytes.
\<close>

theorem secrets_key_chain:
  "(secrets cs h auth authResp = OK s \<longrightarrow>
      (\<exists>k p ecdheSecret.
         randomPrivKey h = Some k \<and> remoteRandomPub h = Some p \<and>
         GenerateShared cs k p sskLen sskLen = Some ecdheSecret \<and>
         AES s = Keccak256 cs (ecdheSecret @
                   Keccak256 cs (ecdheSecret @ Keccak256 cs (respNonce h @ initNonce h))) \<and>
         MAC s = Keccak256 cs (ecdheSecret @ AES s))) \<and>
   (randomPrivKey h = Some k \<and> remoteRandomPub h = Some p \<and>
    GenerateShared cs k p sskLen sskLen = Some e \<and>
    (\<forall>x. length (Keccak256 cs x) = 32) \<and>
    length (initNonce h) = 32 \<and> length (respNonce h) = 32 \<longrightarrow>
      (\<exists>s'. secrets cs h auth authResp = OK s'))"
proof (intro conjI impI)
  assume "secrets cs h auth authResp = OK s"
  then show "\<exists>k p ecdheSecret.
         randomPrivKey h = Some k \<and> remoteRandomPub h = Some p \<and>
         GenerateShared cs k p sskLen sskLen = Some ecdheSecret \<and>
         AES s = Keccak256 cs (ecdheSecret @
                   Keccak256 cs (ecdheSecret @ Keccak256 cs (respNonce h @ initNonce h))) \<and>
         MAC s = Keccak256 cs (ecdheSecret @ AES s)"
    unfolding secrets_OK by fastforce
next
  assume "randomPrivKey h = Some k \<and> remoteRandomPub h = Some p \<and>
    GenerateShared cs k p sskLen sskLen = Some e \<and>
    (\<forall>x. length (Keccak256 cs x) = 32) \<and>
    length (initNonce h) = 32 \<and> length (respNonce h) = 32"
  then show "\<exists>s'. secrets cs h auth authResp = OK s'"
    by (simp add: secrets_def Let_def xor_def)
qed

text \<open>Claim C4, witness: A's state after the exchange, with the ephemeral keys 11 and 39.\<close>

theorem secrets_key_chain_witness:
  "\<exists>s. secrets demoCrypto demoStateA [] [] = OK s \<and>
     AES s = Keccak256 demoCrypto (replicate 32 173 @
               Keccak256 demoCrypto (replicate 32 173 @
                 Keccak256 demoCrypto (respNonce demoStateA @ initNonce demoStateA))) \<and>
     MAC s = Keccak256 demoCrypto (replicate 32 173 @ AES s)"
proof -
  have 1: "randomPrivKey demoStateA = Some 11" "remoteRandomPub demoStateA = Some 39"
    by (simp_all add: demoStateA_def)
  have 2: "GenerateShared demoCrypto 11 39 sskLen sskLen = Some (replicate 32 173)"
    by (simp add: demoCrypto_def sskLen_def)
  have 3: "\<forall>x. length (Keccak256 demoCrypto x) = 32"
    by (simp add: demoCrypto_def demoHash_length)
  have 4: "length (initNonce demoStateA) = 32" "length (respNonce demoStateA) = 32"
    by (simp_all add: demoStateA_def)
  from secrets_key_chain [of demoCrypto demoStateA "[]" "[]" _ 11 39 "replicate 32 173"] 1 2 3 4
  obtain s where s: "secrets demoCrypto demoStateA [] [] = OK s" by blast
  from secrets_key_chain [of demoCrypto demoStateA "[]" "[]" s] s 1 2
  have "AES s = Keccak256 demoCrypto (replicate 32 173 @
               Keccak256 demoCrypto (replicate 32 173 @
                 Keccak256 demoCrypto (respNonce demoStateA @ initNonce demoStateA))) \<and>
     MAC s = Keccak256 demoCrypto (replicate 32 173 @ AES s)"
    by auto
  with s show ?thesis by blast
qed

subsection \<open>Version mismatch\<close>

lemma initiator_OK_version:
  assumes "fst (initiatorEncHandshake cs cm prv remotePub ent c) = OK s"
  shows "\<exists>authMsg h1 authPacket resp respPacket c1.
           makeAuthMsg cs (initiatorState cm remotePub) prv ent = OK (authMsg, h1) \<and>
           sealPlainAuthMsg cs authMsg h1 ent = OK authPacket \<and>
           readHandshakeMsg cs (rlpDecodeAuthResp cs) setCertSizeAuthResp encAuthRespLen prv
             (c\<lparr>wr := wr c @ authPacket\<rparr>) = (OK (resp, respPacket), c1) \<and>
           RespVersion resp = Version authMsg"
proof -
  from assms have "initiatorEncHandshake cs cm prv remotePub ent c =
      (OK s, snd (initiatorEncHandshake cs cm prv remotePub ent c))"
    by (simp add: prod_eq_iff)
  then obtain authMsg h1 authPacket resp respPacket c1 h2 where
    f: "makeAuthMsg cs (initiatorState cm remotePub) prv ent = OK (authMsg, h1)"
       "sealPlainAuthMsg cs authMsg h1 ent = OK authPacket"
       "readHandshakeMsg cs (rlpDecodeAuthResp cs) setCertSizeAuthResp encAuthRespLen prv
          (c\<lparr>wr := wr c @ authPacket\<rparr>) = (OK (resp, respPacket), c1)"
       "handleAuthResp cs h1 resp = OK h2"
    unfolding initiator_OK by blast
  from f(4) have "RespVersion resp = TaiRLPXVersion" by (auto simp add: handleAuthResp_OK)
  with makeAuthMsg_Version [OF f(1)] have "RespVersion resp = Version authMsg" by simp
  with f(1-3) show ?thesis by blast
qed

lemma receiver_OK_version:
  assumes "fst (receiverEncHandshake cs cm prv ent c) = OK s"
  shows "\<exists>authMsg authPacket c1 h1 resp h2.
           readHandshakeMsg cs (rlpDecodeAuthMsg cs) setCertSizeAuthMsg encAuthMsgLen prv c =
             (OK (authMsg, authPacket), c1) \<and>
           handleAuthMsg cs (receiverState cm) authMsg prv ent = OK h1 \<and>
           makeAuthResp cs h1 ent = OK (resp, h2) \<and>
           Version authMsg = RespVersion resp"
proof -
  from assms have "receiverEncHandshake cs cm prv ent c =
      (OK s, snd (receiverEncHandshake cs cm prv ent c))"
    by (simp add: prod_eq_iff)
  then obtain authMsg authPacket c1 h1 resp h2 where
    f: "readHandshakeMsg cs (rlpDecodeAuthMsg cs) setCertSizeAuthMsg encAuthMsgLen prv c =
          (OK (authMsg, authPacket), c1)"
       "handleAuthMsg cs (receiverState cm) authMsg prv ent = OK h1"
       "makeAuthResp cs h1 ent = OK (resp, h2)"
       "Version authMsg = TaiRLPXVersion"
    unfolding receiver_OK by blast
  from makeAuthResp_Version [OF f(3)] f(4) have "Version authMsg = RespVersion resp" by simp
  with f(1-3) show ?thesis by blast
qed

text \<open>
  Claim C6. The initiator returns the version error \<^verbatim>\<open>enc AuthResp %d version error\<close>
  exactly when it has sent its auth message and read a response whose version \<open>v\<close>
  differs from the version of the auth message; the receiver returns
  \<^verbatim>\<open>enc handshake %d version error\<close> exactly when it has read an auth message that
  passes \<^verbatim>\<open>handleAuthMsg\<close> and the certificate-size checks and whose version \<open>v\<close> differs
  from the version of the response it has made. Either side returns secrets only when
  the two version fields are equal.
\<close>

theorem version_mismatch_no_secrets:
  "(fst (initiatorEncHandshake cs cmA prvA remotePub eA cA) = Error (ErrAuthRespVersion v) \<longleftrightarrow>
     (\<exists>authMsg h1 authPacket resp respPacket c1.
        makeAuthMsg cs (initiatorState cmA remotePub) prvA eA = OK (authMsg, h1) \<and>
        sealPlainAuthMsg cs authMsg h1 eA = OK authPacket \<and>
        readHandshakeMsg cs (rlpDecodeAuthResp cs) setCertSizeAuthResp encAuthRespLen prvA
          (cA\<lparr>wr := wr cA @ authPacket\<rparr>) = (OK (resp, respPacket), c1) \<and>
        RespVersion resp = v \<and> v \<noteq> Version authMsg)) \<and>
   (fst (receiverEncHandshake cs cmB prvB eB cB) = Error (ErrHandshakeVersion w) \<longleftrightarrow>
     (\<exists>authMsg authPacket c1 h1 found resp h2 respPacket.
        readHandshakeMsg cs (rlpDecodeAuthMsg cs) setCertSizeAuthMsg encAuthMsgLen prvB cB =
          (OK (authMsg, authPacket), c1) \<and>
        handleAuthMsg cs (receiverState cmB) authMsg prvB eB = OK h1 \<and>
        receiverCertSizes cmB authMsg = OK found \<and>
        makeAuthResp cs h1 eB = OK (resp, h2) \<and>
        sealPlainAuthResp cs resp h2 eB = OK respPacket \<and>
        Version authMsg = w \<and> w \<noteq> RespVersion resp)) \<and>
   (\<forall>s. fst (initiatorEncHandshake cs cmA prvA remotePub eA cA) = OK s \<longrightarrow>
     (\<exists>authMsg h1 authPacket resp respPacket c1.
        makeAuthMsg cs (initiatorState cmA remotePub) prvA eA = OK (authMsg, h1) \<and>
        sealPlainAuthMsg cs authMsg h1 eA = OK authPacket \<and>
        readHandshakeMsg cs (rlpDecodeAuthResp cs) setCertSizeAuthResp encAuthRespLen prvA
          (cA\<lparr>wr := wr cA @ authPacket\<rparr>) = (OK (resp, respPacket), c1) \<and>
        RespVersion resp = Version authMsg)) \<and>
   (\<forall>s. fst (receiverEncHandshake cs cmB prvB eB cB) = OK s \<longrightarrow>
     (\<exists>authMsg authPacket c1 h1 resp h2.
        readHandshakeMsg cs (rlpDecodeAuthMsg cs) setCertSizeAuthMsg encAuthMsgLen prvB cB =
          (OK (authMsg, authPacket), c1) \<and>
        handleAuthMsg cs (receiverState cmB) authMsg prvB eB = OK h1 \<and>
        makeAuthResp cs h1 eB = OK (resp, h2) \<and>
        Version authMsg = RespVersion resp))"
proof (intro conjI allI impI)
  show "fst (initiatorEncHandshake cs cmA prvA remotePub eA cA) = Error (ErrAuthRespVersion v) \<longleftrightarrow>
     (\<exists>authMsg h1 authPacket resp respPacket c1.
        makeAuthMsg cs (initiatorState cmA remotePub) prvA eA = OK (authMsg, h1) \<and>
        sealPlainAuthMsg cs authMsg h1 eA = OK authPacket \<and>
        readHandshakeMsg cs (rlpDecodeAuthResp cs) setCertSizeAuthResp encAuthRespLen prvA
          (cA\<lparr>wr := wr cA @ authPacket\<rparr>) = (OK (resp, respPacket), c1) \<and>
        RespVersion resp = v \<and> v \<noteq> Version authMsg)"
    by (rule initiator_Error_version)
  show "fst (receiverEncHandshake cs cmB prvB eB cB) = Error (ErrHandshakeVersion w) \<longleftrightarrow>
     (\<exists>authMsg authPacket c1 h1 found resp h2 respPacket.
        readHandshakeMsg cs (rlpDecodeAuthMsg cs) setCertSizeAuthMsg encAuthMsgLen prvB cB =
          (OK (authMsg, authPacket), c1) \<and>
        handleAuthMsg cs (receiverState cmB) authMsg prvB eB = OK h1 \<and>
        receiverCertSizes cmB authMsg = OK found \<and>
        makeAuthResp cs h1 eB = OK (resp, h2) \<and>
        sealPlainAuthResp cs resp h2 eB = OK respPacket \<and>
        Version authMsg = w \<and> w \<noteq> RespVersion resp)"
    by (rule receiver_Error_version)
qed (erule initiator_OK_version, erule receiver_OK_version)

text \<open>
  Claim C6, witness: A reads a response of version 16, B reads an auth message of
  version 16, and the run in which both versions are 15 returns secrets on both sides.
\<close>

theorem version_mismatch_no_secrets_witness:
  "fst (initiatorEncHandshake demoCrypto None 5 21 entA \<lparr>rd = demoBadVersionResp, wr = []\<rparr>) =
     Error (ErrAuthRespVersion 16) \<and>
   (\<exists>authMsg h1 authPacket resp respPacket c1.
      makeAuthMsg demoCrypto (initiatorState None 21) 5 entA = OK (authMsg, h1) \<and>
      sealPlainAuthMsg demoCrypto authMsg h1 entA = OK authPacket \<and>
      readHandshakeMsg demoCrypto (rlpDecodeAuthResp demoCrypto) setCertSizeAuthResp encAuthRespLen 5
        (\<lparr>rd = demoBadVersionResp, wr = []\<rparr>\<lparr>wr := wr \<lparr>rd = demoBadVersionResp, wr = []\<rparr> @ authPacket\<rparr>) =
        (OK (resp, respPacket), c1) \<and>
      RespVersion resp = 16 \<and> 16 \<noteq> Version authMsg) \<and>
   fst (receiverEncHandshake demoCrypto None 7 entB \<lparr>rd = demoBadVersionAuth, wr = []\<rparr>) =
     Error (ErrHandshakeVersion 16) \<and>
   (\<exists>authMsg authPacket c1 h1 resp h2.
      readHandshakeMsg demoCrypto (rlpDecodeAuthMsg demoCrypto) setCertSizeAuthMsg encAuthMsgLen 7
        \<lparr>rd = demoAuthPacket, wr = []\<rparr> = (OK (authMsg, authPacket), c1) \<and>
      handleAuthMsg demoCrypto (receiverState None) authMsg 7 entB = OK h1 \<and>
      makeAuthResp demoCrypto h1 entB = OK (resp, h2) \<and>
      Version authMsg = RespVersion resp)"
proof -
  let ?cA = "\<lparr>rd = demoBadVersionResp, wr = []\<rparr>"
  let ?cB = "\<lparr>rd = demoBadVersionAuth, wr = []\<rparr>"
  let ?cB' = "\<lparr>rd = demoAuthPacket, wr = []\<rparr>"
  note inst = version_mismatch_no_secrets [of demoCrypto None 5 21 entA ?cA 16 None 7 entB]
  have a: "fst (initiatorEncHandshake demoCrypto None 5 21 entA ?cA) = Error (ErrAuthRespVersion 16)"
    by code_simp
  have b: "fst (receiverEncHandshake demoCrypto None 7 entB ?cB) = Error (ErrHandshakeVersion 16)"
    by code_simp
  have c: "isOK (fst (receiverEncHandshake demoCrypto None 7 entB ?cB'))"
    by code_simp
  then obtain s where s: "fst (receiverEncHandshake demoCrypto None 7 entB ?cB') = OK s"
    unfolding isOK_iff by blast
  from inst [of ?cB 16] a have 1: "\<exists>authMsg h1 authPacket resp respPacket c1.
      makeAuthMsg demoCrypto (initiatorState None 21) 5 entA = OK (authMsg, h1) \<and>
      sealPlainAuthMsg demoCrypto authMsg h1 entA = OK authPacket \<and>
      readHandshakeMsg demoCrypto (rlpDecodeAuthResp demoCrypto) setCertSizeAuthResp encAuthRespLen 5
        (?cA\<lparr>wr := wr ?cA @ authPacket\<rparr>) = (OK (resp, respPacket), c1) \<and>
      RespVersion resp = 16 \<and> 16 \<noteq> Version authMsg"
    by blast
  from inst [of ?cB' 16] s have 2: "\<exists>authMsg authPacket c1 h1 resp h2.
      readHandshakeMsg demoCrypto (rlpDecodeAuthMsg demoCrypto) setCertSizeAuthMsg encAuthMsgLen 7
        ?cB' = (OK (authMsg, authPacket), c1) \<and>
      handleAuthMsg demoCrypto (receiverState None) authMsg 7 entB = OK h1 \<and>
      makeAuthResp demoCrypto h1 entB = OK (resp, h2) \<and>
      Version authMsg = RespVersion resp"
    by blast
  from a 1 b 2 show ?thesis by blast
qed

subsection \<open>Certificate identity\<close>

text \<open>
  Claim C7. Either side returns the error \<^verbatim>\<open>cert not match private key\<close> exactly when
  the base handshake has gone through, the certificate sizes agree, and the certificate it
  then reads passes \<^verbatim>\<open>VerifyCert\<close> and holds a public key other than the remote static
  key: the key the initiator dialled, the key the receiver imported from the auth
  message. The result is then that error and no secrets.
\<close>

theorem cert_identity_mismatch:
  "(fst (initiatorEncHandshake cs cmA prvA remotePub eA cA) = Error ErrCertNotMatch \<longleftrightarrow>
     (\<exists>authMsg h1 authPacket resp respPacket c1 h2 m buf rest pub.
        makeAuthMsg cs (initiatorState cmA remotePub) prvA eA = OK (authMsg, h1) \<and>
        sealPlainAuthMsg cs authMsg h1 eA = OK authPacket \<and>
        readHandshakeMsg cs (rlpDecodeAuthResp cs) setCertSizeAuthResp encAuthRespLen prvA
          (cA\<lparr>wr := wr cA @ authPacket\<rparr>) = (OK (resp, respPacket), c1) \<and>
        handleAuthResp cs h1 resp = OK h2 \<and>
        cmA = Some m \<and> cert m \<noteq> [] \<and> RespCertSize resp \<noteq> 0 \<and>
        of_nat (length (cert m)) = RespCertSize resp \<and>
        ReadFull (unat (RespCertSize resp)) (rd c1) = OK (buf, rest) \<and>
        VerifyCert m buf \<and> FromCertBytesToPubKey cs buf = Some pub \<and> pub \<noteq> remotePub)) \<and>
   (fst (receiverEncHandshake cs cmB prvB eB cB) = Error ErrCertNotMatch \<longleftrightarrow>
     (\<exists>authMsg authPacket c1 h1 resp h2 respPacket m buf rest pub rpub.
        readHandshakeMsg cs (rlpDecodeAuthMsg cs) setCertSizeAuthMsg encAuthMsgLen prvB cB =
          (OK (authMsg, authPacket), c1) \<and>
        handleAuthMsg cs (receiverState cmB) authMsg prvB eB = OK h1 \<and>
        receiverCertSizes cmB authMsg = OK True \<and>
        makeAuthResp cs h1 eB = OK (resp, h2) \<and>
        sealPlainAuthResp cs resp h2 eB = OK respPacket \<and>
        Version authMsg = TaiRLPXVersion \<and> cmB = Some m \<and>
        ReadFull (unat (CertSize authMsg)) (rd c1) = OK (buf, rest) \<and>
        VerifyCert m buf \<and> FromCertBytesToPubKey cs buf = Some pub \<and>
        importPublicKey cs (InitiatorPubkey authMsg) = OK rpub \<and> pub \<noteq> rpub))"
  using initiator_Error_cert [of cs cmA prvA remotePub eA cA]
    receiver_Error_cert [of cs cmB prvB eB cB]
  by (rule conjI)

text \<open>
  Claim C7, witness: each side holds a certificate and is sent \<open>[99, 8, 9]\<close>, which the
  authority accepts and which names the key 99, not the peer's.
\<close>

theorem cert_identity_mismatch_witness:
  "fst (initiatorEncHandshake demoCrypto (Some demoCmA) 5 21 entA
          \<lparr>rd = demoCertRespPacket @ [99, 8, 9], wr = []\<rparr>) = Error ErrCertNotMatch \<and>
   fst (receiverEncHandshake demoCrypto (Some demoCmB) 7 entB
          \<lparr>rd = demoCertAuthPacket @ [99, 8, 9], wr = []\<rparr>) = Error ErrCertNotMatch \<and>
   (\<exists>buf pub. VerifyCert demoCmA buf \<and> FromCertBytesToPubKey demoCrypto buf = Some pub \<and> pub \<noteq> 21)"
proof -
  let ?cA = "\<lparr>rd = demoCertRespPacket @ [99, 8, 9], wr = []\<rparr>"
  let ?cB = "\<lparr>rd = demoCertAuthPacket @ [99, 8, 9], wr = []\<rparr>"
  note inst = cert_identity_mismatch [of demoCrypto "Some demoCmA" 5 21 entA ?cA "Some demoCmB" 7 entB ?cB]
  have a: "fst (initiatorEncHandshake demoCrypto (Some demoCmA) 5 21 entA ?cA) = Error ErrCertNotMatch"
    by code_simp
  have b: "fst (receiverEncHandshake demoCrypto (Some demoCmB) 7 entB ?cB) = Error ErrCertNotMatch"
    by code_simp
  from inst a have "(\<exists>authMsg h1 authPacket resp respPacket c1 h2 m buf rest pub.
        makeAuthMsg demoCrypto (initiatorState (Some demoCmA) 21) 5 entA = OK (authMsg, h1) \<and>
        sealPlainAuthMsg demoCrypto authMsg h1 entA = OK authPacket \<and>
        readHandshakeMsg demoCrypto (rlpDecodeAuthResp demoCrypto) setCertSizeAuthResp encAuthRespLen 5
          (?cA\<lparr>wr := wr ?cA @ authPacket\<rparr>) = (OK (resp, respPacket), c1) \<and>
        handleAuthResp demoCrypto h1 resp = OK h2 \<and>
        (Some demoCmA) = Some m \<and> cert m \<noteq> [] \<and> RespCertSize resp \<noteq> 0 \<and>
        of_nat (length (cert m)) = RespCertSize resp \<and>
        ReadFull (unat (RespCertSize resp)) (rd c1) = OK (buf, rest) \<and>
        VerifyCert m buf \<and> FromCertBytesToPubKey demoCrypto buf = Some pub \<and> pub \<noteq> 21)"
    by blast
  then have "\<exists>buf pub. VerifyCert demoCmA buf \<and> FromCertBytesToPubKey demoCrypto buf = Some pub \<and> pub \<noteq> 21"
    by blast
  with a b show ?thesis by blast
qed

subsection \<open>Undecryptable and undecodable packets\<close>

text \<open>
  What the two sides do with a packet they cannot open or cannot decode. The receiver
  returns the error \<^verbatim>\<open>Decrypt error\<close> exactly when it has read a whole packet and
  \<^verbatim>\<open>crypto.Decrypt\<close> fails on it. When the packet decrypts to at least two bytes and the
  rest does not decode as an auth message, the receiver does not return:
  \<^verbatim>\<open>decodePlain\<close> panics with \<^verbatim>\<open>authRespV4 decode error\<close>, and this is the only way it ends in
  that panic. The same holds for the initiator and the response, once it has made and
  sealed its auth message.
\<close>

theorem undecryptable_error_undecodable_panic:
  "(fst (receiverEncHandshake cs cmB prvB eB cB) = Error ErrDecrypt \<longleftrightarrow>
     (\<exists>buf rest. ReadFull encAuthMsgLen (rd cB) = OK (buf, rest) \<and> Decrypt cs prvB buf = None)) \<and>
   (fst (receiverEncHandshake cs cmB prvB eB cB) = Panic ''authRespV4 decode error'' \<longleftrightarrow>
     (\<exists>buf rest plain. ReadFull encAuthMsgLen (rd cB) = OK (buf, rest) \<and>
        Decrypt cs prvB buf = Some plain \<and> 2 \<le> length plain \<and>
        rlpDecodeAuthMsg cs (drop 2 plain) = None)) \<and>
   (fst (initiatorEncHandshake cs cmA prvA remotePub eA cA) = Error ErrDecrypt \<longleftrightarrow>
     (\<exists>authMsg h1 authPacket buf rest.
        makeAuthMsg cs (initiatorState cmA remotePub) prvA eA = OK (authMsg, h1) \<and>
        sealPlainAuthMsg cs authMsg h1 eA = OK authPacket \<and>
        ReadFull encAuthRespLen (rd cA) = OK (buf, rest) \<and> Decrypt cs prvA buf = None)) \<and>
   (fst (initiatorEncHandshake cs cmA prvA remotePub eA cA) = Panic ''authRespV4 decode error'' \<longleftrightarrow>
     (\<exists>authMsg h1 authPacket buf rest plain.
        makeAuthMsg cs (initiatorState cmA remotePub) prvA eA = OK (authMsg, h1) \<and>
        sealPlainAuthMsg cs authMsg h1 eA = OK authPacket \<and>
        ReadFull encAuthRespLen (rd cA) = OK (buf, rest) \<and>
        Decrypt cs prvA buf = Some plain \<and> 2 \<le> length plain \<and>
        rlpDecodeAuthResp cs (drop 2 plain) = None))"
  using receiver_Error_ErrDecrypt [of cs cmB prvB eB cB]
    receiver_Panic_decode [of cs cmB prvB eB cB]
    initiator_Error_ErrDecrypt [of cs cmA prvA remotePub eA cA]
    initiator_Panic_decode [of cs cmA prvA remotePub eA cA]
  by (intro conjI)

text \<open>
  An instance: 317 zero bytes are no packet for B's key, 217 zero bytes none for A's;
  \<open>demoGarbledAuth\<close> and \<open>demoGarbledResp\<close> open and do not decode.
\<close>

theorem undecryptable_error_undecodable_panic_witness:
  "fst (receiverEncHandshake demoCrypto None 7 entB \<lparr>rd = replicate 317 0, wr = []\<rparr>) = Error ErrDecrypt \<and>
   fst (initiatorEncHandshake demoCrypto None 5 21 entA \<lparr>rd = replicate 217 0, wr = []\<rparr>) = Error ErrDecrypt \<and>
   (\<exists>buf rest plain. ReadFull encAuthMsgLen demoGarbledAuth = OK (buf, rest) \<and>
      Decrypt demoCrypto 7 buf = Some plain \<and> 2 \<le> length plain \<and>
      rlpDecodeAuthMsg demoCrypto (drop 2 plain) = None) \<and>
   (\<exists>buf rest plain. ReadFull encAuthRespLen demoGarbledResp = OK (buf, rest) \<and>
      Decrypt demoCrypto 5 buf = Some plain \<and> 2 \<le> length plain \<and>
      rlpDecodeAuthResp demoCrypto (drop 2 plain) = None)"
proof -
  let ?z = "replicate 317 (0 :: byte)"
  let ?z' = "replicate 217 (0 :: byte)"
  have r: "ReadFull encAuthMsgLen ?z = OK (?z, [])"
    by (simp add: ReadFull_def encAuthMsgLen_def authMsgLen_def eciesOverhead_def sigLen_def
          pubLen_def shaLen_def certSize_def)
  have d: "Decrypt demoCrypto 7 ?z = None" by code_simp
  have r': "ReadFull encAuthRespLen ?z' = OK (?z', [])"
    by (simp add: ReadFull_def encAuthRespLen_def authRespLen_def eciesOverhead_def
          pubLen_def shaLen_def certSize_def)
  have d': "Decrypt demoCrypto 5 ?z' = None" by code_simp
  have m: "isOK (makeAuthMsg demoCrypto (initiatorState None 21) 5 entA)" by code_simp
  then obtain authMsg h1 where m1: "makeAuthMsg demoCrypto (initiatorState None 21) 5 entA = OK (authMsg, h1)"
    unfolding isOK_iff by auto
  have "isOK (andThen (makeAuthMsg demoCrypto (initiatorState None 21) 5 entA)
                (\<lambda>(msg, h). sealPlainAuthMsg demoCrypto msg h entA))"
    by code_simp
  with m1 obtain authPacket where m2: "sealPlainAuthMsg demoCrypto authMsg h1 entA = OK authPacket"
    unfolding isOK_iff by auto
  have pB: "fst (receiverEncHandshake demoCrypto None 7 entB \<lparr>rd = demoGarbledAuth, wr = []\<rparr>) =
              Panic ''authRespV4 decode error''"
    by code_simp
  have pA: "fst (initiatorEncHandshake demoCrypto None 5 21 entA \<lparr>rd = demoGarbledResp, wr = []\<rparr>) =
              Panic ''authRespV4 decode error''"
    by code_simp
  note i1 = undecryptable_error_undecodable_panic
              [of demoCrypto None 7 entB "\<lparr>rd = ?z, wr = []\<rparr>" None 5 21 entA "\<lparr>rd = ?z', wr = []\<rparr>"]
  note i2 = undecryptable_error_undecodable_panic
              [of demoCrypto None 7 entB "\<lparr>rd = demoGarbledAuth, wr = []\<rparr>" None 5 21 entA
                  "\<lparr>rd = demoGarbledResp, wr = []\<rparr>"]
  from i1 r d have 1: "fst (receiverEncHandshake demoCrypto None 7 entB \<lparr>rd = ?z, wr = []\<rparr>) = Error ErrDecrypt"
    by simp
  from i1 r' d' m1 m2
  have 2: "fst (initiatorEncHandshake demoCrypto None 5 21 entA \<lparr>rd = ?z', wr = []\<rparr>) = Error ErrDecrypt"
    by auto
  from i2 pB have 3: "\<exists>buf rest plain. ReadFull encAuthMsgLen demoGarbledAuth = OK (buf, rest) \<and>
      Decrypt demoCrypto 7 buf = Some plain \<and> 2 \<le> length plain \<and>
      rlpDecodeAuthMsg demoCrypto (drop 2 plain) = None"
    by simp
  from i2 pA have 4: "\<exists>buf rest plain. ReadFull encAuthRespLen demoGarbledResp = OK (buf, rest) \<and>
      Decrypt demoCrypto 5 buf = Some plain \<and> 2 \<le> length plain \<and>
      rlpDecodeAuthResp demoCrypto (drop 2 plain) = None"
    by auto
  from 1 2 3 4 show ?thesis by blast
qed

text \<open>
  Claim C9, at the failing input. B's key opens the packet \<open>demoGarbledAuth\<close>, the plaintext
  is no auth message, and the receiver ends in the panic of \<^verbatim>\<open>decodePlain\<close>, not in an
  error it returns, although a failing read and a failing decryption of the same packet
  are errors it returns; so does the initiator on a response of that kind.
\<close>

theorem undecodable_packet_panics:
  "fst (receiverEncHandshake demoCrypto None 7 entB \<lparr>rd = demoGarbledAuth, wr = []\<rparr>) =
     Panic ''authRespV4 decode error'' \<and>
   fst (initiatorEncHandshake demoCrypto None 5 21 entA \<lparr>rd = demoGarbledResp, wr = []\<rparr>) =
     Panic ''authRespV4 decode error''"
  by code_simp

subsection \<open>The digest the initiator signs\<close>

lemma makeAuthMsg_digest:
  assumes "makeAuthMsg cs h prv ent = OK (msg, h1)"
  shows "\<exists>rp token signed sg.
           remote h = Some rp \<and> GenerateShared cs prv rp sskLen sskLen = Some token \<and>
           xor token (initNonce h1) = OK signed \<and> length signed = length token \<and>
           Sign cs signed (randKey ent) = Some sg \<and> Signature msg = copyInto sigLen sg"
proof -
  from assms obtain signed sg where
    f: "h1 = h\<lparr>initNonce := copyInto shaLen (randNonce ent), randomPrivKey := Some (randKey ent)\<rparr>"
       "signedDigest cs h1 prv = OK signed" "Sign cs signed (randKey ent) = Some sg"
       "Signature msg = copyInto sigLen sg"
    by (auto simp add: makeAuthMsg_OK)
  from f(2) obtain rp token where
    g: "remote h1 = Some rp" "GenerateShared cs prv rp sskLen sskLen = Some token"
       "xor token (initNonce h1) = OK signed"
    unfolding signedDigest_OK by blast
  from g(1) f(1) have "remote h = Some rp" by simp
  moreover from g(3) have "length signed = length token" by (simp add: xor_OK_props)
  ultimately show ?thesis using g(2,3) f(3,4) by blast
qed

text \<open>
  The part of claim C10 that the code of \<^verbatim>\<open>rlpx.go\<close> decides. When \<^verbatim>\<open>xor(one, other)\<close>
  returns, the result is as long as \<open>one\<close> and its byte \<open>i\<close> is \<open>one[i] XOR other[i]\<close>, and it
  returns whenever \<open>other\<close> is at least as long as \<open>one\<close>. So the digest signed in
  \<^verbatim>\<open>makeAuthMsg\<close>, \<^verbatim>\<open>xor(token, h.initNonce)\<close>, is as long as the token that
  \<^verbatim>\<open>crypto.GenerateShared(prv, h.remote, sskLen, sskLen)\<close> returned. How long that token is,
  is decided by the key agreement of \<^verbatim>\<open>crypto/ecies\<close> and \<^verbatim>\<open>crypto/gm/sm2\<close>, which the model
  takes as a parameter.
\<close>

theorem xor_length_signed_digest:
  "(xor one other = OK r \<longrightarrow>
      length r = length one \<and> (\<forall>i < length one. r ! i = (one ! i) XOR (other ! i))) \<and>
   (length one \<le> length other \<longrightarrow> (\<exists>r. xor one other = OK r)) \<and>
   (makeAuthMsg cs h prv ent = OK (msg, h1) \<longrightarrow>
      (\<exists>rp token signed sg.
         remote h = Some rp \<and> GenerateShared cs prv rp sskLen sskLen = Some token \<and>
         xor token (initNonce h1) = OK signed \<and> length signed = length token \<and>
         Sign cs signed (randKey ent) = Some sg \<and> Signature msg = copyInto sigLen sg))"
proof (intro conjI impI)
  assume "xor one other = OK r"
  then show "length r = length one" by (simp add: xor_OK_props)
next
  assume "xor one other = OK r"
  then show "\<forall>i < length one. r ! i = (one ! i) XOR (other ! i)" by (simp add: xor_OK_props)
next
  assume "length one \<le> length other"
  then show "\<exists>r. xor one other = OK r" by (simp add: xor_def)
next
  assume "makeAuthMsg cs h prv ent = OK (msg, h1)"
  then show "\<exists>rp token signed sg.
         remote h = Some rp \<and> GenerateShared cs prv rp sskLen sskLen = Some token \<and>
         xor token (initNonce h1) = OK signed \<and> length signed = length token \<and>
         Sign cs signed (randKey ent) = Some sg \<and> Signature msg = copyInto sigLen sg"
    by (rule makeAuthMsg_digest)
qed

text \<open>
  An instance: two bytes against three, and the auth message of A, whose token and
  digest have the same length.
\<close>

theorem xor_length_signed_digest_witness:
  "xor [1, 2] [3, 4, 5] = OK [2, 6] \<and> length [2, 6 :: byte] = length [1, 2 :: byte] \<and>
   (\<exists>r. xor [1, 2] [3, 4, 5] = OK r) \<and>
   (\<exists>msg h1 token signed.
      makeAuthMsg demoCrypto (initiatorState None 21) 5 entA = OK (msg, h1) \<and>
      GenerateShared demoCrypto 5 21 sskLen sskLen = Some token \<and>
      xor token (initNonce h1) = OK signed \<and> length signed = length token)"
proof -
  have x: "xor [1, 2] [3, 4, 5] = OK [2, 6]" by code_simp
  have "isOK (makeAuthMsg demoCrypto (initiatorState None 21) 5 entA)" by code_simp
  then obtain msg h1 where m: "makeAuthMsg demoCrypto (initiatorState None 21) 5 entA = OK (msg, h1)"
    unfolding isOK_iff by auto
  have rm: "remote (initiatorState None 21 :: (byte, byte) encHandshake) = Some 21"
    by (simp add: initiatorState_def)
  note i1 = xor_length_signed_digest
              [of "[1, 2]" "[3, 4, 5]" "[2, 6]" demoCrypto "initiatorState None 21" 5 entA msg h1]
  from i1 x have 1: "length [2, 6 :: byte] = length [1, 2 :: byte]" by blast
  from i1 have 2: "\<exists>r. xor [1, 2] [3, 4, 5 :: byte] = OK r" by simp
  from i1 m rm have 3: "\<exists>token signed.
      GenerateShared demoCrypto 5 21 sskLen sskLen = Some token \<and>
      xor token (initNonce h1) = OK signed \<and> length signed = length token"
    by auto
  from x 1 2 3 m show ?thesis by blast
qed

subsection \<open>From the handshake to the frame codec\<close>

text \<open>
  The codecs the two sides build from their secrets are matched in both directions:
  what A writes B reads, and what B writes A reads.
\<close>

lemma handshake_gives_matched_codecs:
  assumes "suiteCorrect cs"
    and "initiatorEncHandshake cs cmA prvA (PublicKey cs prvB) eA \<lparr>rd = wr cB, wr = []\<rparr> = (OK sA, cA)"
    and "receiverEncHandshake cs cmB prvB eB \<lparr>rd = wr cA, wr = []\<rparr> = (OK sB, cB)"
    and "newRLPXFrameRW cA' sA = OK rA" and "newRLPXFrameRW cB' sB = OK rB"
  shows "matched rA rB \<and> matched rB rA"
proof -
  from handshake_agreement_aux [OF assms(1-3) refl refl]
  have e: "AES sA = AES sB" "MAC sA = MAC sB" "EgressMAC sA = IngressMAC sB"
    "IngressMAC sA = EgressMAC sB"
    by simp_all
  from assms(4,5) e show ?thesis
    by (auto simp add: newRLPXFrameRW_def matched_def split: if_splits)
qed

end
